theory Spec2Isabelle
  imports Main "HOL-Library.Word"
begin

unbundle bit_operations_syntax

section \<open>Machine integers and shared constants\<close>

text \<open>
  The contract is AssemblyScript: \<open>u8\<close>, \<open>u16\<close>, \<open>u32\<close>, \<open>u64\<close> and the 128-bit
  \<open>u128\<close> of as-bignum are fixed-width and wrap around. \<open>i8\<close> values (outcomes,
  wildcard decisions) are kept as 8-bit words in two's complement: \<open>-1\<close> is \<open>255\<close>, and
  the source only ever compares them for equality.
\<close>

type_synonym u8 = "8 word"
type_synonym i8 = "8 word"
type_synonym u16 = "16 word"
type_synonym u32 = "32 word"
type_synonym i32 = "32 word"
type_synonym u64 = "64 word"
type_synonym u128 = "128 word"

definition ODDS_SCALE_U128 :: u128 where
  "ODDS_SCALE_U128 = 1000000"

definition BASIS_POINTS :: u64 where
  "BASIS_POINTS = 10000"

definition DEFAULT_HOUSE_EDGE_BPS :: u16 where
  "DEFAULT_HOUSE_EDGE_BPS = 500"

definition ADMIN_ROLE :: string where
  "ADMIN_ROLE = ''admin''"

definition PAUSER_ROLE :: string where
  "PAUSER_ROLE = ''pauser''"

definition TREASURY_BALANCE_KEY :: string where
  "TREASURY_BALANCE_KEY = ''treasury_balance''"

definition TOTAL_BETS_PLACED_KEY :: string where
  "TOTAL_BETS_PLACED_KEY = ''total_bets_placed''"

definition TOTAL_BETS_CLAIMED_KEY :: string where
  "TOTAL_BETS_CLAIMED_KEY = ''total_bets_claimed''"

definition SINGLE_POOL_COUNT_KEY :: string where
  "SINGLE_POOL_COUNT_KEY = ''single_pool_count''"

definition MULTIPOOL_COUNT_KEY :: string where
  "MULTIPOOL_COUNT_KEY = ''multipool_count''"

definition BETTING_STREAK_PREFIX :: string where
  "BETTING_STREAK_PREFIX = ''streak:''"

section \<open>Texts and numbers of the platform\<close>

text \<open>
  The contract stores its counters as decimal text and reads them back with the
  AssemblyScript library function \<open>parseInt\<close>, which returns a 64-bit float; a betslip
  stores its selections as text and splits that text again. This section models the
  library functions involved. Texts are lists of 8-bit characters.

  A float is modelled by its sign and its magnitude when it is a whole number, which is
  all \<open>parseInt\<close> returns; \<open>None\<close> is NaN. \<open>f64_round\<close> rounds a natural number to the
  nearest float (53 significant bits, ties to the even significand), the rounding of every
  float operation. Magnitudes too large for a float stand for infinity: the conversions
  to integers below saturate long before.
\<close>

function f64_shift :: "nat \<Rightarrow> nat" where
  "f64_shift n = (if n < 2 ^ 53 then 0 else Suc (f64_shift (n div 2)))"
  by pat_completeness auto
termination
  by (relation "measure id") auto

definition f64_round :: "nat \<Rightarrow> nat" where
  "f64_round n =
     (let e = f64_shift n; q = n div 2 ^ e; r = n mod 2 ^ e
      in if 2 ^ e < 2 * r \<or> (2 * r = 2 ^ e \<and> odd q) then (q + 1) * 2 ^ e else q * 2 ^ e)"

type_synonym f64 = "(bool \<times> nat) option"

text \<open>
  \<open>toString\<close> of an unsigned number is its decimal text without leading zeros, of a
  signed number the same with a minus sign in front when negative.
\<close>

fun digits10 :: "nat \<Rightarrow> nat list" where
  "digits10 n = (if n < 10 then [n] else digits10 (n div 10) @ [n mod 10])"

definition digit_char :: "nat \<Rightarrow> char" where
  "digit_char d = ''0123456789'' ! d"

definition nat_toString :: "nat \<Rightarrow> string" where
  "nat_toString n = map digit_char (digits10 n)"

definition u64_toString :: "u64 \<Rightarrow> string" where
  "u64_toString v = nat_toString (unat v)"

definition u128_toString :: "u128 \<Rightarrow> string" where
  "u128_toString v = nat_toString (unat v)"

definition i8_toString :: "i8 \<Rightarrow> string" where
  "i8_toString v =
     (if sint v < 0 then CHR ''-'' # nat_toString (nat (- sint v)) else nat_toString (nat (sint v)))"

text \<open>
  \<open>parseInt\<close> (radix argument absent) in the library: empty text is NaN; leading white
  space is skipped; one sign is read (a sign alone is NaN); a prefix \<open>0b\<close>, \<open>0o\<close>,
  \<open>0x\<close> (either case) followed by at least one more character selects radix 2, 8, 16,
  otherwise the radix is 10; then digits are read while valid in the radix, with
  \<open>num = num * radix + digit\<close> computed in floats (both operations round); when the first
  character is no digit the result is NaN. A character that is neither a decimal digit
  nor a letter counts with its character code, as the library's loop leaves it.
\<close>

definition isSpace :: "char \<Rightarrow> bool" where
  "isSpace c = (c \<in> set [CHR '' '', CHR 0x09, CHR 0x0A, CHR 0x0B, CHR 0x0C, CHR 0x0D])"

definition digit_value :: "char \<Rightarrow> nat" where
  "digit_value c =
     (let k = (of_char c :: nat)
      in if 48 \<le> k \<and> k < 58 then k - 48
         else if 65 \<le> k \<and> k \<le> 90 then k - 55
         else if 97 \<le> k \<and> k \<le> 122 then k - 87
         else k)"

fun parse_loop :: "nat \<Rightarrow> nat \<Rightarrow> string \<Rightarrow> nat" where
  "parse_loop radix num [] = num"
| "parse_loop radix num (c # cs) =
     (if radix \<le> digit_value c then num
      else parse_loop radix (f64_round (f64_round (num * radix) + digit_value c)) cs)"

definition radix_prefix :: "string \<Rightarrow> nat \<times> string" where
  "radix_prefix t =
     (case t of
        c0 # c1 # c2 # rest \<Rightarrow>
          if c0 = CHR ''0''
          then (if c1 = CHR ''b'' \<or> c1 = CHR ''B'' then (2, c2 # rest)
                else if c1 = CHR ''o'' \<or> c1 = CHR ''O'' then (8, c2 # rest)
                else if c1 = CHR ''x'' \<or> c1 = CHR ''X'' then (16, c2 # rest)
                else (10, t))
          else (10, t)
      | _ \<Rightarrow> (10, t))"

definition parse_digits :: "bool \<Rightarrow> string \<Rightarrow> f64" where
  "parse_digits neg t =
     (let (radix, t') = radix_prefix t
      in case t' of
           [] \<Rightarrow> Some (neg, 0)
         | c # cs \<Rightarrow> if radix \<le> digit_value c then None
                     else Some (neg, parse_loop radix 0 t'))"

definition parseInt :: "string \<Rightarrow> f64" where
  "parseInt str =
     (if str = [] then None
      else case dropWhile isSpace str of
             [] \<Rightarrow> parse_digits False []
           | c # cs \<Rightarrow>
               if c = CHR ''-'' \<or> c = CHR ''+''
               then (if cs = [] then None else parse_digits (c = CHR ''-'') cs)
               else parse_digits False (c # cs))"

text \<open>
  The conversions of a float to an integer type, \<open>u64(x)\<close> and \<open>x as i8\<close>: NaN gives 0,
  the value is truncated and saturates at the bounds of \<open>u64\<close>, respectively of \<open>i32\<close>
  of which the low 8 bits are kept.
\<close>

definition u64_of_f64 :: "f64 \<Rightarrow> u64" where
  "u64_of_f64 x =
     (case x of
        None \<Rightarrow> 0
      | Some (neg, m) \<Rightarrow> if neg then 0 else if 2 ^ 64 \<le> m then - 1 else of_nat m)"

definition i8_of_f64 :: "f64 \<Rightarrow> i8" where
  "i8_of_f64 x =
     (case x of
        None \<Rightarrow> 0
      | Some (neg, m) \<Rightarrow>
          if neg then - of_nat (min m (2 ^ 31)) else of_nat (min m (2 ^ 31 - 1)))"

text \<open>
  \<open>String.split\<close> with the separators the contract uses, \<open>|\<close> and \<open>||\<close> (scanning from
  the left, matches do not overlap), and \<open>Array.join\<close> with \<open>||\<close>.
\<close>

fun split_char :: "char \<Rightarrow> string \<Rightarrow> string list" where
  "split_char sep [] = [[]]"
| "split_char sep (c # cs) =
     (if c = sep then [] # split_char sep cs
      else (case split_char sep cs of p # ps \<Rightarrow> (c # p) # ps | [] \<Rightarrow> [[c]]))"

fun split_bars :: "string \<Rightarrow> string list" where
  "split_bars (c # d # cs) =
     (if c = CHR ''|'' \<and> d = CHR ''|'' then [] # split_bars cs
      else (case split_bars (d # cs) of p # ps \<Rightarrow> (c # p) # ps | [] \<Rightarrow> [[c]]))"
| "split_bars cs = [cs]"

fun join_bars :: "string list \<Rightarrow> string" where
  "join_bars [] = []"
| "join_bars [x] = x"
| "join_bars (x # y # ys) = x @ ''||'' @ join_bars (y # ys)"

declare digits10.simps [simp del]
declare f64_shift.simps [simp del]

section \<open>Records of the prediction contract\<close>

text \<open>
  One record per class of \<open>game.ts\<close>, the fields in declaration order. Field names carry
  a two-letter tag of their class (\<open>sp_\<close> SinglePool, \<open>sb_\<close> SingleBet, \<open>mp_\<close> Multipool,
  \<open>sel_\<close> BetslipSelection, \<open>bs_\<close> Betslip), since several classes share field names.
\<close>

record SinglePool =
  sp_poolId :: string
  sp_battleId :: string
  sp_token :: string
  sp_closeTs :: u64
  sp_totalPool :: u128
  sp_outcomeABets :: u128
  sp_outcomeBBets :: u128
  sp_outcomeAOddsFP :: u128
  sp_outcomeBOddsFP :: u128
  sp_houseEdgeBps :: u16
  sp_isClosed :: bool
  sp_isSettled :: bool
  sp_winningOutcome :: i8
  sp_createdAt :: u64
  sp_maxPoolSize :: u64
  sp_minBetSize :: u64
  sp_maxBetSize :: u64

record SingleBet =
  sb_bettor :: string
  sb_poolId :: string
  sb_amount :: u128
  sb_outcome :: i8
  sb_isClaimed :: bool
  sb_placedAt :: u64

record Multipool =
  mp_multipoolId :: string
  mp_token :: string
  mp_totalPool :: u128
  mp_totalWeightFP :: u128
  mp_totalWinnerWeightFP :: u128
  mp_isFinalized :: bool
  mp_houseEdgeBps :: u16
  mp_createdAt :: u64

record BetslipSelection =
  sel_poolId :: string
  sel_outcome :: i8
  sel_oddsFP :: u128

record Betslip =
  bs_betslipId :: string
  bs_bettor :: string
  bs_multipoolId :: string
  bs_amount :: u128
  bs_selections :: "string list"
  bs_combinedOddsFP :: u128
  bs_weightFP :: u128
  bs_isWinner :: bool
  bs_isClaimed :: bool
  bs_isAccounted :: bool
  bs_placedAt :: u64

text \<open>The constructor of \<open>SinglePool\<close> (the defaults a new pool starts from).\<close>

definition new_SinglePool :: SinglePool where
  "new_SinglePool =
     \<lparr>sp_poolId = '''', sp_battleId = '''', sp_token = ''0'', sp_closeTs = 0,
      sp_totalPool = 0, sp_outcomeABets = 0, sp_outcomeBBets = 0,
      sp_outcomeAOddsFP = 0, sp_outcomeBOddsFP = 0,
      sp_houseEdgeBps = DEFAULT_HOUSE_EDGE_BPS, sp_isClosed = False, sp_isSettled = False,
      sp_winningOutcome = - 1, sp_createdAt = 0,
      sp_maxPoolSize = 0, sp_minBetSize = 1, sp_maxBetSize = 0\<rparr>"

definition new_Multipool :: Multipool where
  "new_Multipool =
     \<lparr>mp_multipoolId = '''', mp_token = ''0'', mp_totalPool = 0, mp_totalWeightFP = 0,
      mp_totalWinnerWeightFP = 0, mp_isFinalized = False,
      mp_houseEdgeBps = DEFAULT_HOUSE_EDGE_BPS, mp_createdAt = 0\<rparr>"

section \<open>Records of the game contract\<close>

text \<open>
  \<open>eq_\<close> Equipment, \<open>ch_\<close> Character, \<open>bt_\<close> Battle. A character and the two
  characters of a battle are referred to by their id strings. \<open>learnedSkills\<close> is a
  comma-separated list of skill numbers in the source; the model keeps the list of
  numbers.
\<close>

record Equipment =
  eq_equipmentId :: string
  eq_owner :: string
  eq_type :: u8
  eq_rarity :: u8
  eq_hpBonus :: u64
  eq_damageMinBonus :: u16
  eq_damageMaxBonus :: u16
  eq_critBonus :: u16
  eq_dodgeBonus :: u16
  eq_durability :: u16
  eq_currentDurability :: u16
  eq_createdAt :: u64

record Character =
  ch_owner :: string
  ch_characterClass :: u8
  ch_name :: string
  ch_level :: u16
  ch_xp :: u64
  ch_maxHp :: u64
  ch_currentHp :: u64
  ch_baseDamageMin :: u16
  ch_baseDamageMax :: u16
  ch_critChance :: u16
  ch_dodgeChance :: u16
  ch_defense :: u16
  ch_totalWins :: u32
  ch_totalLosses :: u32
  ch_mmr :: u64
  ch_createdAt :: u64
  ch_weaponId :: string
  ch_armorId :: string
  ch_accessoryId :: string
  ch_skill1 :: u8
  ch_skill2 :: u8
  ch_skill3 :: u8
  ch_learnedSkills :: "u8 list"
  ch_currentEnergy :: u8

record Battle =
  bt_player1Char :: string
  bt_player2Char :: string
  bt_player1Owner :: string
  bt_player2Owner :: string
  bt_startTs :: u64
  bt_createdAt :: u64
  bt_turnNumber :: u32
  bt_currentTurn :: u8
  bt_isFinished :: bool
  bt_winner :: u8
  bt_player1Hp :: u64
  bt_player2Hp :: u64
  bt_wildcardActive :: bool
  bt_wildcardType :: u8
  bt_wildcardDecisionDeadline :: u64
  bt_wildcardPlayer1Decision :: i8
  bt_wildcardPlayer2Decision :: i8
  bt_player1StatusEffects :: u8
  bt_player2StatusEffects :: u8
  bt_player1StatusDuration :: u8
  bt_player2StatusDuration :: u8
  bt_player1ComboCount :: u8
  bt_player2ComboCount :: u8
  bt_player1Skill1Cooldown :: u8
  bt_player1Skill2Cooldown :: u8
  bt_player1Skill3Cooldown :: u8
  bt_player2Skill1Cooldown :: u8
  bt_player2Skill2Cooldown :: u8
  bt_player2Skill3Cooldown :: u8

definition STATUS_NONE :: u8 where "STATUS_NONE = 0"
definition STATUS_POISON :: u8 where "STATUS_POISON = 1"
definition STATUS_STUN :: u8 where "STATUS_STUN = 2"
definition STATUS_SHIELD :: u8 where "STATUS_SHIELD = 4"
definition STATUS_RAGE :: u8 where "STATUS_RAGE = 8"
definition STATUS_BURN :: u8 where "STATUS_BURN = 16"

definition RARITY_COMMON :: u8 where "RARITY_COMMON = 0"
definition RARITY_RARE :: u8 where "RARITY_RARE = 1"
definition RARITY_EPIC :: u8 where "RARITY_EPIC = 2"
definition RARITY_LEGENDARY :: u8 where "RARITY_LEGENDARY = 3"

definition SKILL_NONE :: u8 where "SKILL_NONE = 0"
definition SKILL_POWER_STRIKE :: u8 where "SKILL_POWER_STRIKE = 1"
definition SKILL_HEAL :: u8 where "SKILL_HEAL = 2"
definition SKILL_POISON_STRIKE :: u8 where "SKILL_POISON_STRIKE = 3"
definition SKILL_STUN_STRIKE :: u8 where "SKILL_STUN_STRIKE = 4"
definition SKILL_SHIELD_WALL :: u8 where "SKILL_SHIELD_WALL = 5"
definition SKILL_RAGE_MODE :: u8 where "SKILL_RAGE_MODE = 6"
definition SKILL_CRITICAL_EYE :: u8 where "SKILL_CRITICAL_EYE = 7"
definition SKILL_DODGE_MASTER :: u8 where "SKILL_DODGE_MASTER = 8"
definition SKILL_BURN_AURA :: u8 where "SKILL_BURN_AURA = 9"
definition SKILL_COMBO_BREAKER :: u8 where "SKILL_COMBO_BREAKER = 10"

definition MAX_ENERGY :: u8 where "MAX_ENERGY = 100"
definition ENERGY_PER_TURN :: u8 where "ENERGY_PER_TURN = 20"

definition CHARACTER_COUNT_KEY :: string where "CHARACTER_COUNT_KEY = ''character_count''"
definition BATTLE_COUNT_KEY :: string where "BATTLE_COUNT_KEY = ''battle_count''"
definition TOTAL_BATTLES_FINISHED_KEY :: string where
  "TOTAL_BATTLES_FINISHED_KEY = ''total_battles_finished''"
definition EQUIPMENT_COUNT_KEY :: string where "EQUIPMENT_COUNT_KEY = ''equipment_count''"
definition TREASURY_WITHDRAWN_KEY :: string where "TREASURY_WITHDRAWN_KEY = ''treasury_withdrawn''"

text \<open>The constructors of the three classes.\<close>

definition new_Equipment :: Equipment where
  "new_Equipment =
     \<lparr>eq_equipmentId = '''', eq_owner = ''0'', eq_type = 0, eq_rarity = 0, eq_hpBonus = 0,
      eq_damageMinBonus = 0, eq_damageMaxBonus = 0, eq_critBonus = 0, eq_dodgeBonus = 0,
      eq_durability = 100, eq_currentDurability = 100, eq_createdAt = 0\<rparr>"

definition new_Character :: Character where
  "new_Character =
     \<lparr>ch_owner = ''0'', ch_characterClass = 0, ch_name = '''', ch_level = 1, ch_xp = 0,
      ch_maxHp = 0, ch_currentHp = 0, ch_baseDamageMin = 0, ch_baseDamageMax = 0,
      ch_critChance = 0, ch_dodgeChance = 0, ch_defense = 0, ch_totalWins = 0,
      ch_totalLosses = 0, ch_mmr = 1000, ch_createdAt = 0, ch_weaponId = '''',
      ch_armorId = '''', ch_accessoryId = '''', ch_skill1 = SKILL_NONE, ch_skill2 = SKILL_NONE,
      ch_skill3 = SKILL_NONE, ch_learnedSkills = [], ch_currentEnergy = MAX_ENERGY\<rparr>"

definition new_Battle :: Battle where
  "new_Battle =
     \<lparr>bt_player1Char = ''0'', bt_player2Char = ''0'', bt_player1Owner = ''0'',
      bt_player2Owner = ''0'', bt_startTs = 0, bt_createdAt = 0, bt_turnNumber = 0,
      bt_currentTurn = 1, bt_isFinished = False, bt_winner = 0, bt_player1Hp = 0,
      bt_player2Hp = 0, bt_wildcardActive = False, bt_wildcardType = 0,
      bt_wildcardDecisionDeadline = 0, bt_wildcardPlayer1Decision = - 1,
      bt_wildcardPlayer2Decision = - 1, bt_player1StatusEffects = STATUS_NONE,
      bt_player2StatusEffects = STATUS_NONE, bt_player1StatusDuration = 0,
      bt_player2StatusDuration = 0, bt_player1ComboCount = 0, bt_player2ComboCount = 0,
      bt_player1Skill1Cooldown = 0, bt_player1Skill2Cooldown = 0, bt_player1Skill3Cooldown = 0,
      bt_player2Skill1Cooldown = 0, bt_player2Skill2Cooldown = 0, bt_player2Skill3Cooldown = 0\<rparr>"

section \<open>The store, the call context and aborts\<close>

text \<open>
  The contract keeps everything in one key-value storage. The model keeps one typed map
  per key prefix (\<open>spool:\<close>, \<open>sbet:\<close>, \<open>mpool:\<close>, \<open>betslip:\<close>, \<open>character:\<close>,
  \<open>battle:\<close>, \<open>equipment:\<close>): the prefixes are
  distinct, and each class is written and read back through its own
  \<open>serialize\<close>/\<open>deserialize\<close> pair, which returns the object written (the fields are
  length-prefixed, numbers are printed and parsed exactly), except for the selections of a
  betslip, which are joined and split again (\<open>Betslip_stored\<close> below). Pools, multipools and
  betslips are keyed by their id. Bets are keyed by the text that follows the prefix,
  \<open>poolId + ':' + bettor\<close>, as \<open>sbetKey\<close> builds it. Counters are one map from the
  storage key to the \<open>u64\<close> last written: \<open>setCounter\<close> stores its decimal text,
  \<open>getCounter\<close> reads the text back as \<open>u64(parseInt(text))\<close>, through a float, and reads
  0 for a missing key. Role keys
  \<open>role:address\<close> and settler keys \<open>auth_settler:address\<close> are only tested for
  presence, so they are sets. \<open>paused\<close> is \<open>getBool(PAUSED_KEY)\<close> and \<open>locked\<close> is
  \<open>hasKey(LOCKED_KEY)\<close>.

  Modelled from the spec: the asset-transfer collaborator (the class \<open>IERC20\<close> the
  contract imports, whose source is not part of the repository). Section 6 of the
  specification gives its contract: \<open>balanceOf\<close>, \<open>allowance\<close>, \<open>transferFrom\<close> that
  fails on insufficient allowance or balance, \<open>transfer\<close> that fails on insufficient
  balance. Its ledgers are the fields \<open>tok_balance\<close> (token, holder) and
  \<open>tok_allowance\<close> (token, owner, spender).
\<close>

record state =
  paused :: bool
  locked :: bool
  roles :: "(string \<times> string) set"
  auth_settlers :: "string set"
  counters :: "string \<Rightarrow> u64"
  spools :: "string \<rightharpoonup> SinglePool"
  sbets :: "string \<rightharpoonup> SingleBet"
  mpools :: "string \<rightharpoonup> Multipool"
  betslips :: "string \<rightharpoonup> Betslip"
  characters :: "string \<rightharpoonup> Character"
  battles :: "string \<rightharpoonup> Battle"
  equipments :: "string \<rightharpoonup> Equipment"
  tok_balance :: "string \<Rightarrow> string \<Rightarrow> nat"
  tok_allowance :: "string \<Rightarrow> string \<Rightarrow> string \<Rightarrow> nat"

record ctx =
  caller :: string
  callee :: string
  timestamp :: u64

text \<open>
  A failed \<open>assert\<close> aborts the call. An abort carries the reason and the working store
  at the point of failure, so that the order of writes and checks inside a call stays
  visible. The host discards the working store of an aborted call: what later calls see
  is given by \<open>commit\<close>. The source relies on this: \<open>nonReentrant\<close> writes the lock key
  before any validation, and only \<open>endNonReentrant\<close> on the success path removes it.
\<close>

type_synonym result = "(string \<times> state) + state"

definition abort :: "string \<Rightarrow> state \<Rightarrow> result" where
  "abort msg s = Inl (msg, s)"

definition commit :: "state \<Rightarrow> result \<Rightarrow> state" where
  "commit s r = (case r of Inl e \<Rightarrow> s | Inr s' \<Rightarrow> s')"

definition assert_that :: "bool \<Rightarrow> string \<Rightarrow> state \<Rightarrow> result \<Rightarrow> result" where
  "assert_that c msg s k = (if c then k else abort msg s)"

definition whenNotPaused :: "state \<Rightarrow> (state \<Rightarrow> result) \<Rightarrow> result" where
  "whenNotPaused s k = (if paused s then abort ''Contract paused'' s else k s)"

definition nonReentrant :: "state \<Rightarrow> (state \<Rightarrow> result) \<Rightarrow> result" where
  "nonReentrant s k = (if locked s then abort ''Reentrancy guard'' s else k (s\<lparr>locked := True\<rparr>))"

definition endNonReentrant :: "state \<Rightarrow> state" where
  "endNonReentrant s = s\<lparr>locked := False\<rparr>"

definition onlyRole :: "ctx \<Rightarrow> string \<Rightarrow> state \<Rightarrow> (state \<Rightarrow> result) \<Rightarrow> result" where
  "onlyRole c role s k =
     (if (role, caller c) \<in> roles s then k s else abort ''Access denied: missing role'' s)"

definition getCounter :: "state \<Rightarrow> string \<Rightarrow> u64" where
  "getCounter s key = u64_of_f64 (parseInt (u64_toString (counters s key)))"

definition setCounter :: "string \<Rightarrow> u64 \<Rightarrow> state \<Rightarrow> state" where
  "setCounter key v s = s\<lparr>counters := (counters s)(key := v)\<rparr>"

definition incrementCounter :: "string \<Rightarrow> state \<Rightarrow> state" where
  "incrementCounter key s = setCounter key (getCounter s key + 1) s"

definition sbetKey :: "string \<Rightarrow> string \<Rightarrow> string" where
  "sbetKey poolId bettor = poolId @ '':'' @ bettor"

definition streakKey :: "string \<Rightarrow> string" where
  "streakKey addr = BETTING_STREAK_PREFIX @ addr"

subsection \<open>The token collaborator\<close>

definition token_transferFrom ::
  "string \<Rightarrow> string \<Rightarrow> string \<Rightarrow> string \<Rightarrow> u64 \<Rightarrow> state \<Rightarrow> (state \<Rightarrow> result) \<Rightarrow> result" where
  "token_transferFrom tok spender src dst amount s k =
     (if tok_allowance s tok src spender < unat amount then abort ''transferFrom: allowance'' s
      else if tok_balance s tok src < unat amount then abort ''transferFrom: balance'' s
      else
        let al = (tok_allowance s)(tok := (tok_allowance s tok)(src :=
                   (tok_allowance s tok src)(spender := tok_allowance s tok src spender - unat amount)));
            b1 = (tok_balance s tok)(src := tok_balance s tok src - unat amount);
            b2 = b1(dst := b1 dst + unat amount)
        in k (s\<lparr>tok_balance := (tok_balance s)(tok := b2), tok_allowance := al\<rparr>))"

definition token_transfer ::
  "string \<Rightarrow> string \<Rightarrow> string \<Rightarrow> u64 \<Rightarrow> state \<Rightarrow> (state \<Rightarrow> result) \<Rightarrow> result" where
  "token_transfer tok src dst amount s k =
     (if tok_balance s tok src < unat amount then abort ''transfer: balance'' s
      else
        let b1 = (tok_balance s tok)(src := tok_balance s tok src - unat amount);
            b2 = b1(dst := b1 dst + unat amount)
        in k (s\<lparr>tok_balance := (tok_balance s)(tok := b2)\<rparr>))"

section \<open>Single pools\<close>

definition prediction_createSinglePool ::
  "ctx \<Rightarrow> string \<Rightarrow> string \<Rightarrow> string \<Rightarrow> u64 \<Rightarrow> state \<Rightarrow> result" where
  "prediction_createSinglePool c poolId battleId tokenAddr closeTs s0 =
     whenNotPaused s0 (\<lambda>s. nonReentrant s (\<lambda>s.
       assert_that (spools s poolId = None) ''pool exists'' s
         (let p = new_SinglePool\<lparr>sp_poolId := poolId, sp_battleId := battleId,
                    sp_token := tokenAddr, sp_closeTs := closeTs, sp_totalPool := 0,
                    sp_outcomeABets := 0, sp_outcomeBBets := 0, sp_outcomeAOddsFP := 0,
                    sp_outcomeBOddsFP := 0, sp_houseEdgeBps := DEFAULT_HOUSE_EDGE_BPS,
                    sp_isClosed := False, sp_isSettled := False, sp_winningOutcome := - 1,
                    sp_createdAt := timestamp c\<rparr>
          in Inr (endNonReentrant (incrementCounter SINGLE_POOL_COUNT_KEY
                    (s\<lparr>spools := (spools s)(poolId \<mapsto> p)\<rparr>))))))"

text \<open>
  \<open>prediction_placeSingleBet\<close>: the outcome argument is read as an \<open>i32\<close> and cast to
  \<open>i8\<close> (the low 8 bits). The steps follow the source one by one: pool lookup, the
  closed and close-time checks, the bet-size and pool-cap checks, the allowance and
  balance checks, \<open>transferFrom\<close>, the totals, the bet record, the two writes, the
  counter.
\<close>

definition prediction_placeSingleBet ::
  "ctx \<Rightarrow> string \<Rightarrow> i32 \<Rightarrow> u64 \<Rightarrow> state \<Rightarrow> result" where
  "prediction_placeSingleBet c poolId outcomeArg amount s0 =
     whenNotPaused s0 (\<lambda>s. nonReentrant s (\<lambda>s.
       let outcome = (ucast outcomeArg :: i8) in
       case spools s poolId of
         None \<Rightarrow> abort ''pool missing'' s
       | Some pool \<Rightarrow>
           assert_that (\<not> sp_isClosed pool) ''pool closed'' s
          (assert_that (timestamp c < sp_closeTs pool) ''betting closed'' s
          (assert_that (sp_minBetSize pool \<le> amount) ''bet below minimum'' s
          (assert_that (sp_maxBetSize pool = 0 \<or> amount \<le> sp_maxBetSize pool) ''bet above maximum'' s
          (let newTotal = sp_totalPool pool + ucast amount in
           assert_that (sp_maxPoolSize pool = 0 \<or> (ucast newTotal :: u64) \<le> sp_maxPoolSize pool)
             ''pool cap reached'' s
          (assert_that (unat amount \<le> tok_allowance s (sp_token pool) (caller c) (callee c))
             ''allowance low'' s
          (assert_that (unat amount \<le> tok_balance s (sp_token pool) (caller c))
             ''insufficient token balance'' s
          (token_transferFrom (sp_token pool) (callee c) (caller c) (callee c) amount s (\<lambda>s.
             let pool1 = pool\<lparr>sp_totalPool := newTotal\<rparr>;
                 pool2 = (if outcome = 0
                          then pool1\<lparr>sp_outcomeABets := sp_outcomeABets pool1 + ucast amount\<rparr>
                          else pool1\<lparr>sp_outcomeBBets := sp_outcomeBBets pool1 + ucast amount\<rparr>);
                 bet = \<lparr>sb_bettor = caller c, sb_poolId = poolId, sb_amount = ucast amount,
                        sb_outcome = outcome, sb_isClaimed = False, sb_placedAt = timestamp c\<rparr>;
                 s1 = s\<lparr>spools := (spools s)(poolId \<mapsto> pool2)\<rparr>;
                 s2 = s1\<lparr>sbets := (sbets s1)(sbetKey poolId (caller c) \<mapsto> bet)\<rparr>
             in Inr (endNonReentrant (incrementCounter TOTAL_BETS_PLACED_KEY s2))))))))))))"

text \<open>
  The house amount and the payout pool, as \<open>prediction_closeSinglePool\<close>,
  \<open>prediction_claimSingleBet\<close> and \<open>prediction_claimMultibet\<close> each compute them inline
  (128-bit arithmetic, truncating division).
\<close>

definition houseAmount :: "u128 \<Rightarrow> u16 \<Rightarrow> u128" where
  "houseAmount totalU bps = totalU * ucast bps div ucast BASIS_POINTS"

definition payoutPool :: "u128 \<Rightarrow> u16 \<Rightarrow> u128" where
  "payoutPool totalU bps = totalU - houseAmount totalU bps"

definition prediction_closeSinglePool :: "ctx \<Rightarrow> string \<Rightarrow> state \<Rightarrow> result" where
  "prediction_closeSinglePool c poolId s0 =
     whenNotPaused s0 (\<lambda>s. nonReentrant s (\<lambda>s.
       case spools s poolId of
         None \<Rightarrow> abort ''pool not found'' s
       | Some pool \<Rightarrow>
           assert_that (\<not> sp_isClosed pool) ''already closed'' s
          (assert_that (sp_closeTs pool \<le> timestamp c) ''too early to close'' s
          (let pool1 = pool\<lparr>sp_isClosed := True\<rparr>;
               pp = payoutPool (sp_totalPool pool1) (sp_houseEdgeBps pool1);
               pool2 = (if 0 < sp_totalPool pool1 \<and> 0 < sp_outcomeABets pool1
                        then pool1\<lparr>sp_outcomeAOddsFP := pp * ODDS_SCALE_U128 div sp_outcomeABets pool1\<rparr>
                        else pool1);
               pool3 = (if 0 < sp_totalPool pool2 \<and> 0 < sp_outcomeBBets pool2
                        then pool2\<lparr>sp_outcomeBOddsFP := pp * ODDS_SCALE_U128 div sp_outcomeBBets pool2\<rparr>
                        else pool2)
           in Inr (endNonReentrant (s\<lparr>spools := (spools s)(poolId \<mapsto> pool3)\<rparr>))))))"

definition isAuthorizedSettler :: "state \<Rightarrow> string \<Rightarrow> bool" where
  "isAuthorizedSettler s addr = (addr \<in> auth_settlers s)"

definition prediction_settleSinglePool :: "ctx \<Rightarrow> string \<Rightarrow> i32 \<Rightarrow> state \<Rightarrow> result" where
  "prediction_settleSinglePool c poolId winningArg s0 =
     whenNotPaused s0 (\<lambda>s. nonReentrant s (\<lambda>s.
       let winningOutcome = (ucast winningArg :: i8) in
       case spools s poolId of
         None \<Rightarrow> abort ''pool missing'' s
       | Some pool \<Rightarrow>
           assert_that (sp_isClosed pool) ''pool not closed'' s
          (assert_that (\<not> sp_isSettled pool) ''already settled'' s
          (assert_that (isAuthorizedSettler s (caller c)) ''unauthorized settler'' s
          (let pool1 = pool\<lparr>sp_isSettled := True, sp_winningOutcome := winningOutcome\<rparr>
           in Inr (endNonReentrant (s\<lparr>spools := (spools s)(poolId \<mapsto> pool1)\<rparr>)))))))"

text \<open>
  \<open>prediction_claimSingleBet\<close>. The payout of a winning bet, as the source computes it:
  \<open>payoutPool * bet.amount / winnerTotal\<close> in 128 bits, then \<open>toU64\<close> (the low 64 bits).
\<close>

definition winnerTotal :: "SinglePool \<Rightarrow> u128" where
  "winnerTotal pool = (if sp_winningOutcome pool = 0 then sp_outcomeABets pool else sp_outcomeBBets pool)"

definition single_payout :: "SinglePool \<Rightarrow> SingleBet \<Rightarrow> u128" where
  "single_payout pool bet =
     payoutPool (sp_totalPool pool) (sp_houseEdgeBps pool) * sb_amount bet div winnerTotal pool"

definition streak_bonus :: "u64 \<Rightarrow> u64 \<Rightarrow> u64" where
  "streak_bonus newStreak payoutU64 =
     (if 2 \<le> newStreak
      then payoutU64 * (if newStreak < 5 then (newStreak - 1) * 5 else 25) div 100
      else 0)"

definition claimSingleBet_losing :: "string \<Rightarrow> SingleBet \<Rightarrow> string \<Rightarrow> state \<Rightarrow> result" where
  "claimSingleBet_losing betKey bet streakKeyBettor s =
     (let s1 = s\<lparr>sbets := (sbets s)(betKey \<mapsto> bet\<lparr>sb_isClaimed := True\<rparr>)\<rparr>;
          s2 = incrementCounter TOTAL_BETS_CLAIMED_KEY s1;
          s3 = setCounter streakKeyBettor 0 s2
      in Inr (endNonReentrant s3))"

definition claimSingleBet_treasury :: "u128 \<Rightarrow> state \<Rightarrow> result" where
  "claimSingleBet_treasury house s5 =
     (let houseAmountU64 = (ucast house :: u64);
          s6 = (if 0 < houseAmountU64
                then setCounter TREASURY_BALANCE_KEY
                       (getCounter s5 TREASURY_BALANCE_KEY + houseAmountU64) s5
                else s5)
      in Inr (endNonReentrant s6))"

definition claimSingleBet_bonus ::
  "ctx \<Rightarrow> SinglePool \<Rightarrow> string \<Rightarrow> u64 \<Rightarrow> u64 \<Rightarrow> u128 \<Rightarrow> state \<Rightarrow> result" where
  "claimSingleBet_bonus c pool bettor newStreak payoutU64 house s3 =
     (let s4 = incrementCounter TOTAL_BETS_CLAIMED_KEY s3;
          streakBonus = streak_bonus newStreak payoutU64
      in if 0 < streakBonus
         then token_transfer (sp_token pool) (callee c) bettor streakBonus s4
                (claimSingleBet_treasury house)
         else claimSingleBet_treasury house s4)"

definition claimSingleBet_winning ::
  "ctx \<Rightarrow> SinglePool \<Rightarrow> string \<Rightarrow> string \<Rightarrow> SingleBet \<Rightarrow> u64 \<Rightarrow> state \<Rightarrow> result" where
  "claimSingleBet_winning c pool bettor betKey bet currentStreak s =
     (let newStreak = currentStreak + 1;
          s1 = setCounter (streakKey bettor) newStreak s;
          house = houseAmount (sp_totalPool pool) (sp_houseEdgeBps pool)
      in assert_that (0 < winnerTotal pool) ''no winners in pool'' s1
        (let payoutU = single_payout pool bet;
             payoutU64 = (ucast payoutU :: u64);
             s2 = s1\<lparr>sbets := (sbets s1)(betKey \<mapsto> bet\<lparr>sb_isClaimed := True\<rparr>)\<rparr>
         in assert_that (unat payoutU64 \<le> tok_balance s2 (sp_token pool) (callee c))
              ''contract insufficient funds'' s2
           (token_transfer (sp_token pool) (callee c) bettor payoutU64 s2
              (claimSingleBet_bonus c pool bettor newStreak payoutU64 house))))"

definition prediction_claimSingleBet :: "ctx \<Rightarrow> string \<Rightarrow> string \<Rightarrow> state \<Rightarrow> result" where
  "prediction_claimSingleBet c poolId bettor s0 =
     whenNotPaused s0 (\<lambda>s. nonReentrant s (\<lambda>s.
       case spools s poolId of
         None \<Rightarrow> abort ''pool missing'' s
       | Some pool \<Rightarrow>
           assert_that (sp_isSettled pool) ''pool not settled'' s
          (let betKey = sbetKey poolId bettor in
           case sbets s betKey of
             None \<Rightarrow> abort ''bet not found'' s
           | Some bet \<Rightarrow>
               assert_that (\<not> sb_isClaimed bet) ''already claimed'' s
              (let currentStreak = getCounter s (streakKey bettor) in
               if sb_outcome bet \<noteq> sp_winningOutcome pool
               then claimSingleBet_losing betKey bet (streakKey bettor) s
               else claimSingleBet_winning c pool bettor betKey bet currentStreak s))))"


definition prediction_setAuthorizedSettler :: "ctx \<Rightarrow> string \<Rightarrow> state \<Rightarrow> result" where
  "prediction_setAuthorizedSettler c addr s0 =
     onlyRole c ADMIN_ROLE s0 (\<lambda>s. Inr (s\<lparr>auth_settlers := insert addr (auth_settlers s)\<rparr>))"

definition prediction_setPaused :: "ctx \<Rightarrow> bool \<Rightarrow> state \<Rightarrow> result" where
  "prediction_setPaused c p s0 = onlyRole c PAUSER_ROLE s0 (\<lambda>s. Inr (s\<lparr>paused := p\<rparr>))"

section \<open>Multipools and betslips (parlays)\<close>

text \<open>
  A betslip holds each selection as the text \<open>poolId|outcome|oddsFP\<close> that
  \<open>BetslipSelection.toString\<close> builds. \<open>BetslipSelection.fromString\<close> splits such a text
  at every \<open>|\<close> and takes the first part as the pool id and the second, through
  \<open>parseInt\<close>, as the outcome; it also parses the third part as the odds, with
  \<open>u128.fromString\<close>, which does not abort and whose result no caller reads, so the model
  returns the pool id and the outcome only. Reading a part that is not there (fewer than
  three parts) aborts the call: \<open>None\<close>.
\<close>

definition BetslipSelection_toString :: "BetslipSelection \<Rightarrow> string" where
  "BetslipSelection_toString sel =
     sel_poolId sel @ ''|'' @ i8_toString (sel_outcome sel) @ ''|'' @ u128_toString (sel_oddsFP sel)"

definition BetslipSelection_fromString :: "string \<Rightarrow> (string \<times> i8) option" where
  "BetslipSelection_fromString s =
     (let parts = split_char CHR ''|'' s
      in if length parts < 3 then None
         else Some (parts ! 0, i8_of_f64 (parseInt (parts ! 1))))"

text \<open>
  \<open>Betslip.serialize\<close> joins the selection texts with \<open>||\<close>; \<open>Betslip.deserialize\<close>
  splits the joined text at \<open>||\<close> again (an empty text gives no selection). Every other
  field comes back as written. \<open>Betslip_stored b\<close> is the betslip read back after \<open>b\<close>
  was written, and \<open>getBetslip\<close> the read of a betslip from the store.
\<close>

definition Betslip_stored :: "Betslip \<Rightarrow> Betslip" where
  "Betslip_stored b =
     (let selStr = join_bars (bs_selections b)
      in b\<lparr>bs_selections := (if 0 < length selStr then split_bars selStr else [])\<rparr>)"

definition getBetslip :: "state \<Rightarrow> string \<Rightarrow> Betslip option" where
  "getBetslip s betslipId = map_option Betslip_stored (betslips s betslipId)"

text \<open>
  The selection loop of \<open>prediction_placeMultibet\<close>: for each (pool id, outcome) argument
  the pool must exist and be closed, and the odds of the chosen side must be positive;
  the running odds are multiplied and rescaled, and the selection is appended. The loops
  only read the single pools, so they take that map.
\<close>

fun placeMultibet_loop ::
  "(string \<rightharpoonup> SinglePool) \<Rightarrow> (string \<times> i32) list \<Rightarrow> string list \<Rightarrow> u128
     \<Rightarrow> string + (string list \<times> u128)" where
  "placeMultibet_loop pools [] selections combinedOddsFP = Inr (selections, combinedOddsFP)"
| "placeMultibet_loop pools ((poolId, outcomeArg) # rest) selections combinedOddsFP =
     (let outcome = (ucast outcomeArg :: i8) in
      case pools poolId of
        None \<Rightarrow> Inl (''pool '' @ poolId @ '' missing'')
      | Some pool \<Rightarrow>
          if \<not> sp_isClosed pool then Inl (''pool '' @ poolId @ '' not closed'')
          else
            let oddsFP = (if outcome = 0 then sp_outcomeAOddsFP pool else sp_outcomeBOddsFP pool) in
            if \<not> 0 < oddsFP then Inl (''invalid odds for pool '' @ poolId)
            else placeMultibet_loop pools rest
                   (selections @ [BetslipSelection_toString
                      \<lparr>sel_poolId = poolId, sel_outcome = outcome, sel_oddsFP = oddsFP\<rparr>])
                   (combinedOddsFP * oddsFP div ODDS_SCALE_U128))"

definition prediction_createMultipool :: "ctx \<Rightarrow> string \<Rightarrow> string \<Rightarrow> state \<Rightarrow> result" where
  "prediction_createMultipool c multipoolId tokenAddr s0 =
     whenNotPaused s0 (\<lambda>s. nonReentrant s (\<lambda>s.
       assert_that (mpools s multipoolId = None) ''multipool exists'' s
         (let mp = new_Multipool\<lparr>mp_multipoolId := multipoolId, mp_token := tokenAddr,
                     mp_totalPool := 0, mp_totalWeightFP := 0, mp_totalWinnerWeightFP := 0,
                     mp_isFinalized := False, mp_houseEdgeBps := DEFAULT_HOUSE_EDGE_BPS,
                     mp_createdAt := timestamp c\<rparr>
          in Inr (endNonReentrant (incrementCounter MULTIPOOL_COUNT_KEY
                    (s\<lparr>mpools := (mpools s)(multipoolId \<mapsto> mp)\<rparr>))))))"

definition placeMultibet_store ::
  "ctx \<Rightarrow> string \<Rightarrow> string \<Rightarrow> u64 \<Rightarrow> string list \<Rightarrow> u128 \<Rightarrow> Multipool \<Rightarrow> state \<Rightarrow> result" where
  "placeMultibet_store c betslipId multipoolId amount selections combinedOddsFP mp s =
     (let weight = ucast amount * combinedOddsFP div ODDS_SCALE_U128;
          betslip = \<lparr>bs_betslipId = betslipId, bs_bettor = caller c, bs_multipoolId = multipoolId,
                     bs_amount = ucast amount, bs_selections = selections,
                     bs_combinedOddsFP = combinedOddsFP, bs_weightFP = weight,
                     bs_isWinner = False, bs_isClaimed = False, bs_isAccounted = False,
                     bs_placedAt = timestamp c\<rparr>;
          mp1 = mp\<lparr>mp_totalPool := mp_totalPool mp + ucast amount,
                   mp_totalWeightFP := mp_totalWeightFP mp + bs_weightFP betslip\<rparr>;
          s1 = s\<lparr>mpools := (mpools s)(multipoolId \<mapsto> mp1)\<rparr>;
          s2 = s1\<lparr>betslips := (betslips s1)(betslipId \<mapsto> betslip)\<rparr>
      in Inr (endNonReentrant (incrementCounter TOTAL_BETS_PLACED_KEY s2)))"

definition prediction_placeMultibet ::
  "ctx \<Rightarrow> string \<Rightarrow> string \<Rightarrow> u64 \<Rightarrow> (string \<times> i32) list \<Rightarrow> state \<Rightarrow> result" where
  "prediction_placeMultibet c betslipId multipoolId amount selectionArgs s0 =
     whenNotPaused s0 (\<lambda>s. nonReentrant s (\<lambda>s.
       case placeMultibet_loop (spools s) selectionArgs [] ODDS_SCALE_U128 of
         Inl msg \<Rightarrow> abort msg s
       | Inr (selections, combinedOddsFP) \<Rightarrow>
           (case mpools s multipoolId of
              None \<Rightarrow> abort ''multipool missing'' s
            | Some mp \<Rightarrow>
                assert_that (unat amount \<le> tok_allowance s (mp_token mp) (caller c) (callee c))
                  ''allowance low'' s
               (assert_that (unat amount \<le> tok_balance s (mp_token mp) (caller c))
                  ''insufficient balance'' s
               (token_transferFrom (mp_token mp) (callee c) (caller c) (callee c) amount s
                  (placeMultibet_store c betslipId multipoolId amount selections combinedOddsFP mp))))))"

text \<open>
  The loop of \<open>prediction_checkBetslipWinner\<close>: each visited selection text is parsed
  with \<open>BetslipSelection.fromString\<close>; the pool it names must exist and be settled; the
  first selection whose pool settled on another outcome makes the ticket a loser and ends
  the loop (\<open>break\<close>).
\<close>

fun checkBetslipWinner_loop ::
  "(string \<rightharpoonup> SinglePool) \<Rightarrow> string list \<Rightarrow> string + bool" where
  "checkBetslipWinner_loop pools [] = Inr True"
| "checkBetslipWinner_loop pools (selText # rest) =
     (case BetslipSelection_fromString selText of
        None \<Rightarrow> Inl ''Index out of range''
      | Some (poolId, outcome) \<Rightarrow>
         (case pools poolId of
            None \<Rightarrow> Inl ''pool missing''
          | Some pool \<Rightarrow>
              if \<not> sp_isSettled pool then Inl ''pool not settled''
              else if sp_winningOutcome pool \<noteq> outcome then Inr False
              else checkBetslipWinner_loop pools rest))"

definition prediction_checkBetslipWinner :: "ctx \<Rightarrow> string \<Rightarrow> state \<Rightarrow> result" where
  "prediction_checkBetslipWinner c betslipId s0 =
     whenNotPaused s0 (\<lambda>s. nonReentrant s (\<lambda>s.
       case getBetslip s betslipId of
         None \<Rightarrow> abort ''betslip missing'' s
       | Some betslip \<Rightarrow>
           assert_that (\<not> bs_isAccounted betslip) ''already accounted'' s
          (case checkBetslipWinner_loop (spools s) (bs_selections betslip) of
             Inl msg \<Rightarrow> abort msg s
           | Inr isWinner \<Rightarrow>
               (let betslip1 = betslip\<lparr>bs_isWinner := isWinner, bs_isAccounted := True\<rparr> in
                if isWinner then
                  (case mpools s (bs_multipoolId betslip1) of
                     None \<Rightarrow> abort ''multipool missing'' s
                   | Some mp \<Rightarrow>
                       (let mp1 = mp\<lparr>mp_totalWinnerWeightFP :=
                                        mp_totalWinnerWeightFP mp + bs_weightFP betslip1\<rparr>;
                            s1 = s\<lparr>mpools := (mpools s)(bs_multipoolId betslip1 \<mapsto> mp1)\<rparr>
                        in Inr (endNonReentrant
                                  (s1\<lparr>betslips := (betslips s1)(betslipId \<mapsto> betslip1)\<rparr>))))
                else Inr (endNonReentrant
                            (s\<lparr>betslips := (betslips s)(betslipId \<mapsto> betslip1)\<rparr>))))))"

definition prediction_finalizeMultipool :: "ctx \<Rightarrow> string \<Rightarrow> state \<Rightarrow> result" where
  "prediction_finalizeMultipool c multipoolId s0 =
     whenNotPaused s0 (\<lambda>s. nonReentrant s (\<lambda>s. onlyRole c ADMIN_ROLE s (\<lambda>s.
       case mpools s multipoolId of
         None \<Rightarrow> abort ''multipool missing'' s
       | Some mp \<Rightarrow>
           assert_that (\<not> mp_isFinalized mp) ''already finalized'' s
             (Inr (endNonReentrant
                     (s\<lparr>mpools := (mpools s)(multipoolId \<mapsto> mp\<lparr>mp_isFinalized := True\<rparr>)\<rparr>))))))"

definition multibet_payout :: "Multipool \<Rightarrow> Betslip \<Rightarrow> u128" where
  "multibet_payout mp betslip =
     payoutPool (mp_totalPool mp) (mp_houseEdgeBps mp) * bs_weightFP betslip
       div mp_totalWinnerWeightFP mp"

definition claimMultibet_winning :: "ctx \<Rightarrow> string \<Rightarrow> Betslip \<Rightarrow> Multipool \<Rightarrow> state \<Rightarrow> result" where
  "claimMultibet_winning c betslipId betslip mp s =
     assert_that (0 < mp_totalWinnerWeightFP mp) ''no winners'' s
       (let payoutU = multibet_payout mp betslip;
            payoutU64 = (ucast payoutU :: u64);
            s1 = s\<lparr>betslips := (betslips s)(betslipId \<mapsto> betslip\<lparr>bs_isClaimed := True\<rparr>)\<rparr>
        in assert_that (unat payoutU64 \<le> tok_balance s1 (mp_token mp) (callee c))
             ''contract insufficient funds'' s1
          (token_transfer (mp_token mp) (callee c) (bs_bettor betslip) payoutU64 s1
             (\<lambda>s2. Inr (endNonReentrant (incrementCounter TOTAL_BETS_CLAIMED_KEY s2)))))"

definition prediction_claimMultibet :: "ctx \<Rightarrow> string \<Rightarrow> state \<Rightarrow> result" where
  "prediction_claimMultibet c betslipId s0 =
     whenNotPaused s0 (\<lambda>s. nonReentrant s (\<lambda>s.
       case getBetslip s betslipId of
         None \<Rightarrow> abort ''betslip missing'' s
       | Some betslip \<Rightarrow>
           assert_that (\<not> bs_isClaimed betslip) ''already claimed'' s
          (assert_that (bs_isAccounted betslip) ''not yet accounted'' s
          (case mpools s (bs_multipoolId betslip) of
             None \<Rightarrow> abort ''multipool missing'' s
           | Some mp \<Rightarrow>
               assert_that (mp_isFinalized mp) ''multipool not finalized'' s
              (if \<not> bs_isWinner betslip
               then (let s1 = s\<lparr>betslips := (betslips s)(betslipId \<mapsto> betslip\<lparr>bs_isClaimed := True\<rparr>)\<rparr>
                     in Inr (endNonReentrant (incrementCounter TOTAL_BETS_CLAIMED_KEY s1)))
               else claimMultibet_winning c betslipId betslip mp s)))))"


section \<open>The game contract: characters\<close>

text \<open>
  The base stats \<open>game_createCharacter\<close> assigns per class: maximum HP, damage range,
  crit and dodge chance. Any other class number aborts.
\<close>

definition class_stats :: "u8 \<Rightarrow> (u64 \<times> u16 \<times> u16 \<times> u16 \<times> u16) option" where
  "class_stats classU8 =
     (if classU8 = 0 then Some (120, 8, 15, 15, 0)
      else if classU8 = 1 then Some (90, 12, 20, 35, 20)
      else if classU8 = 2 then Some (80, 10, 18, 20, 0)
      else if classU8 = 3 then Some (150, 6, 12, 10, 0)
      else if classU8 = 4 then Some (100, 9, 16, 25, 15)
      else None)"

definition game_createCharacter :: "ctx \<Rightarrow> string \<Rightarrow> u8 \<Rightarrow> string \<Rightarrow> state \<Rightarrow> result" where
  "game_createCharacter c ident classU8 name s0 =
     whenNotPaused s0 (\<lambda>s. nonReentrant s (\<lambda>s.
       assert_that (characters s ident = None) ''character exists'' s
         (case class_stats classU8 of
            None \<Rightarrow> abort ''invalid class'' s
          | Some (hp, dmin, dmax, crit, dodge) \<Rightarrow>
              (let char = new_Character\<lparr>ch_owner := caller c, ch_characterClass := classU8,
                            ch_name := name, ch_level := 1, ch_xp := 0,
                            ch_createdAt := timestamp c, ch_maxHp := hp, ch_currentHp := hp,
                            ch_baseDamageMin := dmin, ch_baseDamageMax := dmax,
                            ch_critChance := crit, ch_dodgeChance := dodge\<rparr>
               in Inr (endNonReentrant (incrementCounter CHARACTER_COUNT_KEY
                         (s\<lparr>characters := (characters s)(ident \<mapsto> char)\<rparr>)))))))"

definition game_upgradeCharacter :: "ctx \<Rightarrow> string \<Rightarrow> u8 \<Rightarrow> state \<Rightarrow> result" where
  "game_upgradeCharacter c charId upgradeType s0 =
     whenNotPaused s0 (\<lambda>s. nonReentrant s (\<lambda>s.
       case characters s charId of
         None \<Rightarrow> abort ''character not found'' s
       | Some char0 \<Rightarrow>
           assert_that (caller c = ch_owner char0) ''not owner'' s
          (assert_that (100 \<le> ch_xp char0) ''insufficient XP'' s
          (let char = char0\<lparr>ch_xp := ch_xp char0 - 100\<rparr>;
               upgraded =
                 (if upgradeType = 0
                  then Some (char\<lparr>ch_maxHp := ch_maxHp char + 10, ch_currentHp := ch_maxHp char + 10\<rparr>)
                  else if upgradeType = 1
                  then Some (char\<lparr>ch_baseDamageMin := ch_baseDamageMin char + 2,
                                   ch_baseDamageMax := ch_baseDamageMax char + 3\<rparr>)
                  else if upgradeType = 2
                  then Some (if ch_critChance char < 50
                             then char\<lparr>ch_critChance := ch_critChance char + 5\<rparr> else char)
                  else if upgradeType = 3
                  then Some (if ch_dodgeChance char < 40
                             then char\<lparr>ch_dodgeChance := ch_dodgeChance char + 5\<rparr> else char)
                  else None)
           in case upgraded of
                None \<Rightarrow> abort ''invalid upgrade type'' s
              | Some char' \<Rightarrow>
                  Inr (endNonReentrant (s\<lparr>characters := (characters s)(charId \<mapsto> char')\<rparr>))))))"

text \<open>
  \<open>game_grantXP\<close>: the level-up test is a single \<open>if\<close>, run once per call. The
  threshold is \<open>level * 200\<close> computed in 64 bits from the 16-bit level.
\<close>

definition grantXP_character :: "u64 \<Rightarrow> Character \<Rightarrow> Character" where
  "grantXP_character xpAmount char0 =
     (let char = char0\<lparr>ch_xp := ch_xp char0 + xpAmount\<rparr>;
          xpForNextLevel = (ucast (ch_level char) :: u64) * 200
      in if xpForNextLevel \<le> ch_xp char
         then char\<lparr>ch_level := ch_level char + 1, ch_xp := ch_xp char - xpForNextLevel,
                   ch_maxHp := ch_maxHp char + 5, ch_currentHp := ch_maxHp char + 5,
                   ch_baseDamageMin := ch_baseDamageMin char + 1,
                   ch_baseDamageMax := ch_baseDamageMax char + 2\<rparr>
         else char)"

definition game_grantXP :: "ctx \<Rightarrow> string \<Rightarrow> u64 \<Rightarrow> state \<Rightarrow> result" where
  "game_grantXP c charId xpAmount s0 =
     onlyRole c ADMIN_ROLE s0 (\<lambda>s.
       case characters s charId of
         None \<Rightarrow> abort ''character not found'' s
       | Some char \<Rightarrow>
           Inr (s\<lparr>characters := (characters s)(charId \<mapsto> grantXP_character xpAmount char)\<rparr>))"

definition game_healCharacter :: "ctx \<Rightarrow> string \<Rightarrow> state \<Rightarrow> result" where
  "game_healCharacter c charId s0 =
     whenNotPaused s0 (\<lambda>s. nonReentrant s (\<lambda>s.
       case characters s charId of
         None \<Rightarrow> abort ''character not found'' s
       | Some char \<Rightarrow>
           assert_that (caller c = ch_owner char) ''not owner'' s
             (Inr (endNonReentrant
                (s\<lparr>characters := (characters s)(charId \<mapsto> char\<lparr>ch_currentHp := ch_maxHp char\<rparr>)\<rparr>)))))"

section \<open>The game contract: equipment and skills\<close>

definition rarity_stats :: "u8 \<Rightarrow> Equipment \<Rightarrow> Equipment" where
  "rarity_stats rarity equip =
     (if rarity = RARITY_COMMON
      then equip\<lparr>eq_hpBonus := 10, eq_damageMinBonus := 1, eq_damageMaxBonus := 2,
                 eq_critBonus := 2, eq_dodgeBonus := 1, eq_durability := 100\<rparr>
      else if rarity = RARITY_RARE
      then equip\<lparr>eq_hpBonus := 25, eq_damageMinBonus := 3, eq_damageMaxBonus := 5,
                 eq_critBonus := 5, eq_dodgeBonus := 3, eq_durability := 200\<rparr>
      else if rarity = RARITY_EPIC
      then equip\<lparr>eq_hpBonus := 50, eq_damageMinBonus := 5, eq_damageMaxBonus := 10,
                 eq_critBonus := 10, eq_dodgeBonus := 5, eq_durability := 300\<rparr>
      else if rarity = RARITY_LEGENDARY
      then equip\<lparr>eq_hpBonus := 100, eq_damageMinBonus := 10, eq_damageMaxBonus := 20,
                 eq_critBonus := 15, eq_dodgeBonus := 10, eq_durability := 500\<rparr>
      else equip)"

definition game_createEquipment ::
  "ctx \<Rightarrow> string \<Rightarrow> string \<Rightarrow> u8 \<Rightarrow> u8 \<Rightarrow> state \<Rightarrow> result" where
  "game_createEquipment c equipmentId ownerAddr etype rarity s0 =
     whenNotPaused s0 (\<lambda>s. nonReentrant s (\<lambda>s. onlyRole c ADMIN_ROLE s (\<lambda>s.
       assert_that (equipments s equipmentId = None) ''equipment exists'' s
         (let equip0 = new_Equipment\<lparr>eq_equipmentId := equipmentId, eq_owner := ownerAddr,
                         eq_type := etype, eq_rarity := rarity, eq_createdAt := timestamp c\<rparr>;
              equip1 = rarity_stats rarity equip0;
              equip = equip1\<lparr>eq_currentDurability := eq_durability equip1\<rparr>
          in Inr (endNonReentrant (incrementCounter EQUIPMENT_COUNT_KEY
                    (s\<lparr>equipments := (equipments s)(equipmentId \<mapsto> equip)\<rparr>)))))))"

definition game_equipItem :: "ctx \<Rightarrow> string \<Rightarrow> string \<Rightarrow> state \<Rightarrow> result" where
  "game_equipItem c charId equipmentId s0 =
     whenNotPaused s0 (\<lambda>s. nonReentrant s (\<lambda>s.
       case characters s charId of
         None \<Rightarrow> abort ''character not found'' s
       | Some char \<Rightarrow>
          (case equipments s equipmentId of
             None \<Rightarrow> abort ''equipment not found'' s
           | Some equip \<Rightarrow>
               assert_that (caller c = ch_owner char) ''not character owner'' s
              (assert_that (caller c = eq_owner equip) ''not equipment owner'' s
              (let char' = (if eq_type equip = 0 then char\<lparr>ch_weaponId := equipmentId\<rparr>
                            else if eq_type equip = 1 then char\<lparr>ch_armorId := equipmentId\<rparr>
                            else if eq_type equip = 2 then char\<lparr>ch_accessoryId := equipmentId\<rparr>
                            else char)
               in Inr (endNonReentrant (s\<lparr>characters := (characters s)(charId \<mapsto> char')\<rparr>)))))))"

definition game_transferEquipment :: "ctx \<Rightarrow> string \<Rightarrow> string \<Rightarrow> state \<Rightarrow> result" where
  "game_transferEquipment c equipmentId toAddr s0 =
     whenNotPaused s0 (\<lambda>s. nonReentrant s (\<lambda>s.
       case equipments s equipmentId of
         None \<Rightarrow> abort ''equipment not found'' s
       | Some equip \<Rightarrow>
           assert_that (caller c = eq_owner equip) ''not owner'' s
             (Inr (endNonReentrant
                (s\<lparr>equipments := (equipments s)(equipmentId \<mapsto> equip\<lparr>eq_owner := toAddr\<rparr>)\<rparr>)))))"

definition game_learnSkill :: "ctx \<Rightarrow> string \<Rightarrow> u8 \<Rightarrow> state \<Rightarrow> result" where
  "game_learnSkill c characterId skillId s0 =
     whenNotPaused s0 (\<lambda>s. nonReentrant s (\<lambda>s.
       assert_that (SKILL_NONE < skillId \<and> skillId \<le> SKILL_COMBO_BREAKER) ''invalid skill'' s
         (case characters s characterId of
            None \<Rightarrow> abort ''character not found'' s
          | Some char \<Rightarrow>
              assert_that (caller c = ch_owner char) ''not character owner'' s
             (assert_that (skillId \<notin> set (ch_learnedSkills char)) ''skill already learned'' s
             (let requiredLevel = (if skillId \<le> 3 then 1 else if skillId \<le> 6 then 5 else 10 :: u16)
              in assert_that (requiredLevel \<le> ch_level char) ''level too low for this skill'' s
                (Inr (endNonReentrant
                   (s\<lparr>characters := (characters s)(characterId \<mapsto>
                         char\<lparr>ch_learnedSkills := ch_learnedSkills char @ [skillId]\<rparr>)\<rparr>))))))))"

definition game_equipSkill :: "ctx \<Rightarrow> string \<Rightarrow> u8 \<Rightarrow> u8 \<Rightarrow> state \<Rightarrow> result" where
  "game_equipSkill c characterId skillId slot s0 =
     whenNotPaused s0 (\<lambda>s. nonReentrant s (\<lambda>s.
       assert_that (1 \<le> slot \<and> slot \<le> 3) ''invalid slot'' s
         (case characters s characterId of
            None \<Rightarrow> abort ''character not found'' s
          | Some char \<Rightarrow>
              assert_that (caller c = ch_owner char) ''not character owner'' s
             (assert_that (skillId = SKILL_NONE \<or> skillId \<in> set (ch_learnedSkills char))
                ''skill not learned'' s
             (let char' = (if slot = 1 then char\<lparr>ch_skill1 := skillId\<rparr>
                           else if slot = 2 then char\<lparr>ch_skill2 := skillId\<rparr>
                           else char\<lparr>ch_skill3 := skillId\<rparr>)
              in Inr (endNonReentrant
                        (s\<lparr>characters := (characters s)(characterId \<mapsto> char')\<rparr>)))))))"

definition getSkillCooldown :: "u8 \<Rightarrow> u8" where
  "getSkillCooldown skillId =
     (if skillId = SKILL_POWER_STRIKE then 3
      else if skillId = SKILL_HEAL then 4
      else if skillId = SKILL_POISON_STRIKE then 2
      else if skillId = SKILL_STUN_STRIKE then 5
      else if skillId = SKILL_SHIELD_WALL then 3
      else if skillId = SKILL_RAGE_MODE then 4
      else if skillId = SKILL_CRITICAL_EYE then 6
      else if skillId = SKILL_DODGE_MASTER then 5
      else if skillId = SKILL_BURN_AURA then 3
      else if skillId = SKILL_COMBO_BREAKER then 4
      else 0)"

definition getSkillEnergyCost :: "u8 \<Rightarrow> u8" where
  "getSkillEnergyCost skillId =
     (if skillId = SKILL_POWER_STRIKE then 30
      else if skillId = SKILL_HEAL then 40
      else if skillId = SKILL_POISON_STRIKE then 25
      else if skillId = SKILL_STUN_STRIKE then 50
      else if skillId = SKILL_SHIELD_WALL then 30
      else if skillId = SKILL_RAGE_MODE then 40
      else if skillId = SKILL_CRITICAL_EYE then 60
      else if skillId = SKILL_DODGE_MASTER then 50
      else if skillId = SKILL_BURN_AURA then 35
      else if skillId = SKILL_COMBO_BREAKER then 45
      else 0)"

section \<open>The game contract: battles\<close>

definition game_createBattle ::
  "ctx \<Rightarrow> string \<Rightarrow> string \<Rightarrow> string \<Rightarrow> u64 \<Rightarrow> state \<Rightarrow> result" where
  "game_createBattle c battleId char1Id char2Id startTs s0 =
     whenNotPaused s0 (\<lambda>s. nonReentrant s (\<lambda>s.
       assert_that (battles s battleId = None) ''battle exists'' s
         (case (characters s char1Id, characters s char2Id) of
            (Some c1, Some c2) \<Rightarrow>
              assert_that (caller c = ch_owner c1) ''not owner of char1'' s
                (let battle = new_Battle\<lparr>bt_player1Char := char1Id, bt_player2Char := char2Id,
                                bt_player1Owner := ch_owner c1, bt_player2Owner := ch_owner c2,
                                bt_startTs := startTs, bt_createdAt := timestamp c,
                                bt_turnNumber := 0, bt_currentTurn := 1, bt_isFinished := False,
                                bt_winner := 0, bt_player1Hp := ch_maxHp c1,
                                bt_player2Hp := ch_maxHp c2, bt_wildcardActive := False,
                                bt_wildcardType := 0, bt_wildcardDecisionDeadline := 0,
                                bt_wildcardPlayer1Decision := - 1,
                                bt_wildcardPlayer2Decision := - 1\<rparr>
                 in Inr (endNonReentrant (incrementCounter BATTLE_COUNT_KEY
                           (s\<lparr>battles := (battles s)(battleId \<mapsto> battle)\<rparr>))))
          | _ \<Rightarrow> abort ''characters missing'' s)))"

text \<open>The xorshift mixer \<open>simple_random\<close>, on 64-bit words.\<close>

definition simple_random :: "ctx \<Rightarrow> u64 \<Rightarrow> u64 \<Rightarrow> u64" where
  "simple_random c seed salt =
     (let x = seed XOR salt XOR timestamp c;
          r1 = x XOR push_bit 13 x;
          r2 = r1 XOR drop_bit 7 r1;
          r3 = r2 XOR push_bit 17 r2
      in r3 AND 0xffffffffffffffff)"

text \<open>
  \<open>game_executeTurn\<close> is one long function in the source. The model cuts it at the
  source's own comment lines into the parts below, each a function of the local
  variables it reads and writes (\<open>isPlayer1\<close>, the battle, the two deserialized
  characters), and \<open>game_executeTurn\<close> runs them in the source's order.

  The wildcard roll: when it triggers, the wildcard fields are set and the call returns
  without resolving the turn.
\<close>

definition wildcard_roll :: "ctx \<Rightarrow> bool \<Rightarrow> string \<Rightarrow> Battle \<Rightarrow> bool" where
  "wildcard_roll c isPlayer1 attackerCharId battle =
     (let wildcardChance = (if isPlayer1 \<and> attackerCharId = ''Trickster'' then 25 else 10 :: u64);
          roll = simple_random c (ucast (bt_turnNumber battle) + bt_createdAt battle) 1 mod 100
      in roll < wildcardChance \<and> \<not> bt_wildcardActive battle)"

definition wildcard_trigger :: "ctx \<Rightarrow> Battle \<Rightarrow> Battle" where
  "wildcard_trigger c battle =
     battle\<lparr>bt_wildcardActive := True,
            bt_wildcardType := ucast (simple_random c (ucast (bt_turnNumber battle)) 2 mod 4),
            bt_wildcardDecisionDeadline := timestamp c + 10000,
            bt_wildcardPlayer1Decision := - 1,
            bt_wildcardPlayer2Decision := - 1\<rparr>"

text \<open>Equipment bonuses: an item counts when its slot is not empty and the item exists.\<close>

definition equipped :: "state \<Rightarrow> string \<Rightarrow> Equipment option" where
  "equipped s itemId = (if 0 < length itemId then equipments s itemId else None)"

record equip_bonus =
  eb_attackerDamageMinBonus :: u16
  eb_attackerDamageMaxBonus :: u16
  eb_attackerCritBonus :: u16
  eb_defenderDodgeBonus :: u16

definition load_bonuses :: "state \<Rightarrow> Character \<Rightarrow> Character \<Rightarrow> equip_bonus" where
  "load_bonuses s attacker defender =
     (let b0 = \<lparr>eb_attackerDamageMinBonus = 0, eb_attackerDamageMaxBonus = 0,
                eb_attackerCritBonus = 0, eb_defenderDodgeBonus = 0\<rparr>;
          b1 = (case equipped s (ch_weaponId attacker) of
                  None \<Rightarrow> b0
                | Some weapon \<Rightarrow>
                    b0\<lparr>eb_attackerDamageMinBonus := eb_attackerDamageMinBonus b0 + eq_damageMinBonus weapon,
                       eb_attackerDamageMaxBonus := eb_attackerDamageMaxBonus b0 + eq_damageMaxBonus weapon,
                       eb_attackerCritBonus := eb_attackerCritBonus b0 + eq_critBonus weapon\<rparr>);
          b2 = (case equipped s (ch_accessoryId attacker) of
                  None \<Rightarrow> b1
                | Some accessory \<Rightarrow>
                    b1\<lparr>eb_attackerCritBonus := eb_attackerCritBonus b1 + eq_critBonus accessory\<rparr>);
          b3 = (case equipped s (ch_armorId defender) of
                  None \<Rightarrow> b2
                | Some armor \<Rightarrow>
                    b2\<lparr>eb_defenderDodgeBonus := eb_defenderDodgeBonus b2 + eq_dodgeBonus armor\<rparr>);
          b4 = (case equipped s (ch_accessoryId defender) of
                  None \<Rightarrow> b3
                | Some accessory \<Rightarrow>
                    b3\<lparr>eb_defenderDodgeBonus := eb_defenderDodgeBonus b3 + eq_dodgeBonus accessory\<rparr>)
      in b4)"

text \<open>
  Skill execution. \<open>skill_effect\<close> holds the four local variables the skill block
  sets. \<open>apply_skill\<close> is the chain of \<open>if (skillUsed == ...)\<close> branches, acting on the
  attacker and the battle; \<open>set_cooldown\<close> is the block after it; \<open>use_skill\<close> is the
  enclosing tests (slot range, a skill in the slot, cooldown 0, enough energy) with the
  energy deduction.
\<close>

record skill_effect =
  se_skillUsed :: u8
  se_skillDamageMultiplier :: u16
  se_skillForceCrit :: bool
  se_skillDodgeBonus :: u16

definition no_skill :: skill_effect where
  "no_skill = \<lparr>se_skillUsed = SKILL_NONE, se_skillDamageMultiplier = 100,
               se_skillForceCrit = False, se_skillDodgeBonus = 0\<rparr>"

definition add_status_p1 :: "u8 \<Rightarrow> u8 \<Rightarrow> Battle \<Rightarrow> Battle" where
  "add_status_p1 flag duration battle =
     battle\<lparr>bt_player1StatusEffects := bt_player1StatusEffects battle OR flag,
            bt_player1StatusDuration := duration\<rparr>"

definition add_status_p2 :: "u8 \<Rightarrow> u8 \<Rightarrow> Battle \<Rightarrow> Battle" where
  "add_status_p2 flag duration battle =
     battle\<lparr>bt_player2StatusEffects := bt_player2StatusEffects battle OR flag,
            bt_player2StatusDuration := duration\<rparr>"

definition skill_heal :: "Character \<Rightarrow> Character" where
  "skill_heal attacker =
     (let healAmount = ch_maxHp attacker * 30 div 100
      in attacker\<lparr>ch_currentHp :=
           (if ch_maxHp attacker < ch_currentHp attacker + healAmount then ch_maxHp attacker
            else ch_currentHp attacker + healAmount)\<rparr>)"

definition apply_skill ::
  "bool \<Rightarrow> u8 \<Rightarrow> Character \<Rightarrow> Battle \<Rightarrow> Character \<times> Battle \<times> skill_effect" where
  "apply_skill isPlayer1 skillUsed attacker battle =
     (let eff = no_skill\<lparr>se_skillUsed := skillUsed\<rparr> in
      if skillUsed = SKILL_POWER_STRIKE
      then (attacker, battle, eff\<lparr>se_skillDamageMultiplier := 150\<rparr>)
      else if skillUsed = SKILL_HEAL
      then (let attacker' = skill_heal attacker
            in (attacker',
                if isPlayer1 then battle\<lparr>bt_player1Hp := ch_currentHp attacker'\<rparr>
                else battle\<lparr>bt_player2Hp := ch_currentHp attacker'\<rparr>,
                eff))
      else if skillUsed = SKILL_POISON_STRIKE
      then (attacker,
            if isPlayer1 then add_status_p2 STATUS_POISON 3 battle
            else add_status_p1 STATUS_POISON 3 battle, eff)
      else if skillUsed = SKILL_STUN_STRIKE
      then (attacker,
            if isPlayer1 then add_status_p2 STATUS_STUN 1 battle
            else add_status_p1 STATUS_STUN 1 battle, eff)
      else if skillUsed = SKILL_SHIELD_WALL
      then (attacker,
            if isPlayer1 then add_status_p1 STATUS_SHIELD 2 battle
            else add_status_p2 STATUS_SHIELD 2 battle, eff)
      else if skillUsed = SKILL_RAGE_MODE
      then (attacker,
            if isPlayer1 then add_status_p1 STATUS_RAGE 2 battle
            else add_status_p2 STATUS_RAGE 2 battle, eff)
      else if skillUsed = SKILL_CRITICAL_EYE
      then (attacker, battle, eff\<lparr>se_skillForceCrit := True\<rparr>)
      else if skillUsed = SKILL_DODGE_MASTER
      then (attacker,
            if isPlayer1 then add_status_p1 STATUS_SHIELD 2 battle
            else add_status_p2 STATUS_SHIELD 2 battle,
            eff\<lparr>se_skillDodgeBonus := 50\<rparr>)
      else if skillUsed = SKILL_BURN_AURA
      then (attacker,
            if isPlayer1 then add_status_p2 STATUS_BURN 3 battle
            else add_status_p1 STATUS_BURN 3 battle, eff)
      else if skillUsed = SKILL_COMBO_BREAKER
      then (attacker,
            if isPlayer1 then battle\<lparr>bt_player2ComboCount := 0\<rparr>
            else battle\<lparr>bt_player1ComboCount := 0\<rparr>,
            eff\<lparr>se_skillDamageMultiplier := 120\<rparr>)
      else (attacker, battle, eff))"

definition set_cooldown :: "bool \<Rightarrow> u8 \<Rightarrow> u8 \<Rightarrow> Battle \<Rightarrow> Battle" where
  "set_cooldown isPlayer1 skillSlot cooldown battle =
     (if isPlayer1
      then (if skillSlot = 1 then battle\<lparr>bt_player1Skill1Cooldown := cooldown\<rparr>
            else if skillSlot = 2 then battle\<lparr>bt_player1Skill2Cooldown := cooldown\<rparr>
            else battle\<lparr>bt_player1Skill3Cooldown := cooldown\<rparr>)
      else (if skillSlot = 1 then battle\<lparr>bt_player2Skill1Cooldown := cooldown\<rparr>
            else if skillSlot = 2 then battle\<lparr>bt_player2Skill2Cooldown := cooldown\<rparr>
            else battle\<lparr>bt_player2Skill3Cooldown := cooldown\<rparr>))"

definition current_cooldown :: "bool \<Rightarrow> u8 \<Rightarrow> Battle \<Rightarrow> u8" where
  "current_cooldown isPlayer1 skillSlot battle =
     (if isPlayer1
      then (if skillSlot = 1 then bt_player1Skill1Cooldown battle
            else if skillSlot = 2 then bt_player1Skill2Cooldown battle
            else bt_player1Skill3Cooldown battle)
      else (if skillSlot = 1 then bt_player2Skill1Cooldown battle
            else if skillSlot = 2 then bt_player2Skill2Cooldown battle
            else bt_player2Skill3Cooldown battle))"

definition use_skill ::
  "bool \<Rightarrow> u8 \<Rightarrow> Character \<Rightarrow> Battle \<Rightarrow> Character \<times> Battle \<times> skill_effect" where
  "use_skill isPlayer1 skillSlot attacker battle =
     (if 1 \<le> skillSlot \<and> skillSlot \<le> 3
      then
        (let equippedSkill = (if skillSlot = 1 then ch_skill1 attacker
                              else if skillSlot = 2 then ch_skill2 attacker
                              else ch_skill3 attacker)
         in if equippedSkill \<noteq> SKILL_NONE
                \<and> current_cooldown isPlayer1 skillSlot battle = 0
                \<and> getSkillEnergyCost equippedSkill \<le> ch_currentEnergy attacker
            then
              (let attacker1 = attacker\<lparr>ch_currentEnergy :=
                                 ch_currentEnergy attacker - getSkillEnergyCost equippedSkill\<rparr>;
                   (attacker2, battle2, eff) = apply_skill isPlayer1 equippedSkill attacker1 battle
               in (attacker2,
                   set_cooldown isPlayer1 skillSlot (getSkillCooldown equippedSkill) battle2,
                   eff))
            else (attacker, battle, no_skill))
      else (attacker, battle, no_skill))"

definition regen_energy :: "Character \<Rightarrow> Character" where
  "regen_energy ch =
     (if ch_currentEnergy ch < MAX_ENERGY
      then ch\<lparr>ch_currentEnergy :=
             (if MAX_ENERGY < ch_currentEnergy ch + ENERGY_PER_TURN then MAX_ENERGY
              else ch_currentEnergy ch + ENERGY_PER_TURN)\<rparr>
      else ch)"

text \<open>The stunned attacker: the damage phase is skipped, the turn still advances.\<close>

definition advance_turn :: "Battle \<Rightarrow> Battle" where
  "advance_turn battle =
     battle\<lparr>bt_turnNumber := bt_turnNumber battle + 1,
            bt_currentTurn := (if bt_currentTurn battle = 1 then 2 else 1)\<rparr>"

definition tick_status_p1 :: "Battle \<Rightarrow> Battle" where
  "tick_status_p1 battle =
     (if 0 < bt_player1StatusDuration battle
      then (let b = battle\<lparr>bt_player1StatusDuration := bt_player1StatusDuration battle - 1\<rparr>
            in if bt_player1StatusDuration b = 0
               then b\<lparr>bt_player1StatusEffects := STATUS_NONE\<rparr> else b)
      else battle)"

definition tick_status_p2 :: "Battle \<Rightarrow> Battle" where
  "tick_status_p2 battle =
     (if 0 < bt_player2StatusDuration battle
      then (let b = battle\<lparr>bt_player2StatusDuration := bt_player2StatusDuration battle - 1\<rparr>
            in if bt_player2StatusDuration b = 0
               then b\<lparr>bt_player2StatusEffects := STATUS_NONE\<rparr> else b)
      else battle)"

definition stunned_turn :: "bool \<Rightarrow> Battle \<Rightarrow> Battle" where
  "stunned_turn isPlayer1 battle =
     advance_turn (if isPlayer1 then tick_status_p1 battle else tick_status_p2 battle)"

text \<open>
  The damage of the turn and whether it was dodged: base damage with the equipment
  bonuses and the level bonus (16-bit), rage, the skill multiplier, crit, combo, dodge or
  defense, the defender's shield.
\<close>

definition compute_damage ::
  "ctx \<Rightarrow> bool \<Rightarrow> Battle \<Rightarrow> Character \<Rightarrow> Character \<Rightarrow> equip_bonus \<Rightarrow> skill_effect \<Rightarrow> u8
     \<Rightarrow> u64 \<times> bool" where
  "compute_damage c isPlayer1 battle attacker defender bonus eff attackerStatus =
     (let seed = (ucast (bt_turnNumber battle) :: u64) + timestamp c;
          totalDamageMin = ch_baseDamageMin attacker + eb_attackerDamageMinBonus bonus;
          totalDamageMax = ch_baseDamageMax attacker + eb_attackerDamageMaxBonus bonus;
          dmgRange = (if totalDamageMin < totalDamageMax then totalDamageMax - totalDamageMin else 0);
          rollDamage = (ucast (simple_random c seed 3 mod (ucast dmgRange + 1)) :: u16);
          baseDamage0 = totalDamageMin + rollDamage;
          baseDamage1 = baseDamage0 + (ch_level attacker - 1) * 2;
          baseDamage2 = (if attackerStatus AND STATUS_RAGE \<noteq> 0
                         then baseDamage1 + baseDamage1 div 2 else baseDamage1);
          baseDamage3 = (if se_skillDamageMultiplier eff \<noteq> 100
                         then (ucast ((ucast baseDamage2 :: u64)
                                 * ucast (se_skillDamageMultiplier eff) div 100) :: u16)
                         else baseDamage2);
          totalCritChance = ch_critChance attacker + eb_attackerCritBonus bonus;
          critRoll = (ucast (simple_random c seed 4 mod 100) :: u16);
          damage0 = (ucast baseDamage3 :: u64);
          damage1 = (if se_skillForceCrit eff \<or> critRoll < totalCritChance
                     then damage0 * 2 else damage0);
          attackerCombo = (if isPlayer1 then bt_player1ComboCount battle
                           else bt_player2ComboCount battle);
          damage2 = (if 3 \<le> attackerCombo then damage1 + damage1 div 5 else damage1);
          totalDodgeChance = ch_dodgeChance defender + eb_defenderDodgeBonus bonus
                               + se_skillDodgeBonus eff;
          dodged = (simple_random c seed 6 mod 100 < ucast totalDodgeChance);
          damage3 = (if dodged then 0
                     else if ucast (ch_defense defender) < damage2
                     then damage2 - ucast (ch_defense defender) else 0);
          defenderStatus = (if isPlayer1 then bt_player2StatusEffects battle
                            else bt_player1StatusEffects battle);
          damage4 = (if defenderStatus AND STATUS_SHIELD \<noteq> 0 \<and> 0 < damage3
                     then damage3 - damage3 * 30 div 100 else damage3)
      in (damage4, dodged))"

definition apply_damage :: "bool \<Rightarrow> u64 \<Rightarrow> bool \<Rightarrow> Battle \<Rightarrow> Battle" where
  "apply_damage isPlayer1 damage dodged battle =
     (if isPlayer1
      then (let b = battle\<lparr>bt_player2Hp := (if damage < bt_player2Hp battle
                                            then bt_player2Hp battle - damage else 0)\<rparr>
            in if 0 < damage \<and> \<not> dodged
               then b\<lparr>bt_player1ComboCount := (if bt_player1ComboCount b < 255
                                               then bt_player1ComboCount b + 1 else 255),
                      bt_player2ComboCount := 0\<rparr>
               else b\<lparr>bt_player1ComboCount := 0\<rparr>)
      else (let b = battle\<lparr>bt_player1Hp := (if damage < bt_player1Hp battle
                                            then bt_player1Hp battle - damage else 0)\<rparr>
            in if 0 < damage \<and> \<not> dodged
               then b\<lparr>bt_player2ComboCount := (if bt_player2ComboCount b < 255
                                               then bt_player2ComboCount b + 1 else 255),
                      bt_player1ComboCount := 0\<rparr>
               else b\<lparr>bt_player2ComboCount := 0\<rparr>))"

definition hit_p1 :: "u64 \<Rightarrow> Battle \<Rightarrow> Battle" where
  "hit_p1 dotDamage battle =
     battle\<lparr>bt_player1Hp := (if dotDamage < bt_player1Hp battle
                              then bt_player1Hp battle - dotDamage else 0)\<rparr>"

definition hit_p2 :: "u64 \<Rightarrow> Battle \<Rightarrow> Battle" where
  "hit_p2 dotDamage battle =
     battle\<lparr>bt_player2Hp := (if dotDamage < bt_player2Hp battle
                              then bt_player2Hp battle - dotDamage else 0)\<rparr>"

definition apply_dots :: "Character \<Rightarrow> Character \<Rightarrow> Battle \<Rightarrow> Battle" where
  "apply_dots c1 c2 battle =
     (let p1Status = bt_player1StatusEffects battle;
          p2Status = bt_player2StatusEffects battle;
          b1 = (if p1Status AND STATUS_POISON \<noteq> 0 then hit_p1 (ch_maxHp c1 div 20) battle else battle);
          b2 = (if p1Status AND STATUS_BURN \<noteq> 0 then hit_p1 (ch_maxHp c1 * 8 div 100) b1 else b1);
          b3 = (if p2Status AND STATUS_POISON \<noteq> 0 then hit_p2 (ch_maxHp c2 div 20) b2 else b2);
          b4 = (if p2Status AND STATUS_BURN \<noteq> 0 then hit_p2 (ch_maxHp c2 * 8 div 100) b3 else b3)
      in b4)"

definition tick_cooldowns :: "Battle \<Rightarrow> Battle" where
  "tick_cooldowns battle =
     battle\<lparr>bt_player1Skill1Cooldown := (if 0 < bt_player1Skill1Cooldown battle
                                          then bt_player1Skill1Cooldown battle - 1 else 0),
            bt_player1Skill2Cooldown := (if 0 < bt_player1Skill2Cooldown battle
                                          then bt_player1Skill2Cooldown battle - 1 else 0),
            bt_player1Skill3Cooldown := (if 0 < bt_player1Skill3Cooldown battle
                                          then bt_player1Skill3Cooldown battle - 1 else 0),
            bt_player2Skill1Cooldown := (if 0 < bt_player2Skill1Cooldown battle
                                          then bt_player2Skill1Cooldown battle - 1 else 0),
            bt_player2Skill2Cooldown := (if 0 < bt_player2Skill2Cooldown battle
                                          then bt_player2Skill2Cooldown battle - 1 else 0),
            bt_player2Skill3Cooldown := (if 0 < bt_player2Skill3Cooldown battle
                                          then bt_player2Skill3Cooldown battle - 1 else 0)\<rparr>"

definition check_finish :: "Battle \<Rightarrow> Battle" where
  "check_finish battle =
     (if bt_player1Hp battle = 0 \<or> bt_player2Hp battle = 0
      then battle\<lparr>bt_isFinished := True,
                  bt_winner := (if 0 < bt_player1Hp battle then 1 else 2)\<rparr>
      else battle)"

text \<open>
  The part of a turn after the stun test, on the battle: damage, combo counters,
  damage over time, status durations, turn advance, cooldowns, the finish test.
\<close>

definition resolve_turn ::
  "ctx \<Rightarrow> bool \<Rightarrow> Character \<Rightarrow> Character \<Rightarrow> equip_bonus \<Rightarrow> skill_effect \<Rightarrow> u8 \<Rightarrow> Battle \<Rightarrow> Battle" where
  "resolve_turn c isPlayer1 c1 c2 bonus eff attackerStatus battle =
     (let attacker = (if isPlayer1 then c1 else c2);
          defender = (if isPlayer1 then c2 else c1);
          (damage, dodged) = compute_damage c isPlayer1 battle attacker defender bonus eff attackerStatus;
          b1 = apply_damage isPlayer1 damage dodged battle;
          b2 = apply_dots c1 c2 b1;
          b3 = tick_status_p2 (tick_status_p1 b2);
          b4 = advance_turn b3;
          b5 = tick_cooldowns b4
      in check_finish b5)"

text \<open>
  \<open>executeTurn_body\<close> is the turn from the point where both characters are loaded: the
  equipment bonuses, the skill, the write of the attacker when a skill was used, the
  energy regeneration, then either the stunned turn (only the battle is written) or the
  resolved turn (both characters, then the battle, are written).
\<close>

definition executeTurn_body ::
  "ctx \<Rightarrow> string \<Rightarrow> bool \<Rightarrow> u8 \<Rightarrow> Battle \<Rightarrow> Character \<Rightarrow> Character \<Rightarrow> state \<Rightarrow> state" where
  "executeTurn_body c battleId isPlayer1 skillSlot battle c1 c2 s =
     (let attacker = (if isPlayer1 then c1 else c2);
          defender = (if isPlayer1 then c2 else c1);
          bonus = load_bonuses s attacker defender;
          (attacker', battle1, eff) = use_skill isPlayer1 skillSlot attacker battle;
          c1a = (if isPlayer1 then attacker' else c1);
          c2a = (if isPlayer1 then c2 else attacker');
          s1 = (if se_skillUsed eff \<noteq> SKILL_NONE
                then s\<lparr>characters := (characters s)
                         ((if isPlayer1 then bt_player1Char battle
                           else bt_player2Char battle) \<mapsto> attacker')\<rparr>
                else s);
          c1b = regen_energy c1a;
          c2b = regen_energy c2a;
          attackerStatus = (if isPlayer1 then bt_player1StatusEffects battle1
                            else bt_player2StatusEffects battle1)
      in if attackerStatus AND STATUS_STUN \<noteq> 0
         then s1\<lparr>battles := (battles s1)(battleId \<mapsto> stunned_turn isPlayer1 battle1)\<rparr>
         else
           (let battle2 = resolve_turn c isPlayer1 c1b c2b bonus eff attackerStatus battle1;
                s2 = s1\<lparr>characters := (characters s1)(bt_player1Char battle \<mapsto> c1b)\<rparr>;
                s3 = s2\<lparr>characters := (characters s2)(bt_player2Char battle \<mapsto> c2b)\<rparr>
            in s3\<lparr>battles := (battles s3)(battleId \<mapsto> battle2)\<rparr>))"

definition game_executeTurn ::
  "ctx \<Rightarrow> string \<Rightarrow> string \<Rightarrow> u8 \<Rightarrow> bool \<Rightarrow> u8 \<Rightarrow> state \<Rightarrow> result" where
  "game_executeTurn c battleId attackerCharId stance useSpecial skillSlot s0 =
     whenNotPaused s0 (\<lambda>s. nonReentrant s (\<lambda>s.
       case battles s battleId of
         None \<Rightarrow> abort ''battle missing'' s
       | Some battle \<Rightarrow>
           assert_that (\<not> bt_isFinished battle) ''battle finished'' s
          (let isPlayer1 = (attackerCharId = bt_player1Char battle);
               expectedOwner = (if isPlayer1 then bt_player1Owner battle else bt_player2Owner battle)
           in assert_that (caller c = expectedOwner) ''not turn owner'' s
             (assert_that ((isPlayer1 \<and> bt_currentTurn battle = 1)
                            \<or> (\<not> isPlayer1 \<and> bt_currentTurn battle = 2)) ''not your turn'' s
             (if wildcard_roll c isPlayer1 attackerCharId battle
              then Inr (endNonReentrant
                          (s\<lparr>battles := (battles s)(battleId \<mapsto> wildcard_trigger c battle)\<rparr>))
              else
               (case (characters s (bt_player1Char battle), characters s (bt_player2Char battle)) of
                  (Some c1, Some c2) \<Rightarrow>
                    Inr (endNonReentrant
                           (executeTurn_body c battleId isPlayer1 skillSlot battle c1 c2 s))
                | _ \<Rightarrow> abort ''character missing'' s))))))"

text \<open>
  The decision block of \<open>game_decideWildcard\<close>: the caller's decision is recorded; once
  both are in, the wildcard is resolved (type 0 accepted by both adds 50 HP to each side,
  capped at 1000000) and cleared.
\<close>

definition decide_wildcard :: "bool \<Rightarrow> bool \<Rightarrow> Battle \<Rightarrow> Battle" where
  "decide_wildcard isPlayer1 accept battle =
     (let b1 = (if isPlayer1
                then battle\<lparr>bt_wildcardPlayer1Decision := (if accept then 1 else 0)\<rparr>
                else battle\<lparr>bt_wildcardPlayer2Decision := (if accept then 1 else 0)\<rparr>)
      in if bt_wildcardPlayer1Decision b1 \<noteq> - 1 \<and> bt_wildcardPlayer2Decision b1 \<noteq> - 1
         then
           (let p1 = (bt_wildcardPlayer1Decision b1 = 1);
                p2 = (bt_wildcardPlayer2Decision b1 = 1);
                b = (if p1 \<and> p2 \<and> bt_wildcardType b1 = 0
                     then b1\<lparr>bt_player1Hp := (if bt_player1Hp b1 + 50 < 1000000
                                               then bt_player1Hp b1 + 50 else 1000000),
                             bt_player2Hp := (if bt_player2Hp b1 + 50 < 1000000
                                               then bt_player2Hp b1 + 50 else 1000000)\<rparr>
                     else b1)
            in b\<lparr>bt_wildcardActive := False, bt_wildcardPlayer1Decision := - 1,
                 bt_wildcardPlayer2Decision := - 1\<rparr>)
         else b1)"

definition game_decideWildcard :: "ctx \<Rightarrow> string \<Rightarrow> bool \<Rightarrow> string \<Rightarrow> state \<Rightarrow> result" where
  "game_decideWildcard c battleId accept playerCharId s0 =
     whenNotPaused s0 (\<lambda>s. nonReentrant s (\<lambda>s.
       case battles s battleId of
         None \<Rightarrow> abort ''battle missing'' s
       | Some battle \<Rightarrow>
           assert_that (bt_wildcardActive battle) ''no wildcard active'' s
          (assert_that (timestamp c \<le> bt_wildcardDecisionDeadline battle) ''decision window expired'' s
          (let isPlayer1 = (playerCharId = bt_player1Char battle);
               expectedOwner = (if isPlayer1 then bt_player1Owner battle else bt_player2Owner battle)
           in assert_that (caller c = expectedOwner) ''not owner'' s
                (Inr (endNonReentrant
                   (s\<lparr>battles := (battles s)(battleId \<mapsto>
                                     decide_wildcard isPlayer1 accept battle)\<rparr>)))))))"

definition game_finalizeBattle :: "ctx \<Rightarrow> string \<Rightarrow> state \<Rightarrow> result" where
  "game_finalizeBattle c battleId s0 =
     whenNotPaused s0 (\<lambda>s. nonReentrant s (\<lambda>s.
       case battles s battleId of
         None \<Rightarrow> abort ''battle missing'' s
       | Some battle \<Rightarrow>
           assert_that (bt_isFinished battle) ''not finished'' s
          (assert_that (bt_winner battle \<noteq> 0) ''no winner'' s
          (case (characters s (bt_player1Char battle), characters s (bt_player2Char battle)) of
             (Some c1, Some c2) \<Rightarrow>
               (let c1a = (if bt_winner battle = 1
                           then c1\<lparr>ch_totalWins := ch_totalWins c1 + 1\<rparr>
                           else c1\<lparr>ch_totalLosses := ch_totalLosses c1 + 1\<rparr>);
                    c2a = (if bt_winner battle = 1
                           then c2\<lparr>ch_totalLosses := ch_totalLosses c2 + 1\<rparr>
                           else c2\<lparr>ch_totalWins := ch_totalWins c2 + 1\<rparr>);
                    c1b = c1a\<lparr>ch_currentHp := ch_maxHp c1a\<rparr>;
                    c2b = c2a\<lparr>ch_currentHp := ch_maxHp c2a\<rparr>;
                    s1 = s\<lparr>characters := (characters s)(bt_player1Char battle \<mapsto> c1b)\<rparr>;
                    s2 = s1\<lparr>characters := (characters s1)(bt_player2Char battle \<mapsto> c2b)\<rparr>
                in Inr (endNonReentrant (incrementCounter TOTAL_BATTLES_FINISHED_KEY s2)))
           | _ \<Rightarrow> abort ''character missing'' s))))"

section \<open>The game contract: administration and treasury\<close>

definition game_setPaused :: "ctx \<Rightarrow> bool \<Rightarrow> state \<Rightarrow> result" where
  "game_setPaused c p s0 = onlyRole c PAUSER_ROLE s0 (\<lambda>s. Inr (s\<lparr>paused := p\<rparr>))"

definition game_grantSettler :: "ctx \<Rightarrow> string \<Rightarrow> state \<Rightarrow> result" where
  "game_grantSettler c addr s0 =
     onlyRole c ADMIN_ROLE s0 (\<lambda>s. Inr (s\<lparr>auth_settlers := insert addr (auth_settlers s)\<rparr>))"

definition game_addToTreasury :: "ctx \<Rightarrow> u64 \<Rightarrow> state \<Rightarrow> result" where
  "game_addToTreasury c amount s0 =
     nonReentrant s0 (\<lambda>s.
       Inr (endNonReentrant
              (setCounter TREASURY_BALANCE_KEY (getCounter s TREASURY_BALANCE_KEY + amount) s)))"

definition game_withdrawTreasury :: "ctx \<Rightarrow> u64 \<Rightarrow> string \<Rightarrow> string \<Rightarrow> state \<Rightarrow> result" where
  "game_withdrawTreasury c amount tokenAddr recipient s0 =
     whenNotPaused s0 (\<lambda>s. nonReentrant s (\<lambda>s. onlyRole c ADMIN_ROLE s (\<lambda>s.
       assert_that (amount \<le> getCounter s TREASURY_BALANCE_KEY) ''insufficient treasury balance'' s
         (let s1 = setCounter TREASURY_BALANCE_KEY (getCounter s TREASURY_BALANCE_KEY - amount) s;
              s2 = setCounter TREASURY_WITHDRAWN_KEY (getCounter s1 TREASURY_WITHDRAWN_KEY + amount) s1
          in token_transfer tokenAddr (callee c) recipient amount s2
               (\<lambda>s3. Inr (endNonReentrant s3))))))"

text \<open>
  The two constructors run at deployment only (\<open>callerHasWriteAccess\<close>, here the flag
  \<open>hasWriteAccess\<close>): they give the deployer the admin role and reset the counters.
\<close>

definition game_constructor :: "ctx \<Rightarrow> bool \<Rightarrow> state \<Rightarrow> result" where
  "game_constructor c hasWriteAccess s =
     assert_that hasWriteAccess ''Must be deployment'' s
       (Inr (setCounter TOTAL_BATTLES_FINISHED_KEY 0 (setCounter BATTLE_COUNT_KEY 0
          (setCounter CHARACTER_COUNT_KEY 0
             (s\<lparr>roles := insert (ADMIN_ROLE, caller c) (roles s)\<rparr>)))))"

definition prediction_constructor :: "ctx \<Rightarrow> bool \<Rightarrow> state \<Rightarrow> result" where
  "prediction_constructor c hasWriteAccess s =
     assert_that hasWriteAccess ''must be deployer'' s
       (Inr (setCounter TOTAL_BETS_CLAIMED_KEY 0 (setCounter TOTAL_BETS_PLACED_KEY 0
          (setCounter MULTIPOOL_COUNT_KEY 0 (setCounter SINGLE_POOL_COUNT_KEY 0
             (s\<lparr>roles := insert (ADMIN_ROLE, caller c) (roles s)\<rparr>))))))"

section \<open>The parlay rules in the specification's words\<close>

text \<open>
  These three definitions follow the specification, not the source; the theorems compare
  them with what \<open>prediction_placeMultibet\<close> and \<open>prediction_checkBetslipWinner\<close>
  compute. Combined odds: the left-to-right fixed-point product of the leg odds,
  \<open>running = running * legOdds / 1,000,000\<close>, seeded at 1,000,000. The odds of a leg: the
  odds the referenced pool holds for the chosen side. A winning ticket: every leg's pool is
  settled on the leg's outcome.
\<close>

definition spec_combinedOdds :: "u128 list \<Rightarrow> u128" where
  "spec_combinedOdds legOdds = foldl (\<lambda>running odds. running * odds div 1000000) 1000000 legOdds"

definition pool_odds :: "(string \<rightharpoonup> SinglePool) \<Rightarrow> string \<Rightarrow> i8 \<Rightarrow> u128 option" where
  "pool_odds pools poolId outcome =
     map_option (\<lambda>pool. if outcome = 0 then sp_outcomeAOddsFP pool else sp_outcomeBOddsFP pool)
       (pools poolId)"

definition spec_isWinner :: "(string \<rightharpoonup> SinglePool) \<Rightarrow> BetslipSelection list \<Rightarrow> bool" where
  "spec_isWinner pools selections =
     list_all (\<lambda>sel. case pools (sel_poolId sel) of
                        None \<Rightarrow> False
                      | Some pool \<Rightarrow> sp_isSettled pool \<and> sp_winningOutcome pool = sel_outcome sel)
       selections"

section \<open>Sequences of calls\<close>

text \<open>
  Claims made one after the other on the same pool, each by its own caller and bettor
  argument; the sequence stops at the first call that aborts.
\<close>

fun claim_sequence :: "string \<Rightarrow> (ctx \<times> string) list \<Rightarrow> state \<Rightarrow> result" where
  "claim_sequence poolId [] s = Inr s"
| "claim_sequence poolId ((c, bettor) # rest) s =
     (case prediction_claimSingleBet c poolId bettor s of
        Inl e \<Rightarrow> Inl e
      | Inr s' \<Rightarrow> claim_sequence poolId rest s')"

text \<open>
  The entry points of the two contracts as one datatype, and \<open>exec\<close>, which runs one
  call. The prop-bet entry points (\<open>propbet_*\<close>) are left out: they read battles and
  write only their own \<open>propbet:\<close> and \<open>propticket:\<close> keys, the two bet counters and
  the token ledger.
\<close>

datatype call =
    GameConstructor bool
  | PredictionConstructor bool
  | CreateCharacter string u8 string
  | CreateBattle string string string u64
  | ExecuteTurn string string u8 bool u8
  | DecideWildcard string bool string
  | FinalizeBattle string
  | GameSetPaused bool
  | GrantSettler string
  | UpgradeCharacter string u8
  | GrantXP string u64
  | HealCharacter string
  | CreateEquipment string string u8 u8
  | EquipItem string string
  | TransferEquipment string string
  | LearnSkill string u8
  | EquipSkill string u8 u8
  | AddToTreasury u64
  | WithdrawTreasury u64 string string
  | CreateSinglePool string string string u64
  | PlaceSingleBet string i32 u64
  | CloseSinglePool string
  | SettleSinglePool string i32
  | ClaimSingleBet string string
  | SetAuthorizedSettler string
  | PredictionSetPaused bool
  | CreateMultipool string string
  | PlaceMultibet string string u64 "(string \<times> i32) list"
  | CheckBetslipWinner string
  | FinalizeMultipool string
  | ClaimMultibet string

fun exec :: "ctx \<Rightarrow> call \<Rightarrow> state \<Rightarrow> result" where
  "exec c (GameConstructor w) s = game_constructor c w s"
| "exec c (PredictionConstructor w) s = prediction_constructor c w s"
| "exec c (CreateCharacter ident classU8 name) s = game_createCharacter c ident classU8 name s"
| "exec c (CreateBattle battleId char1Id char2Id startTs) s =
     game_createBattle c battleId char1Id char2Id startTs s"
| "exec c (ExecuteTurn battleId attackerCharId stance useSpecial skillSlot) s =
     game_executeTurn c battleId attackerCharId stance useSpecial skillSlot s"
| "exec c (DecideWildcard battleId accept playerCharId) s =
     game_decideWildcard c battleId accept playerCharId s"
| "exec c (FinalizeBattle battleId) s = game_finalizeBattle c battleId s"
| "exec c (GameSetPaused p) s = game_setPaused c p s"
| "exec c (GrantSettler addr) s = game_grantSettler c addr s"
| "exec c (UpgradeCharacter charId upgradeType) s = game_upgradeCharacter c charId upgradeType s"
| "exec c (GrantXP charId xpAmount) s = game_grantXP c charId xpAmount s"
| "exec c (HealCharacter charId) s = game_healCharacter c charId s"
| "exec c (CreateEquipment equipmentId ownerAddr etype rarity) s =
     game_createEquipment c equipmentId ownerAddr etype rarity s"
| "exec c (EquipItem charId equipmentId) s = game_equipItem c charId equipmentId s"
| "exec c (TransferEquipment equipmentId toAddr) s = game_transferEquipment c equipmentId toAddr s"
| "exec c (LearnSkill characterId skillId) s = game_learnSkill c characterId skillId s"
| "exec c (EquipSkill characterId skillId slot) s = game_equipSkill c characterId skillId slot s"
| "exec c (AddToTreasury amount) s = game_addToTreasury c amount s"
| "exec c (WithdrawTreasury amount tokenAddr recipient) s =
     game_withdrawTreasury c amount tokenAddr recipient s"
| "exec c (CreateSinglePool poolId battleId tokenAddr closeTs) s =
     prediction_createSinglePool c poolId battleId tokenAddr closeTs s"
| "exec c (PlaceSingleBet poolId outcomeArg amount) s =
     prediction_placeSingleBet c poolId outcomeArg amount s"
| "exec c (CloseSinglePool poolId) s = prediction_closeSinglePool c poolId s"
| "exec c (SettleSinglePool poolId winningArg) s = prediction_settleSinglePool c poolId winningArg s"
| "exec c (ClaimSingleBet poolId bettor) s = prediction_claimSingleBet c poolId bettor s"
| "exec c (SetAuthorizedSettler addr) s = prediction_setAuthorizedSettler c addr s"
| "exec c (PredictionSetPaused p) s = prediction_setPaused c p s"
| "exec c (CreateMultipool multipoolId tokenAddr) s = prediction_createMultipool c multipoolId tokenAddr s"
| "exec c (PlaceMultibet betslipId multipoolId amount selectionArgs) s =
     prediction_placeMultibet c betslipId multipoolId amount selectionArgs s"
| "exec c (CheckBetslipWinner betslipId) s = prediction_checkBetslipWinner c betslipId s"
| "exec c (FinalizeMultipool multipoolId) s = prediction_finalizeMultipool c multipoolId s"
| "exec c (ClaimMultibet betslipId) s = prediction_claimMultibet c betslipId s"

text \<open>
  The empty store of a freshly deployed contract, and the stores reachable from it.
  \<open>reachable_in n s\<close>: \<open>s\<close> is reached by \<open>n\<close> committed calls. An aborted call
  changes nothing, so only calls that return count. Callers are addresses of the chain,
  which are base-58 text and hold no colon. Between two calls the token contracts may
  change their ledgers in any way (transfers and approvals the contract is not part of).
\<close>

definition init_state :: state where
  "init_state =
     \<lparr>paused = False, locked = False, roles = {}, auth_settlers = {},
      counters = (\<lambda>_. 0), spools = Map.empty, sbets = Map.empty, mpools = Map.empty,
      betslips = Map.empty, characters = Map.empty, battles = Map.empty,
      equipments = Map.empty, tok_balance = (\<lambda>_ _. 0), tok_allowance = (\<lambda>_ _ _. 0)\<rparr>"

definition colon_free :: "string \<Rightarrow> bool" where
  "colon_free a = (CHR '':'' \<notin> set a)"

inductive reachable_in :: "nat \<Rightarrow> state \<Rightarrow> bool" where
  start: "reachable_in 0 init_state"
| step: "reachable_in n s \<Longrightarrow> colon_free (caller c) \<Longrightarrow> exec c cl s = Inr s'
           \<Longrightarrow> reachable_in (Suc n) s'"
| ledger: "reachable_in n s \<Longrightarrow> reachable_in n (s\<lparr>tok_balance := b, tok_allowance := a\<rparr>)"

section \<open>Invariants of the game store\<close>

text \<open>
  The bounds on a stored character: current HP at most maximum HP, energy at most
  \<open>MAX_ENERGY\<close>.
\<close>

definition char_within :: "Character \<Rightarrow> bool" where
  "char_within ch = (ch_currentHp ch \<le> ch_maxHp ch \<and> ch_currentEnergy ch \<le> MAX_ENERGY)"

definition chars_within :: "state \<Rightarrow> bool" where
  "chars_within s = (\<forall>ident ch. characters s ident = Some ch \<longrightarrow> char_within ch)"








section \<open>Concrete stores used by the scenarios\<close>

definition at :: "string \<Rightarrow> u64 \<Rightarrow> ctx" where
  "at who t = \<lparr>caller = who, callee = ''contract'', timestamp = t\<rparr>"

text \<open>
  Scenario A of the specification, store by store. The settler is on the allow-list;
  Alice and Bob each hold 1000 units of the token \<open>TOK\<close> and have approved the contract
  for them (\<open>scenA0\<close>). Pool \<open>p\<close> is created with close time 100 (\<open>scenA1\<close>); Alice
  stakes 1000 on outcome A (\<open>scenA2\<close>), Bob 1000 on outcome B (\<open>scenA3\<close>); the pool is
  closed (\<open>scenA4\<close>), settled on A (\<open>scenA5\<close>), and Alice's bet is claimed (\<open>scenA6\<close>).
\<close>

definition poolA :: SinglePool where
  "poolA = new_SinglePool\<lparr>sp_poolId := ''p'', sp_battleId := ''b1'', sp_token := ''TOK'',
             sp_closeTs := 100\<rparr>"

definition betAlice :: SingleBet where
  "betAlice = \<lparr>sb_bettor = ''alice'', sb_poolId = ''p'', sb_amount = 1000, sb_outcome = 0,
                sb_isClaimed = False, sb_placedAt = 10\<rparr>"

definition betBob :: SingleBet where
  "betBob = \<lparr>sb_bettor = ''bob'', sb_poolId = ''p'', sb_amount = 1000, sb_outcome = 1,
              sb_isClaimed = False, sb_placedAt = 20\<rparr>"

definition scenA0 :: state where
  "scenA0 = init_state\<lparr>auth_settlers := {''settler''},
      tok_balance := (\<lambda>_ _. 0)(''TOK'' := (\<lambda>_. 0)(''alice'' := 1000, ''bob'' := 1000)),
      tok_allowance := (\<lambda>_ _ _. 0)(''TOK'' := (\<lambda>_ _. 0)
         (''alice'' := (\<lambda>_. 0)(''contract'' := 1000), ''bob'' := (\<lambda>_. 0)(''contract'' := 1000)))\<rparr>"

definition scenA1 :: state where
  "scenA1 = scenA0\<lparr>counters := (\<lambda>_. 0)(''single_pool_count'' := 1),
      spools := [''p'' \<mapsto> poolA]\<rparr>"

definition scenA2 :: state where
  "scenA2 = scenA1\<lparr>
      counters := (\<lambda>_. 0)(''single_pool_count'' := 1, ''total_bets_placed'' := 1),
      spools := [''p'' \<mapsto> poolA\<lparr>sp_totalPool := 1000, sp_outcomeABets := 1000\<rparr>],
      sbets := [''p:alice'' \<mapsto> betAlice],
      tok_balance := (\<lambda>_ _. 0)(''TOK'' := (\<lambda>_. 0)(''alice'' := 0, ''bob'' := 1000, ''contract'' := 1000)),
      tok_allowance := (\<lambda>_ _ _. 0)(''TOK'' := (\<lambda>_ _. 0)
         (''alice'' := (\<lambda>_. 0)(''contract'' := 0), ''bob'' := (\<lambda>_. 0)(''contract'' := 1000)))\<rparr>"

definition scenA3 :: state where
  "scenA3 = scenA2\<lparr>
      counters := (\<lambda>_. 0)(''single_pool_count'' := 1, ''total_bets_placed'' := 2),
      spools := [''p'' \<mapsto> poolA\<lparr>sp_totalPool := 2000, sp_outcomeABets := 1000,
                                 sp_outcomeBBets := 1000\<rparr>],
      sbets := [''p:alice'' \<mapsto> betAlice, ''p:bob'' \<mapsto> betBob],
      tok_balance := (\<lambda>_ _. 0)(''TOK'' := (\<lambda>_. 0)(''alice'' := 0, ''bob'' := 0, ''contract'' := 2000)),
      tok_allowance := (\<lambda>_ _ _. 0)(''TOK'' := (\<lambda>_ _. 0)
         (''alice'' := (\<lambda>_. 0)(''contract'' := 0), ''bob'' := (\<lambda>_. 0)(''contract'' := 0)))\<rparr>"

definition scenA4 :: state where
  "scenA4 = scenA3\<lparr>
      spools := [''p'' \<mapsto> poolA\<lparr>sp_totalPool := 2000, sp_outcomeABets := 1000,
                                 sp_outcomeBBets := 1000, sp_outcomeAOddsFP := 1900000,
                                 sp_outcomeBOddsFP := 1900000, sp_isClosed := True\<rparr>]\<rparr>"

definition scenA5 :: state where
  "scenA5 = scenA4\<lparr>
      spools := [''p'' \<mapsto> poolA\<lparr>sp_totalPool := 2000, sp_outcomeABets := 1000,
                                 sp_outcomeBBets := 1000, sp_outcomeAOddsFP := 1900000,
                                 sp_outcomeBOddsFP := 1900000, sp_isClosed := True,
                                 sp_isSettled := True, sp_winningOutcome := 0\<rparr>]\<rparr>"

definition scenA6 :: state where
  "scenA6 = scenA5\<lparr>
      counters := (\<lambda>_. 0)(''single_pool_count'' := 1, ''total_bets_placed'' := 2,
                          ''streak:alice'' := 1, ''total_bets_claimed'' := 1,
                          ''treasury_balance'' := 100),
      sbets := [''p:alice'' \<mapsto> betAlice\<lparr>sb_isClaimed := True\<rparr>, ''p:bob'' \<mapsto> betBob],
      tok_balance := (\<lambda>_ _. 0)(''TOK'' := (\<lambda>_. 0)(''alice'' := 1900, ''bob'' := 0, ''contract'' := 100))\<rparr>"

text \<open>
  A second bet by the same bettor: after her first bet (store \<open>scenA2\<close>) Alice is given
  500 more units, approves the contract for them (\<open>twice0\<close>) and calls
  \<open>prediction_placeSingleBet\<close> again on pool \<open>p\<close>, with 500 on outcome B. \<open>twice1\<close> is
  the store after that call.
\<close>

definition twice0 :: state where
  "twice0 = scenA2\<lparr>
      tok_balance := (\<lambda>_ _. 0)(''TOK'' := (\<lambda>_. 0)(''alice'' := 500, ''bob'' := 1000, ''contract'' := 1000)),
      tok_allowance := (\<lambda>_ _ _. 0)(''TOK'' := (\<lambda>_ _. 0)
         (''alice'' := (\<lambda>_. 0)(''contract'' := 500), ''bob'' := (\<lambda>_. 0)(''contract'' := 1000)))\<rparr>"

definition twice1 :: state where
  "twice1 = twice0\<lparr>
      counters := (\<lambda>_. 0)(''single_pool_count'' := 1, ''total_bets_placed'' := 2),
      spools := [''p'' \<mapsto> poolA\<lparr>sp_totalPool := 1500, sp_outcomeABets := 1000,
                                 sp_outcomeBBets := 500\<rparr>],
      sbets := [''p:alice'' \<mapsto> \<lparr>sb_bettor = ''alice'', sb_poolId = ''p'', sb_amount = 500,
                                    sb_outcome = 1, sb_isClaimed = False, sb_placedAt = 11\<rparr>],
      tok_balance := (\<lambda>_ _. 0)(''TOK'' := (\<lambda>_. 0)(''alice'' := 0, ''bob'' := 1000, ''contract'' := 1500)),
      tok_allowance := (\<lambda>_ _ _. 0)(''TOK'' := (\<lambda>_ _. 0)
         (''alice'' := (\<lambda>_. 0)(''contract'' := 0), ''bob'' := (\<lambda>_. 0)(''contract'' := 1000)))\<rparr>"

text \<open>
  Two winners on one pool: pool \<open>p\<close> is settled on outcome A with 2000 staked on each
  side; Alice and Dave each hold an unclaimed bet of 1000 on A, Bob one of 2000 on B; the
  contract holds the 4000 staked (\<open>scenW0\<close>). \<open>scenW2\<close> is the store after Alice's and
  then Dave's bet were claimed.
\<close>

definition scenW0 :: state where
  "scenW0 = init_state\<lparr>
      spools := [''p'' \<mapsto> poolA\<lparr>sp_totalPool := 4000, sp_outcomeABets := 2000,
                                 sp_outcomeBBets := 2000, sp_outcomeAOddsFP := 1900000,
                                 sp_outcomeBOddsFP := 1900000, sp_isClosed := True,
                                 sp_isSettled := True, sp_winningOutcome := 0\<rparr>],
      sbets := [''p:alice'' \<mapsto> betAlice, ''p:dave'' \<mapsto> betAlice\<lparr>sb_bettor := ''dave''\<rparr>,
                ''p:bob'' \<mapsto> betBob\<lparr>sb_amount := 2000\<rparr>],
      tok_balance := (\<lambda>_ _. 0)(''TOK'' := (\<lambda>_. 0)(''contract'' := 4000))\<rparr>"

definition scenW2 :: state where
  "scenW2 = scenW0\<lparr>
      counters := (\<lambda>_. 0)(''streak:alice'' := 1, ''streak:dave'' := 1,
                          ''total_bets_claimed'' := 2, ''treasury_balance'' := 400),
      sbets := [''p:alice'' \<mapsto> betAlice\<lparr>sb_isClaimed := True\<rparr>,
                ''p:dave'' \<mapsto> betAlice\<lparr>sb_bettor := ''dave'', sb_isClaimed := True\<rparr>,
                ''p:bob'' \<mapsto> betBob\<lparr>sb_amount := 2000\<rparr>],
      tok_balance := (\<lambda>_ _. 0)(''TOK'' := (\<lambda>_. 0)(''alice'' := 1900, ''contract'' := 200,
                                                 ''dave'' := 1900))\<rparr>"

text \<open>
  Outcome values other than 0 and 1. From \<open>scenA1\<close> (pool \<open>p\<close> just created) Alice
  stakes 1000 with the outcome argument 7 (\<open>out7_1\<close>); the pool is closed (\<open>out7_2\<close>)
  and settled with the winning outcome 7 (\<open>out7_3\<close>); her bet is claimed (\<open>out7_4\<close>).
  \<open>out7_3z\<close> and \<open>out7_4z\<close> are the same pool settled on outcome B (1) instead, and the
  store after her bet was claimed there.
\<close>

definition out7_1 :: state where
  "out7_1 = scenA1\<lparr>
      counters := (\<lambda>_. 0)(''single_pool_count'' := 1, ''total_bets_placed'' := 1),
      spools := [''p'' \<mapsto> poolA\<lparr>sp_totalPool := 1000, sp_outcomeBBets := 1000\<rparr>],
      sbets := [''p:alice'' \<mapsto> betAlice\<lparr>sb_outcome := 7\<rparr>],
      tok_balance := (\<lambda>_ _. 0)(''TOK'' := (\<lambda>_. 0)(''alice'' := 0, ''bob'' := 1000, ''contract'' := 1000)),
      tok_allowance := (\<lambda>_ _ _. 0)(''TOK'' := (\<lambda>_ _. 0)
         (''alice'' := (\<lambda>_. 0)(''contract'' := 0), ''bob'' := (\<lambda>_. 0)(''contract'' := 1000)))\<rparr>"

definition out7_2 :: state where
  "out7_2 = out7_1\<lparr>
      spools := [''p'' \<mapsto> poolA\<lparr>sp_totalPool := 1000, sp_outcomeBBets := 1000,
                                 sp_outcomeBOddsFP := 950000, sp_isClosed := True\<rparr>]\<rparr>"

definition out7_3 :: state where
  "out7_3 = out7_2\<lparr>
      spools := [''p'' \<mapsto> poolA\<lparr>sp_totalPool := 1000, sp_outcomeBBets := 1000,
                                 sp_outcomeBOddsFP := 950000, sp_isClosed := True,
                                 sp_isSettled := True, sp_winningOutcome := 7\<rparr>]\<rparr>"

definition out7_4 :: state where
  "out7_4 = out7_3\<lparr>
      counters := (\<lambda>_. 0)(''single_pool_count'' := 1, ''total_bets_placed'' := 1,
                          ''streak:alice'' := 1, ''total_bets_claimed'' := 1,
                          ''treasury_balance'' := 50),
      sbets := [''p:alice'' \<mapsto> betAlice\<lparr>sb_outcome := 7, sb_isClaimed := True\<rparr>],
      tok_balance := (\<lambda>_ _. 0)(''TOK'' := (\<lambda>_. 0)(''alice'' := 950, ''bob'' := 1000, ''contract'' := 50))\<rparr>"

definition out7_3z :: state where
  "out7_3z = out7_2\<lparr>
      spools := [''p'' \<mapsto> poolA\<lparr>sp_totalPool := 1000, sp_outcomeBBets := 1000,
                                 sp_outcomeBOddsFP := 950000, sp_isClosed := True,
                                 sp_isSettled := True, sp_winningOutcome := 1\<rparr>]\<rparr>"

definition out7_4z :: state where
  "out7_4z = out7_3z\<lparr>
      counters := (\<lambda>_. 0)(''single_pool_count'' := 1, ''total_bets_placed'' := 1,
                          ''total_bets_claimed'' := 1, ''streak:alice'' := 0),
      sbets := [''p:alice'' \<mapsto> betAlice\<lparr>sb_outcome := 7, sb_isClaimed := True\<rparr>]\<rparr>"

text \<open>
  Scenario D of the specification: a two-leg parlay. Pool \<open>q1\<close> is closed with odds
  2,000,000 on outcome A (total 4000, 1900 on A), pool \<open>q2\<close> with odds 1,500,000 on
  outcome B (total 3000, 1900 on B); multipool \<open>m\<close> exists; Erin holds 100 units and has
  approved the contract for them (\<open>parD0\<close>). She places betslip \<open>s1\<close> with 100 on
  (\<open>q1\<close>, A) and (\<open>q2\<close>, B) (\<open>parD1\<close>); the pools are settled on A and on B
  (\<open>parD2\<close>); the betslip is checked (\<open>parD3\<close>), the multipool finalized (\<open>parD4\<close>)
  and the betslip claimed (\<open>parD5\<close>).
\<close>

definition poolQ1 :: SinglePool where
  "poolQ1 = new_SinglePool\<lparr>sp_poolId := ''q1'', sp_battleId := ''b1'', sp_token := ''TOK'',
      sp_closeTs := 100, sp_totalPool := 4000, sp_outcomeABets := 1900,
      sp_outcomeBBets := 2100, sp_outcomeAOddsFP := 2000000, sp_outcomeBOddsFP := 1809523,
      sp_isClosed := True\<rparr>"

definition poolQ2 :: SinglePool where
  "poolQ2 = new_SinglePool\<lparr>sp_poolId := ''q2'', sp_battleId := ''b2'', sp_token := ''TOK'',
      sp_closeTs := 100, sp_totalPool := 3000, sp_outcomeABets := 1100,
      sp_outcomeBBets := 1900, sp_outcomeAOddsFP := 2590909, sp_outcomeBOddsFP := 1500000,
      sp_isClosed := True\<rparr>"

definition multipoolM :: Multipool where
  "multipoolM = new_Multipool\<lparr>mp_multipoolId := ''m'', mp_token := ''TOK''\<rparr>"

definition slipD :: Betslip where
  "slipD = \<lparr>bs_betslipId = ''s1'', bs_bettor = ''erin'', bs_multipoolId = ''m'',
      bs_amount = 100,
      bs_selections = [''q1|0|2000000'', ''q2|1|1500000''],
      bs_combinedOddsFP = 3000000, bs_weightFP = 300, bs_isWinner = False,
      bs_isClaimed = False, bs_isAccounted = False, bs_placedAt = 150\<rparr>"

definition parD0 :: state where
  "parD0 = init_state\<lparr>roles := {(''admin'', ''admin'')},
      spools := [''q1'' \<mapsto> poolQ1, ''q2'' \<mapsto> poolQ2],
      mpools := [''m'' \<mapsto> multipoolM],
      tok_balance := (\<lambda>_ _. 0)(''TOK'' := (\<lambda>_. 0)(''contract'' := 7000, ''erin'' := 100)),
      tok_allowance := (\<lambda>_ _ _. 0)(''TOK'' := (\<lambda>_ _. 0)(''erin'' := (\<lambda>_. 0)(''contract'' := 100)))\<rparr>"

definition parD1 :: state where
  "parD1 = parD0\<lparr>
      counters := (\<lambda>_. 0)(''total_bets_placed'' := 1),
      mpools := [''m'' \<mapsto> multipoolM\<lparr>mp_totalPool := 100, mp_totalWeightFP := 300\<rparr>],
      betslips := [''s1'' \<mapsto> slipD],
      tok_balance := (\<lambda>_ _. 0)(''TOK'' := (\<lambda>_. 0)(''contract'' := 7100, ''erin'' := 0)),
      tok_allowance := (\<lambda>_ _ _. 0)(''TOK'' := (\<lambda>_ _. 0)(''erin'' := (\<lambda>_. 0)(''contract'' := 0)))\<rparr>"

definition parD2 :: state where
  "parD2 = parD1\<lparr>
      spools := [''q1'' \<mapsto> poolQ1\<lparr>sp_isSettled := True, sp_winningOutcome := 0\<rparr>,
                 ''q2'' \<mapsto> poolQ2\<lparr>sp_isSettled := True, sp_winningOutcome := 1\<rparr>]\<rparr>"

definition parD3 :: state where
  "parD3 = parD2\<lparr>
      mpools := [''m'' \<mapsto> multipoolM\<lparr>mp_totalPool := 100, mp_totalWeightFP := 300,
                                    mp_totalWinnerWeightFP := 300\<rparr>],
      betslips := [''s1'' \<mapsto> slipD\<lparr>bs_isWinner := True, bs_isAccounted := True\<rparr>]\<rparr>"

definition parD4 :: state where
  "parD4 = parD3\<lparr>
      mpools := [''m'' \<mapsto> multipoolM\<lparr>mp_totalPool := 100, mp_totalWeightFP := 300,
                                    mp_totalWinnerWeightFP := 300, mp_isFinalized := True\<rparr>]\<rparr>"

definition parD5 :: state where
  "parD5 = parD4\<lparr>
      counters := (\<lambda>_. 0)(''total_bets_placed'' := 1, ''total_bets_claimed'' := 1),
      betslips := [''s1'' \<mapsto> slipD\<lparr>bs_isWinner := True, bs_isAccounted := True,
                                     bs_isClaimed := True\<rparr>],
      tok_balance := (\<lambda>_ _. 0)(''TOK'' := (\<lambda>_. 0)(''contract'' := 7005, ''erin'' := 95))\<rparr>"

text \<open>
  The same betslip with the first leg lost: pool \<open>q1\<close> settled on outcome B
  (\<open>parL2\<close>), and the store after the betslip was checked there (\<open>parL3\<close>).
\<close>

definition parL2 :: state where
  "parL2 = parD1\<lparr>
      spools := [''q1'' \<mapsto> poolQ1\<lparr>sp_isSettled := True, sp_winningOutcome := 1\<rparr>,
                 ''q2'' \<mapsto> poolQ2\<lparr>sp_isSettled := True, sp_winningOutcome := 1\<rparr>]\<rparr>"

definition parL3 :: state where
  "parL3 = parL2\<lparr>betslips := [''s1'' \<mapsto> slipD\<lparr>bs_isWinner := False, bs_isAccounted := True\<rparr>]\<rparr>"

text \<open>
  A treasury counter above \<open>2 ^ 53\<close>. \<open>bigW0\<close> is \<open>scenW0\<close> after a deposit of
  18014398509481985 (\<open>2 ^ 54 + 1\<close>) through \<open>game_addToTreasury\<close>; \<open>bigW2\<close> is the store
  after Alice's and then Dave's bet were claimed there.
\<close>

definition bigW0 :: state where
  "bigW0 = scenW0\<lparr>counters := (\<lambda>_. 0)(''treasury_balance'' := 18014398509481985)\<rparr>"

definition bigW2 :: state where
  "bigW2 = scenW2\<lparr>
      counters := (\<lambda>_. 0)(''streak:alice'' := 1, ''streak:dave'' := 1,
                          ''total_bets_claimed'' := 2,
                          ''treasury_balance'' := 18014398509482384)\<rparr>"

text \<open>
  A pool id that holds the separator of the selection text. Pools \<open>a\<close> and \<open>a|1\<close> are
  closed with 1000 staked on each side; the settler is on the allow-list; Erin holds 100
  units and has approved the contract for them (\<open>bar0\<close>). She places betslip \<open>s1\<close> with the single leg (pool \<open>a|1\<close>,
  outcome 0) (\<open>bar1\<close>, the betslip is \<open>slipBar\<close>). Both pools are settled on outcome 1
  (\<open>bar2\<close>), and the betslip is checked (\<open>bar3\<close>).
\<close>

definition poolBar :: "string \<Rightarrow> SinglePool" where
  "poolBar ident = new_SinglePool\<lparr>sp_poolId := ident, sp_battleId := ''b1'', sp_token := ''TOK'',
      sp_closeTs := 100, sp_totalPool := 2000, sp_outcomeABets := 1000,
      sp_outcomeBBets := 1000, sp_outcomeAOddsFP := 1900000, sp_outcomeBOddsFP := 1900000,
      sp_isClosed := True\<rparr>"

definition slipBar :: Betslip where
  "slipBar = \<lparr>bs_betslipId = ''s1'', bs_bettor = ''erin'', bs_multipoolId = ''m'',
      bs_amount = 100, bs_selections = [''a|1|0|1900000''],
      bs_combinedOddsFP = 1900000, bs_weightFP = 190, bs_isWinner = False,
      bs_isClaimed = False, bs_isAccounted = False, bs_placedAt = 150\<rparr>"

definition bar0 :: state where
  "bar0 = init_state\<lparr>auth_settlers := {''settler''},
      spools := [''a'' \<mapsto> poolBar ''a'', ''a|1'' \<mapsto> poolBar ''a|1''],
      mpools := [''m'' \<mapsto> multipoolM],
      tok_balance := (\<lambda>_ _. 0)(''TOK'' := (\<lambda>_. 0)(''contract'' := 4000, ''erin'' := 100)),
      tok_allowance := (\<lambda>_ _ _. 0)(''TOK'' := (\<lambda>_ _. 0)(''erin'' := (\<lambda>_. 0)(''contract'' := 100)))\<rparr>"

definition bar1 :: state where
  "bar1 = bar0\<lparr>
      counters := (\<lambda>_. 0)(''total_bets_placed'' := 1),
      mpools := [''m'' \<mapsto> multipoolM\<lparr>mp_totalPool := 100, mp_totalWeightFP := 190\<rparr>],
      betslips := [''s1'' \<mapsto> slipBar],
      tok_balance := (\<lambda>_ _. 0)(''TOK'' := (\<lambda>_. 0)(''contract'' := 4100, ''erin'' := 0)),
      tok_allowance := (\<lambda>_ _ _. 0)(''TOK'' := (\<lambda>_ _. 0)(''erin'' := (\<lambda>_. 0)(''contract'' := 0)))\<rparr>"

definition bar2 :: state where
  "bar2 = bar1\<lparr>
      spools := [''a'' \<mapsto> (poolBar ''a'')\<lparr>sp_isSettled := True, sp_winningOutcome := 1\<rparr>,
                 ''a|1'' \<mapsto> (poolBar ''a|1'')\<lparr>sp_isSettled := True, sp_winningOutcome := 1\<rparr>]\<rparr>"

definition bar3 :: state where
  "bar3 = bar2\<lparr>
      mpools := [''m'' \<mapsto> multipoolM\<lparr>mp_totalPool := 100, mp_totalWeightFP := 190,
                                    mp_totalWinnerWeightFP := 190\<rparr>],
      betslips := [''s1'' \<mapsto> slipBar\<lparr>bs_isWinner := True, bs_isAccounted := True\<rparr>]\<rparr>"





text \<open>
  Granting XP. \<open>gx0\<close> holds one character, the warrior \<open>hero\<close> as
  \<open>game_createCharacter\<close> makes it (level 1, 0 xp), and an admin. \<open>gx1\<close> is the store
  after the admin granted 1000 xp, \<open>gx2\<close> the store after a grant of 250 xp instead.
\<close>

definition hero :: Character where
  "hero = new_Character\<lparr>ch_owner := ''alice'', ch_characterClass := 0, ch_name := ''Hero'',
      ch_createdAt := 1, ch_maxHp := 120, ch_currentHp := 120, ch_baseDamageMin := 8,
      ch_baseDamageMax := 15, ch_critChance := 15, ch_dodgeChance := 0\<rparr>"

definition gx0 :: state where
  "gx0 = init_state\<lparr>roles := {(''admin'', ''admin'')},
      counters := (\<lambda>_. 0)(''character_count'' := 1),
      characters := [''hero'' \<mapsto> hero]\<rparr>"

definition gx1 :: state where
  "gx1 = gx0\<lparr>characters := [''hero'' \<mapsto> hero\<lparr>ch_level := 2, ch_xp := 800, ch_maxHp := 125,
      ch_currentHp := 125, ch_baseDamageMin := 9, ch_baseDamageMax := 17\<rparr>]\<rparr>"

definition gx2 :: state where
  "gx2 = gx0\<lparr>characters := [''hero'' \<mapsto> hero\<lparr>ch_level := 2, ch_xp := 50, ch_maxHp := 125,
      ch_currentHp := 125, ch_baseDamageMin := 9, ch_baseDamageMax := 17\<rparr>]\<rparr>"

text \<open>
  A duel played to the end. Alice creates the assassin \<open>ann\<close>, Bob the mage \<open>mag\<close>
  (\<open>duel1\<close>, \<open>duel2\<close>); Alice opens battle \<open>d\<close> at time 3. \<open>duel_battle\<close> is that
  battle with the given turn number, side to move, HP and combo counters, and
  \<open>duel_store\<close> the store holding it. No skill is used; the five turns at times 4, 6, 7,
  8, 9 deal 12, 26, 36, 0 (dodged) and 36 damage, the last one to a mage with 32 HP left.
\<close>

definition duel_ann :: Character where
  "duel_ann = new_Character\<lparr>ch_owner := ''alice'', ch_characterClass := 1, ch_name := ''Ann'',
      ch_createdAt := 1, ch_maxHp := 90, ch_currentHp := 90, ch_baseDamageMin := 12,
      ch_baseDamageMax := 20, ch_critChance := 35, ch_dodgeChance := 20\<rparr>"

definition duel_mag :: Character where
  "duel_mag = new_Character\<lparr>ch_owner := ''bob'', ch_characterClass := 2, ch_name := ''Mag'',
      ch_createdAt := 2, ch_maxHp := 80, ch_currentHp := 80, ch_baseDamageMin := 10,
      ch_baseDamageMax := 18, ch_critChance := 20, ch_dodgeChance := 0\<rparr>"

definition duel_battle :: "u32 \<Rightarrow> u8 \<Rightarrow> u64 \<Rightarrow> u64 \<Rightarrow> u8 \<Rightarrow> u8 \<Rightarrow> Battle" where
  "duel_battle turn cur hp1 hp2 cb1 cb2 =
     new_Battle\<lparr>bt_player1Char := ''ann'', bt_player2Char := ''mag'',
       bt_player1Owner := ''alice'', bt_player2Owner := ''bob'', bt_createdAt := 3,
       bt_turnNumber := turn, bt_currentTurn := cur, bt_player1Hp := hp1, bt_player2Hp := hp2,
       bt_player1ComboCount := cb1, bt_player2ComboCount := cb2\<rparr>"

definition duel1 :: state where
  "duel1 = init_state\<lparr>counters := (\<lambda>_. 0)(''character_count'' := 1),
      characters := [''ann'' \<mapsto> duel_ann]\<rparr>"

definition duel2 :: state where
  "duel2 = init_state\<lparr>counters := (\<lambda>_. 0)(''character_count'' := 2),
      characters := [''ann'' \<mapsto> duel_ann, ''mag'' \<mapsto> duel_mag]\<rparr>"

definition duel_store :: "Battle \<Rightarrow> state" where
  "duel_store b = init_state\<lparr>counters := (\<lambda>_. 0)(''character_count'' := 2, ''battle_count'' := 1),
      characters := [''ann'' \<mapsto> duel_ann, ''mag'' \<mapsto> duel_mag], battles := [''d'' \<mapsto> b]\<rparr>"

definition duel_final :: Battle where
  "duel_final = (duel_battle 5 2 64 0 2 0)\<lparr>bt_isFinished := True, bt_winner := 1\<rparr>"

section \<open>Verification\<close>

subsection \<open>Printing and parsing numbers\<close>

text \<open>
  Below \<open>2 ^ 53\<close> every whole number is a float, so \<open>parseInt\<close> reads the decimal text
  of such a number exactly, and a counter below \<open>2 ^ 53\<close> is read as it was written.
\<close>

lemma f64_round_small: "n < 2 ^ 53 \<Longrightarrow> f64_round n = n"
  by (simp add: f64_round_def f64_shift.simps)

lemma digits10_bound: "d \<in> set (digits10 n) \<Longrightarrow> d < 10"
proof (induction n arbitrary: d rule: digits10.induct)
  case (1 n)
  then show ?case
    by (subst (asm) (2) digits10.simps) (auto split: if_splits)
qed

lemma digits10_nonempty: "digits10 n \<noteq> []"
  by (subst digits10.simps) simp

lemma digits10_hd: "10 \<le> n \<Longrightarrow> 0 < hd (digits10 n)"
proof (induction n rule: digits10.induct)
  case (1 n)
  show ?case
  proof (cases "n div 10 < 10")
    case True
    then have "digits10 (n div 10) = [n div 10]" by (subst digits10.simps) simp
    moreover have "0 < n div 10" using 1(2) by simp
    ultimately show ?thesis using 1(2) by (subst digits10.simps) simp
  next
    case False
    then have "0 < hd (digits10 (n div 10))" using 1 by simp
    then show ?thesis using 1(2) digits10_nonempty [of "n div 10"]
      by (subst digits10.simps) simp
  qed
qed

lemma digit_cases: "d < 10 \<Longrightarrow> d \<in> {0, 1, 2, 3, 4, 5, 6, 7, 8, 9 :: nat}"
  by auto

lemma digit_char_value: "d < 10 \<Longrightarrow> digit_value (digit_char d) = d"
  using digit_cases [of d] by (auto simp: digit_value_def digit_char_def)

lemma digit_char_plain:
  "d < 10 \<Longrightarrow> \<not> isSpace (digit_char d) \<and> digit_char d \<noteq> CHR ''-'' \<and> digit_char d \<noteq> CHR ''+''
     \<and> (digit_char d = CHR ''0'' \<longleftrightarrow> d = 0)"
  using digit_cases [of d] by (auto simp: isSpace_def digit_char_def)

lemma parse_loop_digits:
  "\<forall>d \<in> set ds. d < 10 \<Longrightarrow>
     parse_loop 10 num (map digit_char ds)
       = foldl (\<lambda>a d. f64_round (f64_round (a * 10) + d)) num ds"
  by (induction ds arbitrary: num) (simp_all add: digit_char_value)

lemma fold_digits10:
  "n < 2 ^ 53 \<Longrightarrow> foldl (\<lambda>a d. f64_round (f64_round (a * 10) + d)) 0 (digits10 n) = n"
proof (induction n rule: digits10.induct)
  case (1 n)
  show ?case
  proof (cases "n < 10")
    case True
    then show ?thesis using 1(2) by (subst digits10.simps) (simp add: f64_round_small)
  next
    case False
    have "n div 10 < 2 ^ 53" using 1(2) by simp
    then have ih: "foldl (\<lambda>a d. f64_round (f64_round (a * 10) + d)) 0 (digits10 (n div 10)) = n div 10"
      using 1(1) False by simp
    have a: "n div 10 * 10 < 2 ^ 53" using 1(2) by simp
    have b: "n div 10 * 10 + n mod 10 = n" by simp
    show ?thesis using False 1(2)
      by (subst digits10.simps) (simp add: ih f64_round_small [OF a] b f64_round_small)
  qed
qed

lemma parse_loop_toString:
  "n < 2 ^ 53 \<Longrightarrow> parse_loop 10 0 (nat_toString n) = n"
  unfolding nat_toString_def
  using parse_loop_digits [of "digits10 n" 0] digits10_bound [of _ n] fold_digits10 [of n]
  by simp

lemma radix_prefix_toString: "radix_prefix (nat_toString n) = (10, nat_toString n)"
proof (cases "n < 10")
  case True
  then have "digits10 n = [n]" by (subst digits10.simps) simp
  then show ?thesis by (simp add: radix_prefix_def nat_toString_def)
next
  case False
  then have h: "0 < hd (digits10 n)" using digits10_hd [of n] by simp
  have "hd (digits10 n) < 10"
    using digits10_bound [of "hd (digits10 n)" n] digits10_nonempty [of n] by simp
  then have "digit_char (hd (digits10 n)) \<noteq> CHR ''0''" using h digit_char_plain by simp
  then have "hd (nat_toString n) \<noteq> CHR ''0''"
    using digits10_nonempty [of n] by (simp add: nat_toString_def hd_map)
  then show ?thesis
    by (auto simp: radix_prefix_def split: list.splits)
qed

lemma toString_hd:
  "\<exists>c cs. nat_toString n = c # cs \<and> \<not> isSpace c \<and> c \<noteq> CHR ''-'' \<and> c \<noteq> CHR ''+''
           \<and> digit_value c < 10"
proof -
  obtain d ds where e: "digits10 n = d # ds"
    using digits10_nonempty [of n] by (cases "digits10 n") auto
  then have "d < 10" using digits10_bound [of d n] by simp
  then show ?thesis
    using e digit_char_plain [of d] digit_char_value [of d] by (simp add: nat_toString_def)
qed

lemma parseInt_toString:
  assumes "n < 2 ^ 53"
  shows "parseInt (nat_toString n) = Some (False, n)"
proof -
  obtain c cs where e: "nat_toString n = c # cs" "\<not> isSpace c" "c \<noteq> CHR ''-''" "c \<noteq> CHR ''+''"
      "digit_value c < 10"
    using toString_hd [of n] by blast
  have rp: "radix_prefix (c # cs) = (10, c # cs)"
    using radix_prefix_toString [of n] by (simp only: e(1))
  have pl: "parse_loop 10 0 (c # cs) = n"
    using parse_loop_toString [OF assms] by (simp only: e(1))
  have "parse_digits False (c # cs) = Some (False, n)"
    unfolding parse_digits_def rp using e(5) pl by (simp del: parse_loop.simps)
  then show ?thesis using e(2-4) by (simp add: parseInt_def e(1))
qed

lemma u64_of_f64_toString:
  assumes "unat (v :: u64) < 2 ^ 53"
  shows "u64_of_f64 (parseInt (u64_toString v)) = v"
proof -
  have "unat v < 2 ^ 64" using assms by simp
  then show ?thesis
    by (simp add: u64_toString_def parseInt_toString [OF assms] u64_of_f64_def)
qed

text \<open>
  Below \<open>2 ^ 54\<close> the digit-by-digit computation of \<open>parseInt\<close> returns the float
  nearest to the number written.
\<close>

lemma f64_round_even:
  assumes "m < 2 ^ 54" and "even m"
  shows "f64_round m = m"
proof (cases "m < 2 ^ 53")
  case True
  then show ?thesis by (rule f64_round_small)
next
  case False
  have "m div 2 < 2 ^ 53" using assms(1) by simp
  then have "f64_shift m = 1"
    using False by (simp add: f64_shift.simps [of m] f64_shift.simps [of "m div 2"])
  then show ?thesis using assms(2) by (simp add: f64_round_def)
qed

lemma fold_digits10_nearest:
  assumes "n < 2 ^ 54"
  shows "foldl (\<lambda>a d. f64_round (f64_round (a * 10) + d)) 0 (digits10 n) = f64_round n"
proof (cases "n < 10")
  case True
  then show ?thesis by (subst digits10.simps) (simp add: f64_round_small)
next
  case False
  have "n div 10 < 2 ^ 53" using assms by simp
  then have pre: "foldl (\<lambda>a d. f64_round (f64_round (a * 10) + d)) 0 (digits10 (n div 10)) = n div 10"
    by (rule fold_digits10)
  have "n div 10 * 10 < 2 ^ 54" using assms by simp
  then have a: "f64_round (n div 10 * 10) = n div 10 * 10"
    by (rule f64_round_even) simp
  have b: "n div 10 * 10 + n mod 10 = n" by simp
  show ?thesis using False
    by (subst digits10.simps) (simp add: pre a b)
qed

lemma parseInt_nearest:
  assumes "n < 2 ^ 54"
  shows "parseInt (nat_toString n) = Some (False, f64_round n)"
proof -
  obtain c cs where e: "nat_toString n = c # cs" "\<not> isSpace c" "c \<noteq> CHR ''-''" "c \<noteq> CHR ''+''"
      "digit_value c < 10"
    using toString_hd [of n] by blast
  have rp: "radix_prefix (c # cs) = (10, c # cs)"
    using radix_prefix_toString [of n] by (simp only: e(1))
  have "parse_loop 10 0 (nat_toString n) = f64_round n"
    unfolding nat_toString_def
    using parse_loop_digits [of "digits10 n" 0] digits10_bound [of _ n]
      fold_digits10_nearest [OF assms]
    by simp
  then have pl: "parse_loop 10 0 (c # cs) = f64_round n" by (simp only: e(1))
  have "parse_digits False (c # cs) = Some (False, f64_round n)"
    unfolding parse_digits_def rp using e(5) pl by (simp del: parse_loop.simps)
  then show ?thesis using e(2-4) by (simp add: parseInt_def e(1))
qed

lemma getCounter_small: "unat (counters s key) < 2 ^ 53 \<Longrightarrow> getCounter s key = counters s key"
  by (simp add: getCounter_def u64_of_f64_toString)

lemmas parse_defs = parseInt_def parse_digits_def radix_prefix_def isSpace_def digit_value_def
  f64_round_def f64_shift.simps u64_toString_def u128_toString_def i8_toString_def
  nat_toString_def digits10.simps digit_char_def u64_of_f64_def i8_of_f64_def Let_def

subsection \<open>Evaluating the operations on concrete stores\<close>

lemmas op_defs =
  prediction_createSinglePool_def prediction_placeSingleBet_def prediction_closeSinglePool_def
  prediction_settleSinglePool_def prediction_claimSingleBet_def claimSingleBet_losing_def
  claimSingleBet_winning_def claimSingleBet_bonus_def claimSingleBet_treasury_def
  whenNotPaused_def nonReentrant_def endNonReentrant_def assert_that_def abort_def commit_def
  onlyRole_def isAuthorizedSettler_def
  token_transferFrom_def token_transfer_def incrementCounter_def setCounter_def getCounter_small
  new_SinglePool_def sbetKey_def streakKey_def payoutPool_def houseAmount_def winnerTotal_def
  single_payout_def streak_bonus_def Let_def

lemmas const_defs =
  DEFAULT_HOUSE_EDGE_BPS_def BASIS_POINTS_def ODDS_SCALE_U128_def SINGLE_POOL_COUNT_KEY_def
  TOTAL_BETS_PLACED_KEY_def TOTAL_BETS_CLAIMED_KEY_def TREASURY_BALANCE_KEY_def
  BETTING_STREAK_PREFIX_def MULTIPOOL_COUNT_KEY_def ADMIN_ROLE_def PAUSER_ROLE_def

lemmas scenA_defs =
  scenA6_def scenA5_def scenA4_def scenA3_def scenA2_def scenA1_def scenA0_def init_state_def
  at_def poolA_def betAlice_def betBob_def

lemma scenA_create:
  "prediction_createSinglePool (at ''admin'' 0) ''p'' ''b1'' ''TOK'' 100 scenA0 = Inr scenA1"
  by (simp add: scenA_defs op_defs const_defs)

lemma scenA_bet_alice:
  "prediction_placeSingleBet (at ''alice'' 10) ''p'' 0 1000 scenA1 = Inr scenA2"
  by (simp add: scenA_defs op_defs const_defs fun_upd_twist)

lemma scenA_bet_bob:
  "prediction_placeSingleBet (at ''bob'' 20) ''p'' 1 1000 scenA2 = Inr scenA3"
  by (simp add: scenA_defs op_defs const_defs fun_upd_twist)

lemma scenA_close:
  "prediction_closeSinglePool (at ''carol'' 100) ''p'' scenA3 = Inr scenA4"
  by (simp add: scenA_defs op_defs const_defs)

lemma scenA_settle:
  "prediction_settleSinglePool (at ''settler'' 101) ''p'' 0 scenA4 = Inr scenA5"
  by (simp add: scenA_defs op_defs const_defs)

lemma scenA_claim:
  "prediction_claimSingleBet (at ''carol'' 102) ''p'' ''alice'' scenA5 = Inr scenA6"
  by (simp add: scenA_defs op_defs const_defs fun_upd_twist)

subsection \<open>Scenario A\<close>

text \<open>
  C3 (Scenario A). With a house edge of 500 basis points and 1000 staked on each
  outcome, the total is 2000 and the payout pool 1900; closing the pool snapshots the
  odds 1,900,000 for both outcomes; after the pool is settled on outcome A, claiming the
  bet of the bettor who staked 1000 on A (streak counter 0 before the claim) succeeds and
  moves exactly 1900 tokens from the contract to that bettor.
\<close>

theorem scenario_A_close_settle_claim:
  "map_option (\<lambda>p. (sp_houseEdgeBps p, sp_outcomeABets p, sp_outcomeBBets p, sp_totalPool p))
       (spools scenA3 ''p'') = Some (500, 1000, 1000, 2000)
   \<and> payoutPool 2000 500 = 1900
   \<and> prediction_closeSinglePool (at ''carol'' 100) ''p'' scenA3 = Inr scenA4
   \<and> map_option (\<lambda>p. (sp_outcomeAOddsFP p, sp_outcomeBOddsFP p)) (spools scenA4 ''p'')
       = Some (1900000, 1900000)
   \<and> prediction_settleSinglePool (at ''settler'' 101) ''p'' 0 scenA4 = Inr scenA5
   \<and> map_option (\<lambda>b. (sb_amount b, sb_outcome b, sb_isClaimed b)) (sbets scenA5 (sbetKey ''p'' ''alice''))
       = Some (1000, 0, False)
   \<and> getCounter scenA5 (streakKey ''alice'') = 0
   \<and> prediction_claimSingleBet (at ''carol'' 102) ''p'' ''alice'' scenA5 = Inr scenA6
   \<and> tok_balance scenA6 ''TOK'' ''alice'' = tok_balance scenA5 ''TOK'' ''alice'' + 1900
   \<and> tok_balance scenA6 ''TOK'' ''contract'' + 1900 = tok_balance scenA5 ''TOK'' ''contract''"
  unfolding scenA_close scenA_settle scenA_claim
  by (simp add: scenA_defs const_defs new_SinglePool_def sbetKey_def streakKey_def getCounter_small
        payoutPool_def houseAmount_def)

subsection \<open>A second bet by the same bettor\<close>

text \<open>
  C1 asks that a second \<open>prediction_placeSingleBet\<close> by a bettor who already has a bet
  on the pool be rejected. The function has no such check. Evaluated on the store
  \<open>twice0\<close>, where Alice already holds a bet of 1000 on outcome A of pool \<open>p\<close>, her
  second call with 500 on outcome B succeeds: the pool total grows from 1000 to 1500,
  and the stored bet (1000 on A) is overwritten by the new one (500 on B).
\<close>

theorem placeSingleBet_second_bet_accepted:
  "sbets twice0 (sbetKey ''p'' ''alice'') = Some betAlice
   \<and> map_option sp_totalPool (spools twice0 ''p'') = Some 1000
   \<and> prediction_placeSingleBet (at ''alice'' 11) ''p'' 1 500 twice0 = Inr twice1
   \<and> map_option sp_totalPool (spools twice1 ''p'') = Some 1500
   \<and> map_option (\<lambda>b. (sb_amount b, sb_outcome b)) (sbets twice1 (sbetKey ''p'' ''alice''))
       = Some (500, 1)"
  by (simp add: twice0_def twice1_def scenA_defs op_defs const_defs fun_upd_twist)

subsection \<open>The treasury counter\<close>


text \<open>
  One successful winning claim: when the house amount is positive the treasury counter
  becomes what \<open>getCounter\<close> read plus the house amount.
\<close>

lemma claimSingleBet_winning_Inr:
  assumes "prediction_claimSingleBet c poolId bettor s = Inr s'"
      and "spools s poolId = Some pool"
      and "sbets s (sbetKey poolId bettor) = Some bet"
      and "sb_outcome bet = sp_winningOutcome pool"
  shows "counters s' TREASURY_BALANCE_KEY
           = (if 0 < (ucast (houseAmount (sp_totalPool pool) (sp_houseEdgeBps pool)) :: u64)
              then getCounter s TREASURY_BALANCE_KEY
                     + ucast (houseAmount (sp_totalPool pool) (sp_houseEdgeBps pool))
              else counters s TREASURY_BALANCE_KEY)
         \<and> spools s' = spools s
         \<and> sbets s' = (sbets s)(sbetKey poolId bettor \<mapsto> bet\<lparr>sb_isClaimed := True\<rparr>)"
  using assms
  by (auto simp: prediction_claimSingleBet_def claimSingleBet_losing_def
        claimSingleBet_winning_def claimSingleBet_bonus_def claimSingleBet_treasury_def
        whenNotPaused_def nonReentrant_def endNonReentrant_def assert_that_def abort_def
        token_transfer_def incrementCounter_def setCounter_def getCounter_def streakKey_def
        Let_def const_defs split: if_splits)

lemma getCounter_rounded:
  "counters s key = 18014398509481985 \<Longrightarrow> getCounter s key = 18014398509481984"
  by (simp add: getCounter_def parse_defs)

lemma getCounter_rounded_200:
  "counters s key = 18014398509482184 \<Longrightarrow> getCounter s key = 18014398509482184"
  by (simp add: getCounter_def parse_defs)

lemma bigW_deposit:
  "game_addToTreasury (at ''dave'' 150) 18014398509481985 scenW0 = Inr bigW0"
  by (simp add: bigW0_def scenW0_def game_addToTreasury_def scenA_defs op_defs const_defs)

lemma bigW_claims:
  "claim_sequence ''p'' [(at ''carol'' 200, ''alice''), (at ''carol'' 201, ''dave'')] bigW0
     = Inr bigW2"
  by (simp add: bigW0_def bigW2_def scenW0_def scenW2_def scenA_defs op_defs const_defs
        fun_upd_twist getCounter_rounded getCounter_rounded_200)


text \<open>
  As long as the counter stays below \<open>2 ^ 53\<close> the reads are exact, and a sequence of
  \<open>k\<close> successful claims of winning bets on the same pool adds \<open>k\<close> times the house
  amount.
\<close>

lemma claim_sequence_treasury_exact:
  assumes "claim_sequence poolId claims s = Inr s'"
      and "spools s poolId = Some pool"
      and "\<forall>cb \<in> set claims. \<exists>bet. sbets s (sbetKey poolId (snd cb)) = Some bet
              \<and> sb_outcome bet = sp_winningOutcome pool"
      and "unat (counters s TREASURY_BALANCE_KEY)
             + length claims * unat (ucast (houseAmount (sp_totalPool pool) (sp_houseEdgeBps pool)) :: u64)
           < 2 ^ 53"
  shows "counters s' TREASURY_BALANCE_KEY = counters s TREASURY_BALANCE_KEY
           + of_nat (length claims) * ucast (houseAmount (sp_totalPool pool) (sp_houseEdgeBps pool))"
  using assms
proof (induction claims arbitrary: s)
  case Nil
  then show ?case by simp
next
  case (Cons cb rest)
  define h where "h = (ucast (houseAmount (sp_totalPool pool) (sp_houseEdgeBps pool)) :: u64)"
  obtain c bettor where cb: "cb = (c, bettor)" by (cases cb)
  from Cons.prems(1) cb obtain s1 where
    first: "prediction_claimSingleBet c poolId bettor s = Inr s1" and
    rest: "claim_sequence poolId rest s1 = Inr s'"
    by (auto split: sum.splits)
  from Cons.prems(3) cb obtain bet where
    bet: "sbets s (sbetKey poolId bettor) = Some bet" "sb_outcome bet = sp_winningOutcome pool"
    by auto
  note step = claimSingleBet_winning_Inr [OF first Cons.prems(2) bet, folded h_def]
  have bound: "unat (counters s TREASURY_BALANCE_KEY) + (length rest + 1) * unat h < 2 ^ 53"
    using Cons.prems(4) by (simp add: h_def)
  then have small: "unat (counters s TREASURY_BALANCE_KEY) < 2 ^ 53" by simp
  have c1: "counters s1 TREASURY_BALANCE_KEY = counters s TREASURY_BALANCE_KEY + h"
    using step getCounter_small [OF small] by (auto simp: word_gt_0)
  have "unat (counters s TREASURY_BALANCE_KEY) + unat h < 2 ^ 64"
    using bound by simp
  then have u1: "unat (counters s1 TREASURY_BALANCE_KEY)
                   = unat (counters s TREASURY_BALANCE_KEY) + unat h"
    unfolding c1 using unat_add_lem [of "counters s TREASURY_BALANCE_KEY" h] by simp
  have pool1: "spools s1 poolId = Some pool"
    using step Cons.prems(2) by simp
  have bets1: "\<forall>cb \<in> set rest. \<exists>bet. sbets s1 (sbetKey poolId (snd cb)) = Some bet
                  \<and> sb_outcome bet = sp_winningOutcome pool"
    using Cons.prems(3) step bet by auto
  have bound1: "unat (counters s1 TREASURY_BALANCE_KEY)
             + length rest * unat (ucast (houseAmount (sp_totalPool pool) (sp_houseEdgeBps pool)) :: u64)
           < 2 ^ 53"
    using bound u1 by (simp add: h_def)
  from Cons.IH [OF rest pool1 bets1 bound1] c1
  show ?case by (simp add: algebra_simps h_def)
qed

text \<open>
  C10 says that every winning claim adds the pool's house amount to the treasury counter,
  so that \<open>k\<close> winning claims on a pool credit it \<open>k\<close> times. The code adds the
  house amount to the counter as \<open>getCounter\<close> reads it, through a float. With the
  counter at 18014398509481985 (\<open>2 ^ 54 + 1\<close>, left there by a deposit through
  \<open>game_addToTreasury\<close>) and a house amount of 200, the two winning claims of Alice and
  Dave leave the counter at 18014398509482384, which is one less than the counter before
  plus twice the house amount.
\<close>

theorem claim_treasury_read_through_float:
  "game_addToTreasury (at ''dave'' 150) 18014398509481985 scenW0 = Inr bigW0
   \<and> counters bigW0 TREASURY_BALANCE_KEY = 18014398509481985
   \<and> map_option (\<lambda>p. houseAmount (sp_totalPool p) (sp_houseEdgeBps p)) (spools bigW0 ''p'')
       = Some 200
   \<and> claim_sequence ''p'' [(at ''carol'' 200, ''alice''), (at ''carol'' 201, ''dave'')] bigW0
       = Inr bigW2
   \<and> counters bigW2 TREASURY_BALANCE_KEY = 18014398509482384
   \<and> (18014398509482384 :: u64) \<noteq> 18014398509481985 + 2 * 200"
  unfolding bigW_deposit bigW_claims
  by (simp add: bigW0_def bigW2_def scenW0_def poolA_def new_SinglePool_def houseAmount_def
        const_defs)

subsection \<open>Outcome values are not validated\<close>

lemmas out7_defs = out7_1_def out7_2_def out7_3_def out7_4_def out7_3z_def out7_4z_def

lemma u8_256: "(256 :: 8 word) = 0"
  by simp

lemma out7_place: "prediction_placeSingleBet (at ''alice'' 10) ''p'' 7 1000 scenA1 = Inr out7_1"
  by (simp add: out7_defs scenA_defs op_defs const_defs fun_upd_twist)

lemma out256_place:
  "prediction_placeSingleBet (at ''alice'' 10) ''p'' 256 1000 scenA1 = Inr scenA2"
  by (simp add: scenA_defs op_defs const_defs fun_upd_twist u8_256)

lemma out7_close: "prediction_closeSinglePool (at ''carol'' 100) ''p'' out7_1 = Inr out7_2"
  by (simp add: out7_defs scenA_defs op_defs const_defs)

lemma out7_settle: "prediction_settleSinglePool (at ''settler'' 101) ''p'' 7 out7_2 = Inr out7_3"
  by (simp add: out7_defs scenA_defs op_defs const_defs)

lemma out7_claim: "prediction_claimSingleBet (at ''carol'' 102) ''p'' ''alice'' out7_3 = Inr out7_4"
  by (simp add: out7_defs scenA_defs op_defs const_defs fun_upd_twist)

lemma out7_settle_B:
  "prediction_settleSinglePool (at ''settler'' 101) ''p'' 1 out7_2 = Inr out7_3z"
  by (simp add: out7_defs scenA_defs op_defs const_defs)

lemma out7_claim_B:
  "prediction_claimSingleBet (at ''carol'' 102) ''p'' ''alice'' out7_3z = Inr out7_4z"
  by (simp add: out7_defs scenA_defs op_defs const_defs fun_upd_twist)

lemmas place_simps =
  prediction_placeSingleBet_def whenNotPaused_def nonReentrant_def
  endNonReentrant_def assert_that_def abort_def token_transferFrom_def incrementCounter_def
  setCounter_def getCounter_small Let_def

lemma placeSingleBet_accept_any_outcome:
  "isl (prediction_placeSingleBet c poolId outcomeArg amount s)
     = isl (prediction_placeSingleBet c poolId outcomeArg' amount s)"
  by (simp add: place_simps split: option.splits)

lemma placeSingleBet_Inr:
  assumes "prediction_placeSingleBet c poolId outcomeArg amount s = Inr s'"
      and "spools s poolId = Some pool"
  shows "spools s' = (spools s)(poolId \<mapsto>
            (if (ucast outcomeArg :: i8) = 0
             then pool\<lparr>sp_totalPool := sp_totalPool pool + ucast amount,
                       sp_outcomeABets := sp_outcomeABets pool + ucast amount\<rparr>
             else pool\<lparr>sp_totalPool := sp_totalPool pool + ucast amount,
                       sp_outcomeBBets := sp_outcomeBBets pool + ucast amount\<rparr>))
         \<and> sbets s' = (sbets s)(sbetKey poolId (caller c) \<mapsto>
              \<lparr>sb_bettor = caller c, sb_poolId = poolId, sb_amount = ucast amount,
               sb_outcome = ucast outcomeArg, sb_isClaimed = False, sb_placedAt = timestamp c\<rparr>)
         \<and> \<not> sp_isClosed pool"
  using assms by (auto simp: place_simps split: if_splits)

lemma claimSingleBet_losing_Inr:
  assumes "prediction_claimSingleBet c poolId bettor s = Inr s'"
      and "spools s poolId = Some pool"
      and "sbets s (sbetKey poolId bettor) = Some bet"
      and "sb_outcome bet \<noteq> sp_winningOutcome pool"
  shows "tok_balance s' = tok_balance s
         \<and> spools s' = spools s
         \<and> sbets s' = (sbets s)(sbetKey poolId bettor \<mapsto> bet\<lparr>sb_isClaimed := True\<rparr>)
         \<and> getCounter s' (streakKey bettor) = 0
         \<and> getCounter s' TREASURY_BALANCE_KEY = getCounter s TREASURY_BALANCE_KEY"
proof -
  have zero: "u64_of_f64 (parseInt (u64_toString 0)) = 0"
    by (rule u64_of_f64_toString) simp
  show ?thesis
    using assms
    by (auto simp: prediction_claimSingleBet_def claimSingleBet_losing_def
          claimSingleBet_winning_def whenNotPaused_def nonReentrant_def endNonReentrant_def
          assert_that_def abort_def incrementCounter_def setCounter_def getCounter_def
          streakKey_def Let_def const_defs zero split: if_splits)
qed

text \<open>
  C9 as stated fails in two places. The outcome argument is an \<open>i32\<close> cast to \<open>i8\<close>, so
  the nonzero argument 256 is stored as outcome 0 and credited to outcome A. And
  \<open>prediction_settleSinglePool\<close> validates its argument no more than
  \<open>prediction_placeSingleBet\<close> does: a pool settled with the value 7 makes a bet placed
  with outcome 7 a winning bet, paid from outcome B's subtotal (here 950 of the 1000
  staked).
\<close>

theorem outcome_unvalidated_counterexample:
  "prediction_placeSingleBet (at ''alice'' 10) ''p'' 7 1000 scenA1 = Inr out7_1
   \<and> prediction_closeSinglePool (at ''carol'' 100) ''p'' out7_1 = Inr out7_2
   \<and> prediction_settleSinglePool (at ''settler'' 101) ''p'' 7 out7_2 = Inr out7_3
   \<and> map_option sb_outcome (sbets out7_3 (sbetKey ''p'' ''alice'')) = Some 7
   \<and> map_option sp_winningOutcome (spools out7_3 ''p'') = Some 7
   \<and> prediction_claimSingleBet (at ''carol'' 102) ''p'' ''alice'' out7_3 = Inr out7_4
   \<and> tok_balance out7_4 ''TOK'' ''alice'' = tok_balance out7_3 ''TOK'' ''alice'' + 950
   \<and> (256 :: i32) \<noteq> 0
   \<and> prediction_placeSingleBet (at ''alice'' 10) ''p'' 256 1000 scenA1 = Inr scenA2
   \<and> map_option (\<lambda>p. (sp_outcomeABets p, sp_outcomeBBets p)) (spools scenA2 ''p'')
       = Some (1000, 0)"
  unfolding out7_place out7_close out7_settle out7_claim out256_place
  by (simp add: out7_defs scenA_defs sbetKey_def new_SinglePool_def)

text \<open>
  C9, amended. \<open>prediction_placeSingleBet\<close> does not validate the outcome argument:
  whether a call is accepted does not depend on it, and when the value kept by the
  \<open>i8\<close> cast is not 0 (as for 7) the amount is added to outcome B's subtotal and to the
  pool total, outcome A's subtotal is unchanged and the bet is stored with that outcome.
  At claim time a bet whose outcome is neither 0 nor 1 is treated as a losing bet
  whenever the pool's winning outcome is 0 or 1: nothing is transferred, the bet is marked
  claimed and the bettor's streak is reset.
\<close>

theorem outcome_unvalidated:
  "isl (prediction_placeSingleBet c poolId outcomeArg amount s)
     = isl (prediction_placeSingleBet c poolId outcomeArg' amount s)
   \<and> (prediction_placeSingleBet c poolId outcomeArg amount s = Inr s'
        \<and> spools s poolId = Some pool \<and> (ucast outcomeArg :: i8) \<noteq> 0
      \<longrightarrow> map_option (\<lambda>q. (sp_outcomeABets q, sp_outcomeBBets q, sp_totalPool q)) (spools s' poolId)
            = Some (sp_outcomeABets pool, sp_outcomeBBets pool + ucast amount,
                    sp_totalPool pool + ucast amount)
          \<and> map_option sb_outcome (sbets s' (sbetKey poolId (caller c))) = Some (ucast outcomeArg))
   \<and> (prediction_claimSingleBet c2 poolId2 bettor t = Inr t'
        \<and> spools t poolId2 = Some pool2 \<and> sbets t (sbetKey poolId2 bettor) = Some bet
        \<and> sb_outcome bet \<notin> {0, 1} \<and> sp_winningOutcome pool2 \<in> {0, 1}
      \<longrightarrow> tok_balance t' = tok_balance t
          \<and> map_option sb_isClaimed (sbets t' (sbetKey poolId2 bettor)) = Some True
          \<and> getCounter t' (streakKey bettor) = 0)"
proof (intro conjI impI)
  show "isl (prediction_placeSingleBet c poolId outcomeArg amount s)
     = isl (prediction_placeSingleBet c poolId outcomeArg' amount s)"
    by (rule placeSingleBet_accept_any_outcome)
next
  assume h: "prediction_placeSingleBet c poolId outcomeArg amount s = Inr s'
        \<and> spools s poolId = Some pool \<and> (ucast outcomeArg :: i8) \<noteq> 0"
  from placeSingleBet_Inr [of c poolId outcomeArg amount s s' pool] h
  show "map_option (\<lambda>q. (sp_outcomeABets q, sp_outcomeBBets q, sp_totalPool q)) (spools s' poolId)
            = Some (sp_outcomeABets pool, sp_outcomeBBets pool + ucast amount,
                    sp_totalPool pool + ucast amount)"
    and "map_option sb_outcome (sbets s' (sbetKey poolId (caller c))) = Some (ucast outcomeArg)"
    by simp_all
next
  assume h: "prediction_claimSingleBet c2 poolId2 bettor t = Inr t'
        \<and> spools t poolId2 = Some pool2 \<and> sbets t (sbetKey poolId2 bettor) = Some bet
        \<and> sb_outcome bet \<notin> {0, 1} \<and> sp_winningOutcome pool2 \<in> {0, 1}"
  then have "sb_outcome bet \<noteq> sp_winningOutcome pool2" by auto
  from claimSingleBet_losing_Inr [of c2 poolId2 bettor t t' pool2 bet, OF _ _ _ this] h
  show "tok_balance t' = tok_balance t"
    and "map_option sb_isClaimed (sbets t' (sbetKey poolId2 bettor)) = Some True"
    and "getCounter t' (streakKey bettor) = 0"
    by simp_all
qed

theorem outcome_unvalidated_witness:
  "prediction_placeSingleBet (at ''alice'' 10) ''p'' 7 1000 scenA1 = Inr out7_1
   \<and> spools scenA1 ''p'' = Some poolA \<and> (ucast (7 :: i32) :: i8) \<noteq> 0
   \<and> map_option (\<lambda>q. (sp_outcomeABets q, sp_outcomeBBets q, sp_totalPool q)) (spools out7_1 ''p'')
       = Some (0, 1000, 1000)
   \<and> map_option sb_outcome (sbets out7_1 (sbetKey ''p'' ''alice'')) = Some 7
   \<and> prediction_claimSingleBet (at ''carol'' 102) ''p'' ''alice'' out7_3z = Inr out7_4z
   \<and> map_option sp_winningOutcome (spools out7_3z ''p'') = Some 1
   \<and> map_option sb_outcome (sbets out7_3z (sbetKey ''p'' ''alice'')) = Some 7
   \<and> tok_balance out7_4z = tok_balance out7_3z
   \<and> map_option sb_isClaimed (sbets out7_4z (sbetKey ''p'' ''alice'')) = Some True
   \<and> getCounter out7_4z (streakKey ''alice'') = 0"
proof -
  have pool: "spools scenA1 ''p'' = Some poolA"
    by (simp add: scenA1_def)
  have pool2: "spools out7_3z ''p'' = Some (poolA\<lparr>sp_totalPool := 1000, sp_outcomeBBets := 1000,
      sp_outcomeBOddsFP := 950000, sp_isClosed := True, sp_isSettled := True,
      sp_winningOutcome := 1\<rparr>)"
    by (simp add: out7_3z_def)
  have bet: "sbets out7_3z (sbetKey ''p'' ''alice'') = Some (betAlice\<lparr>sb_outcome := 7\<rparr>)"
    by (simp add: out7_defs sbetKey_def)
  have zero: "sp_outcomeABets poolA = 0 \<and> sp_outcomeBBets poolA = 0 \<and> sp_totalPool poolA = 0"
    by (simp add: poolA_def new_SinglePool_def)
  from outcome_unvalidated [of "at ''alice'' 10" "''p''" 7 1000 scenA1 0 out7_1 poolA
         "at ''carol'' 102" "''p''" "''alice''" out7_3z out7_4z
         "poolA\<lparr>sp_totalPool := 1000, sp_outcomeBBets := 1000, sp_outcomeBOddsFP := 950000,
            sp_isClosed := True, sp_isSettled := True, sp_winningOutcome := 1\<rparr>"
         "betAlice\<lparr>sb_outcome := 7\<rparr>"]
       out7_place out7_claim_B pool pool2 bet zero
  show ?thesis by (simp add: at_def)
qed

subsection \<open>Parlays: combined odds, weight and the winner flag\<close>

lemmas multibet_simps =
  prediction_placeMultibet_def placeMultibet_store_def prediction_checkBetslipWinner_def
  prediction_claimMultibet_def claimMultibet_winning_def prediction_finalizeMultipool_def
  prediction_createMultipool_def multibet_payout_def new_Multipool_def getBetslip_def
  Betslip_stored_def BetslipSelection_toString_def BetslipSelection_fromString_def

lemmas parD_defs =
  parD0_def parD1_def parD2_def parD3_def parD4_def parD5_def parL2_def parL3_def
  poolQ1_def poolQ2_def multipoolM_def slipD_def init_state_def at_def

lemma parD_place:
  "prediction_placeMultibet (at ''erin'' 150) ''s1'' ''m'' 100 [(''q1'', 0), (''q2'', 1)] parD0
     = Inr parD1"
  by (simp add: parD_defs multibet_simps op_defs const_defs parse_defs fun_upd_twist)

lemma parD_check: "prediction_checkBetslipWinner (at ''carol'' 300) ''s1'' parD2 = Inr parD3"
  by (simp add: parD_defs multibet_simps op_defs const_defs parse_defs)

lemma parD_finalize: "prediction_finalizeMultipool (at ''admin'' 301) ''m'' parD3 = Inr parD4"
  by (simp add: parD_defs multibet_simps op_defs const_defs)


lemma parL_check: "prediction_checkBetslipWinner (at ''carol'' 300) ''s1'' parL2 = Inr parL3"
  by (simp add: parD_defs multibet_simps op_defs const_defs parse_defs)

lemmas bar_defs = bar0_def bar1_def bar2_def bar3_def poolBar_def slipBar_def multipoolM_def
  init_state_def at_def

lemma bar_place:
  "prediction_placeMultibet (at ''erin'' 150) ''s1'' ''m'' 100 [(''a|1'', 0)] bar0 = Inr bar1"
  by (simp add: bar_defs multibet_simps op_defs const_defs parse_defs fun_upd_twist)

lemma bar_check: "prediction_checkBetslipWinner (at ''carol'' 300) ''s1'' bar2 = Inr bar3"
  by (simp add: bar_defs multibet_simps op_defs const_defs parse_defs)

lemma bar_parsed: "BetslipSelection_fromString ''a|1|0|1900000'' = Some (''a'', 1)"
  by (simp add: BetslipSelection_fromString_def parse_defs)


lemma bar_settle:
  "prediction_settleSinglePool (at ''settler'' 200) ''a'' 1 bar1
     = Inr (bar1\<lparr>spools := [''a'' \<mapsto> (poolBar ''a'')\<lparr>sp_isSettled := True, sp_winningOutcome := 1\<rparr>,
                               ''a|1'' \<mapsto> poolBar ''a|1'']\<rparr>)"
  "prediction_settleSinglePool (at ''settler'' 201) ''a|1'' 1
     (bar1\<lparr>spools := [''a'' \<mapsto> (poolBar ''a'')\<lparr>sp_isSettled := True, sp_winningOutcome := 1\<rparr>,
                        ''a|1'' \<mapsto> poolBar ''a|1'']\<rparr>)
     = Inr bar2"
  by (simp_all add: bar_defs op_defs const_defs fun_upd_twist)

text \<open>
  What a successful \<open>prediction_placeMultibet\<close> records: for every argument in order the
  text of a leg with the pool id, the outcome and the odds the pool holds for that side;
  combined odds that are the left-to-right fixed-point product of the leg odds seeded at
  1,000,000; the weight \<open>amount * combinedOdds / 1,000,000\<close> (all in 128-bit arithmetic).
\<close>

lemma placeMultibet_loop_Inr:
  "placeMultibet_loop pools args sels comb = Inr (sels', comb') \<Longrightarrow>
     \<exists>legs. sels' = sels @ map BetslipSelection_toString legs
       \<and> comb' = foldl (\<lambda>running odds. running * odds div 1000000) comb (map sel_oddsFP legs)
       \<and> map sel_poolId legs = map fst args
       \<and> map sel_outcome legs = map (\<lambda>a. ucast (snd a)) args
       \<and> list_all (\<lambda>sel. pool_odds pools (sel_poolId sel) (sel_outcome sel) = Some (sel_oddsFP sel)) legs"
proof (induction args arbitrary: sels comb)
  case Nil
  then show ?case by simp
next
  case (Cons a rest)
  obtain poolId outcomeArg where a: "a = (poolId, outcomeArg)" by (cases a)
  define sel where "sel = \<lparr>sel_poolId = poolId, sel_outcome = (ucast outcomeArg :: i8),
      sel_oddsFP = (if (ucast outcomeArg :: i8) = 0 then sp_outcomeAOddsFP (the (pools poolId))
                    else sp_outcomeBOddsFP (the (pools poolId)))\<rparr>"
  from Cons.prems a have
    rec: "placeMultibet_loop pools rest (sels @ [BetslipSelection_toString sel])
            (comb * sel_oddsFP sel div ODDS_SCALE_U128) = Inr (sels', comb')"
    and pool: "pools poolId \<noteq> None"
    by (auto simp: Let_def sel_def split: option.splits if_splits)
  from Cons.IH [OF rec] obtain legs where legs:
    "sels' = (sels @ [BetslipSelection_toString sel]) @ map BetslipSelection_toString legs"
    "comb' = foldl (\<lambda>running odds. running * odds div 1000000)
               (comb * sel_oddsFP sel div ODDS_SCALE_U128) (map sel_oddsFP legs)"
    "map sel_poolId legs = map fst rest"
    "map sel_outcome legs = map (\<lambda>a. ucast (snd a)) rest"
    "list_all (\<lambda>sel. pool_odds pools (sel_poolId sel) (sel_outcome sel) = Some (sel_oddsFP sel)) legs"
    by blast
  show ?case
    by (rule exI [of _ "sel # legs"])
       (use legs a pool in \<open>auto simp: pool_odds_def ODDS_SCALE_U128_def sel_def\<close>)
qed

lemma placeMultibet_Inr:
  assumes "prediction_placeMultibet c betslipId multipoolId amount args s = Inr s'"
  shows "\<exists>slip legs. betslips s' betslipId = Some slip
           \<and> bs_selections slip = map BetslipSelection_toString legs
           \<and> map sel_poolId legs = map fst args
           \<and> map sel_outcome legs = map (\<lambda>a. ucast (snd a)) args
           \<and> list_all (\<lambda>sel. pool_odds (spools s) (sel_poolId sel) (sel_outcome sel) = Some (sel_oddsFP sel))
                legs
           \<and> bs_combinedOddsFP slip = spec_combinedOdds (map sel_oddsFP legs)
           \<and> bs_weightFP slip = ucast amount * bs_combinedOddsFP slip div 1000000
           \<and> bs_amount slip = ucast amount"
proof -
  from assms obtain sels comb where
    loop: "placeMultibet_loop (spools s) args [] ODDS_SCALE_U128 = Inr (sels, comb)"
    by (auto simp: prediction_placeMultibet_def whenNotPaused_def nonReentrant_def abort_def
          split: if_splits sum.splits)
  from placeMultibet_loop_Inr [OF loop] obtain legs where legs:
    "sels = map BetslipSelection_toString legs"
    "comb = spec_combinedOdds (map sel_oddsFP legs)"
    "map sel_poolId legs = map fst args"
    "map sel_outcome legs = map (\<lambda>a. ucast (snd a)) args"
    "list_all (\<lambda>sel. pool_odds (spools s) (sel_poolId sel) (sel_outcome sel) = Some (sel_oddsFP sel)) legs"
    by (auto simp: spec_combinedOdds_def ODDS_SCALE_U128_def)
  from assms loop have
    "\<exists>slip. betslips s' betslipId = Some slip \<and> bs_selections slip = sels
       \<and> bs_combinedOddsFP slip = comb \<and> bs_amount slip = ucast amount
       \<and> bs_weightFP slip = ucast amount * comb div 1000000"
    by (auto simp: prediction_placeMultibet_def placeMultibet_store_def whenNotPaused_def
          nonReentrant_def endNonReentrant_def assert_that_def abort_def token_transferFrom_def
          incrementCounter_def setCounter_def Let_def ODDS_SCALE_U128_def
          split: if_splits option.splits)
  with legs show ?thesis by auto
qed


text \<open>
  A selection whose pool id holds no \<open>|\<close> is read back from its text as it was placed,
  and a list of such texts survives the join with \<open>||\<close> and the split.
\<close>

lemma split_char_free: "sep \<notin> set p \<Longrightarrow> split_char sep p = [p]"
  by (induction p) auto

lemma split_char_prefix:
  "sep \<notin> set p \<Longrightarrow> split_char sep (p @ sep # rest) = p # split_char sep rest"
  by (induction p) auto

lemma digit_char_no_bar: "d < 10 \<Longrightarrow> digit_char d \<noteq> CHR ''|''"
  using digit_cases [of d] by (auto simp: digit_char_def)

lemma nat_toString_no_bar: "CHR ''|'' \<notin> set (nat_toString n)"
proof
  assume "CHR ''|'' \<in> set (nat_toString n)"
  then obtain d where d: "d \<in> set (digits10 n)" "digit_char d = CHR ''|''"
    by (auto simp: nat_toString_def)
  then show False using digits10_bound [OF d(1)] digit_char_no_bar [of d] by simp
qed

lemma nat_toString_nonempty: "nat_toString n \<noteq> []"
  by (simp add: nat_toString_def digits10_nonempty)

lemma i8_toString_no_bar: "CHR ''|'' \<notin> set (i8_toString v)"
  by (simp add: i8_toString_def nat_toString_no_bar)

lemma i8_toString_nonempty: "i8_toString v \<noteq> []"
  by (simp add: i8_toString_def nat_toString_nonempty)

lemma parse_digits_toString:
  assumes "n < 2 ^ 53"
  shows "parse_digits neg (nat_toString n) = Some (neg, n)"
proof -
  obtain c cs where e: "nat_toString n = c # cs" "digit_value c < 10"
    using toString_hd [of n] by blast
  have rp: "radix_prefix (c # cs) = (10, c # cs)"
    using radix_prefix_toString [of n] by (simp only: e(1))
  have pl: "parse_loop 10 0 (c # cs) = n"
    using parse_loop_toString [OF assms] by (simp only: e(1))
  show ?thesis
    unfolding e(1) parse_digits_def rp using e(2) pl by (simp del: parse_loop.simps)
qed

lemma parseInt_i8_toString: "i8_of_f64 (parseInt (i8_toString v)) = v"
proof (cases "sint v < 0")
  case True
  define m where "m = nat (- sint v)"
  have m: "m \<le> 128" using sint_ge [of v] by (simp add: m_def)
  then have small: "m < 2 ^ 53" by simp
  have "parseInt (CHR ''-'' # nat_toString m) = Some (True, m)"
    using parse_digits_toString [OF small] nat_toString_nonempty [of m]
    by (simp add: parseInt_def isSpace_def)
  moreover have "(of_nat m :: i8) = - v"
    using True by (simp add: m_def)
  ultimately show ?thesis
    using True m by (simp add: i8_toString_def i8_of_f64_def m_def [symmetric] min_def)
next
  case False
  define m where "m = nat (sint v)"
  have m: "m \<le> 127" using sint_lt [of v] by (simp add: m_def)
  then have small: "m < 2 ^ 53" by simp
  have "(of_nat m :: i8) = v"
    using False by (simp add: m_def)
  then show ?thesis
    using False m parseInt_toString [OF small]
    by (simp add: i8_toString_def i8_of_f64_def m_def [symmetric] min_def)
qed

lemma fromString_toString:
  assumes "CHR ''|'' \<notin> set (sel_poolId sel)"
  shows "BetslipSelection_fromString (BetslipSelection_toString sel)
           = Some (sel_poolId sel, sel_outcome sel)"
proof -
  have "split_char CHR ''|'' (BetslipSelection_toString sel)
          = [sel_poolId sel, i8_toString (sel_outcome sel), u128_toString (sel_oddsFP sel)]"
    unfolding BetslipSelection_toString_def
    using split_char_prefix [OF assms] split_char_prefix [OF i8_toString_no_bar]
      split_char_free [OF nat_toString_no_bar]
    by (simp add: u128_toString_def)
  then show ?thesis
    by (simp add: BetslipSelection_fromString_def parseInt_i8_toString)
qed

lemma checkBetslipWinner_loop_Inr:
  assumes "\<forall>sel \<in> set legs. CHR ''|'' \<notin> set (sel_poolId sel)"
      and "checkBetslipWinner_loop pools (map BetslipSelection_toString legs) = Inr w"
  shows "w = spec_isWinner pools legs"
  using assms
  by (induction legs)
     (auto simp: spec_isWinner_def fromString_toString split: option.splits if_splits)


lemma split_bars_nonempty: "split_bars x \<noteq> []"
  by (induction x rule: split_bars.induct) (auto split: list.splits)

lemma split_bars_push:
  "c \<noteq> CHR ''|'' \<Longrightarrow> split_bars (c # x) = (c # hd (split_bars x)) # tl (split_bars x)"
  using split_bars_nonempty [of x] by (cases x) (auto split: list.splits)

lemma split_bars_push_bar:
  "x = [] \<or> hd x \<noteq> CHR ''|'' \<Longrightarrow>
     split_bars (CHR ''|'' # x) = (CHR ''|'' # hd (split_bars x)) # tl (split_bars x)"
  using split_bars_nonempty [of x] by (cases x) (auto split: list.splits)

lemma split_bars_free:
  "CHR ''|'' \<notin> set u \<Longrightarrow> split_bars (u @ x) = (u @ hd (split_bars x)) # tl (split_bars x)"
proof (induction u)
  case Nil
  then show ?case using split_bars_nonempty [of x] by simp
next
  case (Cons c u)
  have c: "c \<noteq> CHR ''|''" using Cons.prems by auto
  have ih: "split_bars (u @ x) = (u @ hd (split_bars x)) # tl (split_bars x)"
    using Cons by simp
  show ?case using split_bars_push [OF c, of "u @ x"] by (simp add: ih del: split_bars.simps)
qed

lemma split_bars_free_bar:
  assumes "CHR ''|'' \<notin> set u" and "u \<noteq> []"
  shows "split_bars (CHR ''|'' # u @ x)
           = (CHR ''|'' # u @ hd (split_bars x)) # tl (split_bars x)"
proof -
  have "hd (u @ x) \<noteq> CHR ''|''" using assms by (cases u) auto
  then have "split_bars (CHR ''|'' # u @ x)
               = (CHR ''|'' # hd (split_bars (u @ x))) # tl (split_bars (u @ x))"
    using split_bars_push_bar [of "u @ x"] by simp
  then show ?thesis by (simp add: split_bars_free [OF assms(1)] del: split_bars.simps)
qed

lemma split_bars_selection:
  assumes "CHR ''|'' \<notin> set (sel_poolId sel)"
  shows "split_bars (BetslipSelection_toString sel @ x)
           = (BetslipSelection_toString sel @ hd (split_bars x)) # tl (split_bars x)"
proof -
  have o: "CHR ''|'' \<notin> set (i8_toString (sel_outcome sel))" "i8_toString (sel_outcome sel) \<noteq> []"
    by (simp_all add: i8_toString_no_bar i8_toString_nonempty)
  have d: "CHR ''|'' \<notin> set (u128_toString (sel_oddsFP sel))" "u128_toString (sel_oddsFP sel) \<noteq> []"
    by (simp_all add: u128_toString_def nat_toString_no_bar nat_toString_nonempty)
  have "split_bars (sel_poolId sel @ CHR ''|'' # i8_toString (sel_outcome sel)
                      @ CHR ''|'' # u128_toString (sel_oddsFP sel) @ x)
          = (sel_poolId sel @ CHR ''|'' # i8_toString (sel_outcome sel)
                      @ CHR ''|'' # u128_toString (sel_oddsFP sel) @ hd (split_bars x))
            # tl (split_bars x)"
    by (simp add: split_bars_free [OF assms] split_bars_free_bar [OF o] split_bars_free_bar [OF d]
          del: split_bars.simps)
  then show ?thesis by (simp add: BetslipSelection_toString_def del: split_bars.simps)
qed

lemma split_join_selections:
  assumes "\<forall>sel \<in> set legs. CHR ''|'' \<notin> set (sel_poolId sel)" and "legs \<noteq> []"
  shows "split_bars (join_bars (map BetslipSelection_toString legs))
           = map BetslipSelection_toString legs"
  using assms(2,1)
proof (induction legs rule: list_nonempty_induct)
  case (single sel)
  then show ?case using split_bars_selection [of sel "[]"] by simp
next
  case (cons sel legs)
  obtain l ls where l: "legs = l # ls" using cons.hyps by (cases legs) auto
  have ih: "split_bars (join_bars (map BetslipSelection_toString legs))
              = map BetslipSelection_toString legs"
    using cons by simp
  have "split_bars (BetslipSelection_toString sel
                      @ CHR ''|'' # CHR ''|'' # join_bars (map BetslipSelection_toString legs))
          = BetslipSelection_toString sel # split_bars (join_bars (map BetslipSelection_toString legs))"
    using split_bars_selection [of sel "CHR ''|'' # CHR ''|'' # join_bars (map BetslipSelection_toString legs)"]
      cons.prems by simp
  then show ?case by (simp add: l ih [unfolded l, simplified])
qed

lemma Betslip_stored_selections:
  assumes "bs_selections slip = map BetslipSelection_toString legs"
      and "\<forall>sel \<in> set legs. CHR ''|'' \<notin> set (sel_poolId sel)"
  shows "Betslip_stored slip = slip"
proof (cases legs)
  case Nil
  then show ?thesis using assms(1) by (simp add: Betslip_stored_def)
next
  case (Cons l ls)
  then have ne: "legs \<noteq> []" by simp
  have "BetslipSelection_toString l \<noteq> []" by (simp add: BetslipSelection_toString_def)
  then have "join_bars (map BetslipSelection_toString legs) \<noteq> []"
    using Cons by (cases ls) auto
  then show ?thesis
    using assms(1) split_join_selections [OF assms(2) ne] by (simp add: Betslip_stored_def)
qed

text \<open>
  For a betslip whose legs name pools with ids free of \<open>|\<close>, a successful check sets
  the winner flag exactly when every leg's pool is settled on the leg's outcome.
\<close>

lemma checkBetslipWinner_Inr:
  assumes "prediction_checkBetslipWinner c betslipId s = Inr s'"
      and "betslips s betslipId = Some slip"
      and "bs_selections slip = map BetslipSelection_toString legs"
      and "\<forall>sel \<in> set legs. CHR ''|'' \<notin> set (sel_poolId sel)"
  shows "betslips s' betslipId
           = Some (slip\<lparr>bs_isWinner := spec_isWinner (spools s) legs, bs_isAccounted := True\<rparr>)
         \<and> \<not> bs_isAccounted slip \<and> spools s' = spools s"
proof -
  have read: "getBetslip (s\<lparr>locked := True\<rparr>) betslipId = Some slip"
    using assms(2) Betslip_stored_selections [OF assms(3,4)] by (simp add: getBetslip_def)
  from assms(1) read obtain w where
    loop: "checkBetslipWinner_loop (spools s) (map BetslipSelection_toString legs) = Inr w"
    by (auto simp: prediction_checkBetslipWinner_def whenNotPaused_def nonReentrant_def abort_def
          assert_that_def assms(3) split: if_splits sum.splits)
  note w = checkBetslipWinner_loop_Inr [OF assms(4) loop]
  from assms(1) read loop show ?thesis
    unfolding w [symmetric]
    by (auto simp: prediction_checkBetslipWinner_def whenNotPaused_def nonReentrant_def abort_def
          assert_that_def endNonReentrant_def Let_def assms(3) split: if_splits option.splits)
qed

text \<open>
  C7 says that after the check a betslip is a winner exactly when every leg's pool is
  settled on the leg's outcome. The check does not look at the leg that was placed but at
  what \<open>BetslipSelection.fromString\<close> reads from the stored text, split at every \<open>|\<close>.
  Erin's betslip has the single leg (pool \<open>a|1\<close>, outcome 0), stored as
  \<open>a|1|0|1900000\<close>, which is read back as pool \<open>a\<close>, outcome 1. Pool \<open>a|1\<close> is
  settled on outcome 1, so the leg has lost; pool \<open>a\<close> is settled on 1 as well, and the
  check marks the betslip a winner.
\<close>

theorem checkBetslipWinner_bar_in_pool_id:
  "prediction_placeMultibet (at ''erin'' 150) ''s1'' ''m'' 100 [(''a|1'', 0)] bar0 = Inr bar1
   \<and> map_option bs_selections (betslips bar1 ''s1'') = Some [''a|1|0|1900000'']
   \<and> map_option (\<lambda>p. (sp_isSettled p, sp_winningOutcome p)) (spools bar2 ''a|1'') = Some (True, 1)
   \<and> \<not> spec_isWinner (spools bar2)
         [\<lparr>sel_poolId = ''a|1'', sel_outcome = 0, sel_oddsFP = 1900000\<rparr>]
   \<and> BetslipSelection_fromString ''a|1|0|1900000'' = Some (''a'', 1)
   \<and> prediction_checkBetslipWinner (at ''carol'' 300) ''s1'' bar2 = Inr bar3
   \<and> map_option bs_isWinner (betslips bar3 ''s1'') = Some True"
  unfolding bar_place bar_check bar_parsed
  by (simp add: bar_defs spec_isWinner_def)

subsection \<open>The claimed flag, the transfer and aborts\<close>













subsection \<open>Granting XP\<close>

lemmas game_char_defs = game_createCharacter_def game_grantXP_def grantXP_character_def
  class_stats_def new_Character_def CHARACTER_COUNT_KEY_def SKILL_NONE_def MAX_ENERGY_def

lemma unat_u16: "unat (l :: 16 word) < 65536"
  using unsigned_less [of l, where ?'a = nat] by simp

lemma unat_u64: "unat (l :: 64 word) < 2 ^ 64"
  using unsigned_less [of l, where ?'a = nat] by simp

lemma unat_ucast_16_64: "unat (ucast (l :: 16 word) :: 64 word) = unat l"
  by (simp add: unsigned_ucast_eq take_bit_nat_eq_self_iff less_trans [OF unat_u16])

lemma unat_ucast_64_128: "unat (ucast (l :: 64 word) :: 128 word) = unat l"
  by (simp add: unsigned_ucast_eq take_bit_nat_eq_self_iff less_trans [OF unat_u64])

lemma gx_create:
  "game_createCharacter (at ''alice'' 1) ''hero'' 0 ''Hero''
     (init_state\<lparr>roles := {(''admin'', ''admin'')}\<rparr>) = Inr gx0"
  by (simp add: gx0_def hero_def init_state_def at_def game_char_defs op_defs const_defs)

lemma gx_grant_1000: "game_grantXP (at ''admin'' 5) ''hero'' 1000 gx0 = Inr gx1"
  by (simp add: gx0_def gx1_def hero_def init_state_def at_def game_char_defs op_defs const_defs)

lemma gx_grant_250: "game_grantXP (at ''admin'' 5) ''hero'' 250 gx0 = Inr gx2"
  by (simp add: gx0_def gx2_def hero_def init_state_def at_def game_char_defs op_defs const_defs)

lemma u16_u64_200:
  fixes l :: u16
  shows "unat ((ucast l :: u64) * 200) = unat l * 200"
proof -
  have "unat l * 200 < 2 ^ 64" using unat_u16 [of l] by simp
  then show ?thesis
    by (simp add: unat_word_ariths unat_ucast_16_64)
qed

lemma grantXP_below_next:
  assumes "unat (ch_xp ch) + unat amt < 200 * unat (ch_level ch) + 200 * (unat (ch_level ch) + 1)"
      and "ch_level ch < 65535"
  shows "ch_xp (grantXP_character amt ch)
           < (ucast (ch_level (grantXP_character amt ch)) :: u64) * 200"
proof -
  have l: "unat (ch_level ch) < 65535" using assms(2) by (simp add: word_less_nat_alt)
  have sum: "unat (ch_xp ch + amt) = unat (ch_xp ch) + unat amt"
    using assms(1) l by (simp add: unat_word_ariths)
  have l1: "unat (ch_level ch + 1) = unat (ch_level ch) + 1"
    using l by (simp add: unat_word_ariths)
  show ?thesis
  proof (cases "(ucast (ch_level ch) :: u64) * 200 \<le> ch_xp ch + amt")
    case True
    then have le: "unat (ch_level ch) * 200 \<le> unat (ch_xp ch) + unat amt"
      by (simp add: word_le_nat_alt u16_u64_200 sum)
    have "unat (ch_xp ch + amt - (ucast (ch_level ch) :: u64) * 200)
            = unat (ch_xp ch) + unat amt - unat (ch_level ch) * 200"
      using True by (simp add: unat_sub u16_u64_200 sum)
    with True le assms(1) show ?thesis
      by (simp add: grantXP_character_def Let_def word_less_nat_alt u16_u64_200 l1)
  next
    case False
    then have lt: "ch_xp ch + amt < (ucast (ch_level ch) :: u64) * 200"
      by (simp add: not_le)
    from False show ?thesis
      by (simp add: grantXP_character_def Let_def lt)
  qed
qed

lemma grantXP_Inr:
  assumes "game_grantXP c charId amt s = Inr s'"
  shows "(ADMIN_ROLE, caller c) \<in> roles s
         \<and> (\<exists>ch. characters s charId = Some ch
               \<and> s' = s\<lparr>characters := (characters s)(charId \<mapsto> grantXP_character amt ch)\<rparr>)"
  using assms
  by (auto simp: game_grantXP_def onlyRole_def abort_def split: if_splits option.splits)

text \<open>
  C8 as stated fails on its last part: the level-up test of \<open>game_grantXP\<close> is a single
  \<open>if\<close>, so one call raises the level at most once. A level-1 character with 0 xp that
  is granted 1000 xp ends at level 2 with 800 xp, which is not below the new level's
  threshold of 400.
\<close>

theorem grantXP_counterexample:
  "map_option (\<lambda>ch. (ch_level ch, ch_xp ch)) (characters gx0 ''hero'') = Some (1, 0)
   \<and> game_grantXP (at ''admin'' 5) ''hero'' 1000 gx0 = Inr gx1
   \<and> map_option (\<lambda>ch. (ch_level ch, ch_xp ch)) (characters gx1 ''hero'') = Some (2, 800)
   \<and> \<not> (800 < (ucast (2 :: u16) :: u64) * 200)"
  unfolding gx_grant_1000
  by (simp add: gx0_def gx1_def hero_def new_Character_def)

text \<open>
  C8, amended. \<open>game_grantXP\<close> is admin-only. It adds the amount to the character's xp
  and levels up at most once per call: when the new xp is at least \<open>level * 200\<close> it
  deducts that threshold, raises the level by one and grants the flat stat bumps once
  (maximum HP +5 with current HP set to it, damage range +1/+2); otherwise level and stats
  stay as they are. The remainder stays in xp. After the call xp is below the new level's
  threshold whenever the xp before the call plus the amount is below
  \<open>level * 200 + (level + 1) * 200\<close> (and the level is below 65535, the largest
  \<open>u16\<close>).
\<close>

theorem grantXP_levels_once:
  "(game_grantXP c charId amt s = Inr s' \<and> characters s charId = Some ch
      \<longrightarrow> (ADMIN_ROLE, caller c) \<in> roles s
          \<and> (\<exists>ch'. characters s' charId = Some ch'
                \<and> (if (ucast (ch_level ch) :: u64) * 200 \<le> ch_xp ch + amt
                    then ch_level ch' = ch_level ch + 1
                         \<and> ch_xp ch' = ch_xp ch + amt - ucast (ch_level ch) * 200
                         \<and> ch_maxHp ch' = ch_maxHp ch + 5 \<and> ch_currentHp ch' = ch_maxHp ch + 5
                         \<and> ch_baseDamageMin ch' = ch_baseDamageMin ch + 1
                         \<and> ch_baseDamageMax ch' = ch_baseDamageMax ch + 2
                    else ch_level ch' = ch_level ch \<and> ch_xp ch' = ch_xp ch + amt
                         \<and> ch_maxHp ch' = ch_maxHp ch \<and> ch_currentHp ch' = ch_currentHp ch
                         \<and> ch_baseDamageMin ch' = ch_baseDamageMin ch
                         \<and> ch_baseDamageMax ch' = ch_baseDamageMax ch)
                \<and> (unat (ch_xp ch) + unat amt
                       < 200 * unat (ch_level ch) + 200 * (unat (ch_level ch) + 1)
                     \<and> ch_level ch < 65535
                   \<longrightarrow> ch_xp ch' < ucast (ch_level ch') * 200)))
   \<and> ((ADMIN_ROLE, caller c) \<notin> roles s \<longrightarrow> isl (game_grantXP c charId amt s))"
proof (intro conjI impI)
  assume h: "game_grantXP c charId amt s = Inr s' \<and> characters s charId = Some ch"
  from grantXP_Inr [of c charId amt s s'] h
  have admin: "(ADMIN_ROLE, caller c) \<in> roles s"
    and s': "characters s' charId = Some (grantXP_character amt ch)"
    by auto
  show "(ADMIN_ROLE, caller c) \<in> roles s" by (rule admin)
  show "\<exists>ch'. characters s' charId = Some ch'
                \<and> (if (ucast (ch_level ch) :: u64) * 200 \<le> ch_xp ch + amt
                    then ch_level ch' = ch_level ch + 1
                         \<and> ch_xp ch' = ch_xp ch + amt - ucast (ch_level ch) * 200
                         \<and> ch_maxHp ch' = ch_maxHp ch + 5 \<and> ch_currentHp ch' = ch_maxHp ch + 5
                         \<and> ch_baseDamageMin ch' = ch_baseDamageMin ch + 1
                         \<and> ch_baseDamageMax ch' = ch_baseDamageMax ch + 2
                    else ch_level ch' = ch_level ch \<and> ch_xp ch' = ch_xp ch + amt
                         \<and> ch_maxHp ch' = ch_maxHp ch \<and> ch_currentHp ch' = ch_currentHp ch
                         \<and> ch_baseDamageMin ch' = ch_baseDamageMin ch
                         \<and> ch_baseDamageMax ch' = ch_baseDamageMax ch)
                \<and> (unat (ch_xp ch) + unat amt
                       < 200 * unat (ch_level ch) + 200 * (unat (ch_level ch) + 1)
                     \<and> ch_level ch < 65535
                   \<longrightarrow> ch_xp ch' < ucast (ch_level ch') * 200)"
  proof (intro exI conjI impI)
    show "characters s' charId = Some (grantXP_character amt ch)" by (rule s')
    show "if (ucast (ch_level ch) :: u64) * 200 \<le> ch_xp ch + amt
          then ch_level (grantXP_character amt ch) = ch_level ch + 1
               \<and> ch_xp (grantXP_character amt ch) = ch_xp ch + amt - ucast (ch_level ch) * 200
               \<and> ch_maxHp (grantXP_character amt ch) = ch_maxHp ch + 5
               \<and> ch_currentHp (grantXP_character amt ch) = ch_maxHp ch + 5
               \<and> ch_baseDamageMin (grantXP_character amt ch) = ch_baseDamageMin ch + 1
               \<and> ch_baseDamageMax (grantXP_character amt ch) = ch_baseDamageMax ch + 2
          else ch_level (grantXP_character amt ch) = ch_level ch
               \<and> ch_xp (grantXP_character amt ch) = ch_xp ch + amt
               \<and> ch_maxHp (grantXP_character amt ch) = ch_maxHp ch
               \<and> ch_currentHp (grantXP_character amt ch) = ch_currentHp ch
               \<and> ch_baseDamageMin (grantXP_character amt ch) = ch_baseDamageMin ch
               \<and> ch_baseDamageMax (grantXP_character amt ch) = ch_baseDamageMax ch"
      by (simp add: grantXP_character_def Let_def)
    assume "unat (ch_xp ch) + unat amt < 200 * unat (ch_level ch) + 200 * (unat (ch_level ch) + 1)
              \<and> ch_level ch < 65535"
    then show "ch_xp (grantXP_character amt ch) < ucast (ch_level (grantXP_character amt ch)) * 200"
      using grantXP_below_next by blast
  qed
next
  assume "(ADMIN_ROLE, caller c) \<notin> roles s"
  then show "isl (game_grantXP c charId amt s)"
    by (simp add: game_grantXP_def onlyRole_def abort_def)
qed

theorem grantXP_levels_once_witness:
  "game_grantXP (at ''admin'' 5) ''hero'' 250 gx0 = Inr gx2
   \<and> (ADMIN_ROLE, caller (at ''admin'' 5)) \<in> roles gx0
   \<and> map_option (\<lambda>ch. (ch_level ch, ch_xp ch, ch_maxHp ch, ch_currentHp ch, ch_baseDamageMin ch,
          ch_baseDamageMax ch)) (characters gx0 ''hero'') = Some (1, 0, 120, 120, 8, 15)
   \<and> map_option (\<lambda>ch. (ch_level ch, ch_xp ch, ch_maxHp ch, ch_currentHp ch, ch_baseDamageMin ch,
          ch_baseDamageMax ch)) (characters gx2 ''hero'') = Some (2, 50, 125, 125, 9, 17)
   \<and> (50 :: u64) < ucast (2 :: u16) * 200
   \<and> (ADMIN_ROLE, caller (at ''alice'' 6)) \<notin> roles gx0
   \<and> isl (game_grantXP (at ''alice'' 6) ''hero'' 250 gx0)"
proof -
  have ch: "characters gx0 ''hero'' = Some hero"
    by (simp add: gx0_def)
  have notadmin: "(ADMIN_ROLE, caller (at ''alice'' 6)) \<notin> roles gx0"
    by (simp add: gx0_def init_state_def at_def ADMIN_ROLE_def)
  from grantXP_levels_once [of "at ''admin'' 5" "''hero''" 250 gx0 gx2 hero]
       grantXP_levels_once [of "at ''alice'' 6" "''hero''" 250 gx0 gx2 hero]
       gx_grant_250 ch notadmin
  show ?thesis
    by (simp add: gx0_def gx2_def hero_def new_Character_def init_state_def at_def ADMIN_ROLE_def)
qed

subsection \<open>Invariants of the game store\<close>

lemmas entry_defs = whenNotPaused_def nonReentrant_def endNonReentrant_def assert_that_def
  abort_def onlyRole_def incrementCounter_def setCounter_def getCounter_small

lemma skill_heal_within: "ch_currentHp (skill_heal a) \<le> ch_maxHp (skill_heal a)"
  by (simp add: skill_heal_def Let_def not_less)

lemma apply_skill_within:
  "char_within a \<Longrightarrow> char_within (fst (apply_skill p sk a b))"
  using skill_heal_within [of a]
  by (simp add: apply_skill_def char_within_def skill_heal_def Let_def)

lemma energy_spent_within:
  assumes "char_within a" and "cost \<le> ch_currentEnergy a"
  shows "char_within (a\<lparr>ch_currentEnergy := ch_currentEnergy a - cost\<rparr>)"
proof -
  have "unat (ch_currentEnergy a - cost) = unat (ch_currentEnergy a) - unat cost"
    using assms(2) by (simp add: unat_sub)
  with assms(1) show ?thesis
    by (auto simp: char_within_def MAX_ENERGY_def word_le_nat_alt)
qed

lemma use_skill_within:
  "char_within a \<Longrightarrow> char_within (fst (use_skill p slot a b))"
  by (simp add: use_skill_def Let_def case_prod_beta apply_skill_within energy_spent_within)

lemma regen_energy_within: "char_within ch \<Longrightarrow> char_within (regen_energy ch)"
  by (auto simp: regen_energy_def char_within_def MAX_ENERGY_def ENERGY_PER_TURN_def not_less)

lemma executeTurn_body_within:
  assumes "chars_within s" and "char_within c1" and "char_within c2"
  shows "chars_within (executeTurn_body c bid p slot battle c1 c2 s)"
  using assms use_skill_within [of c1 p slot battle] use_skill_within [of c2 p slot battle]
  by (auto simp: executeTurn_body_def Let_def case_prod_beta chars_within_def
        regen_energy_within split: if_splits)

lemma executeTurn_Inr:
  assumes "game_executeTurn c bid aid st us slot s = Inr s'"
  shows "\<exists>battle. battles s bid = Some battle \<and> \<not> bt_isFinished battle \<and> \<not> paused s \<and> \<not> locked s
           \<and> ((wildcard_roll c (aid = bt_player1Char battle) aid battle
                 \<and> s' = s\<lparr>battles := (battles s)(bid \<mapsto> wildcard_trigger c battle)\<rparr>)
              \<or> (\<not> wildcard_roll c (aid = bt_player1Char battle) aid battle
                 \<and> (\<exists>c1 c2. characters s (bt_player1Char battle) = Some c1
                      \<and> characters s (bt_player2Char battle) = Some c2
                      \<and> s' = (executeTurn_body c bid (aid = bt_player1Char battle) slot battle c1 c2
                                 (s\<lparr>locked := True\<rparr>))\<lparr>locked := False\<rparr>)))"
  using assms
  by (auto simp: game_executeTurn_def entry_defs Let_def split: option.splits if_splits)

lemma executeTurn_within:
  assumes "game_executeTurn c bid aid st us slot s = Inr s'" and "chars_within s"
  shows "chars_within s'"
proof -
  from executeTurn_Inr [OF assms(1)] obtain battle where
    cases: "(wildcard_roll c (aid = bt_player1Char battle) aid battle
                 \<and> s' = s\<lparr>battles := (battles s)(bid \<mapsto> wildcard_trigger c battle)\<rparr>)
              \<or> (\<not> wildcard_roll c (aid = bt_player1Char battle) aid battle
                 \<and> (\<exists>c1 c2. characters s (bt_player1Char battle) = Some c1
                      \<and> characters s (bt_player2Char battle) = Some c2
                      \<and> s' = (executeTurn_body c bid (aid = bt_player1Char battle) slot battle c1 c2
                                 (s\<lparr>locked := True\<rparr>))\<lparr>locked := False\<rparr>))"
    by blast
  then show ?thesis
  proof (elim disjE conjE exE)
    assume "s' = s\<lparr>battles := (battles s)(bid \<mapsto> wildcard_trigger c battle)\<rparr>"
    with assms(2) show ?thesis by (simp add: chars_within_def)
  next
    fix c1 c2
    assume c1: "characters s (bt_player1Char battle) = Some c1"
      and c2: "characters s (bt_player2Char battle) = Some c2"
      and s': "s' = (executeTurn_body c bid (aid = bt_player1Char battle) slot battle c1 c2
                                 (s\<lparr>locked := True\<rparr>))\<lparr>locked := False\<rparr>"
    have "chars_within (s\<lparr>locked := True\<rparr>)" using assms(2) by (simp add: chars_within_def)
    moreover have "char_within c1" "char_within c2"
      using assms(2) c1 c2 by (auto simp: chars_within_def)
    ultimately have "chars_within (executeTurn_body c bid (aid = bt_player1Char battle) slot battle c1 c2
                                 (s\<lparr>locked := True\<rparr>))"
      by (rule executeTurn_body_within)
    with s' show ?thesis by (simp add: chars_within_def)
  qed
qed

lemma createCharacter_within:
  assumes "game_createCharacter c ident cls name s = Inr s'" and "chars_within s"
  shows "chars_within s'"
  using assms
  by (auto simp: game_createCharacter_def entry_defs Let_def chars_within_def char_within_def
        class_stats_def new_Character_def
        split: option.splits if_splits)

lemma upgradeCharacter_within:
  assumes "game_upgradeCharacter c charId ut s = Inr s'" and "chars_within s"
  shows "chars_within s'"
  using assms
  by (auto simp: game_upgradeCharacter_def entry_defs Let_def chars_within_def char_within_def
        split: option.splits if_splits)

lemma grantXP_within:
  assumes "game_grantXP c charId amt s = Inr s'" and "chars_within s"
  shows "chars_within s'"
  using assms
  by (auto simp: game_grantXP_def grantXP_character_def entry_defs Let_def chars_within_def
        char_within_def split: option.splits if_splits)

lemma healCharacter_within:
  assumes "game_healCharacter c charId s = Inr s'" and "chars_within s"
  shows "chars_within s'"
  using assms
  by (auto simp: game_healCharacter_def entry_defs Let_def chars_within_def
        char_within_def split: option.splits if_splits)

lemma finalizeBattle_within:
  assumes "game_finalizeBattle c bid s = Inr s'" and "chars_within s"
  shows "chars_within s'"
  using assms
  by (auto simp: game_finalizeBattle_def entry_defs Let_def chars_within_def
        char_within_def split: option.splits if_splits)

lemma equipItem_within:
  assumes "game_equipItem c charId eid s = Inr s'" and "chars_within s"
  shows "chars_within s'"
  using assms
  by (auto simp: game_equipItem_def entry_defs Let_def chars_within_def
        char_within_def split: option.splits if_splits)

lemma learnSkill_within:
  assumes "game_learnSkill c charId sk s = Inr s'" and "chars_within s"
  shows "chars_within s'"
  using assms
  by (auto simp: game_learnSkill_def entry_defs Let_def chars_within_def
        char_within_def split: option.splits if_splits)

lemma equipSkill_within:
  assumes "game_equipSkill c charId sk slot s = Inr s'" and "chars_within s"
  shows "chars_within s'"
  using assms
  by (auto simp: game_equipSkill_def entry_defs Let_def chars_within_def
        char_within_def split: option.splits if_splits)










lemma u64_wear: "(if d < (h :: u64) then h - d else 0) \<le> h"
  by (simp add: word_le_nat_alt word_less_nat_alt unat_sub)




































lemma game_constructor_game_frame:
  "game_constructor c w s = Inr s' \<Longrightarrow> characters s' = characters s \<and> battles s' = battles s"
  by (auto simp: game_constructor_def entry_defs Let_def
        split: option.splits if_splits sum.splits prod.splits)

lemma prediction_constructor_game_frame:
  "prediction_constructor c w s = Inr s' \<Longrightarrow> characters s' = characters s \<and> battles s' = battles s"
  by (auto simp: prediction_constructor_def entry_defs Let_def
        split: option.splits if_splits sum.splits prod.splits)

lemma game_setPaused_game_frame:
  "game_setPaused c p s = Inr s' \<Longrightarrow> characters s' = characters s \<and> battles s' = battles s"
  by (auto simp: game_setPaused_def entry_defs Let_def
        split: option.splits if_splits sum.splits prod.splits)

lemma game_grantSettler_game_frame:
  "game_grantSettler c a s = Inr s' \<Longrightarrow> characters s' = characters s \<and> battles s' = battles s"
  by (auto simp: game_grantSettler_def entry_defs Let_def
        split: option.splits if_splits sum.splits prod.splits)

lemma game_createEquipment_game_frame:
  "game_createEquipment c e ow ty ra s = Inr s' \<Longrightarrow> characters s' = characters s \<and> battles s' = battles s"
  by (auto simp: game_createEquipment_def entry_defs Let_def
        split: option.splits if_splits sum.splits prod.splits)

lemma game_transferEquipment_game_frame:
  "game_transferEquipment c e ad s = Inr s' \<Longrightarrow> characters s' = characters s \<and> battles s' = battles s"
  by (auto simp: game_transferEquipment_def entry_defs Let_def
        split: option.splits if_splits sum.splits prod.splits)

lemma game_addToTreasury_game_frame:
  "game_addToTreasury c am s = Inr s' \<Longrightarrow> characters s' = characters s \<and> battles s' = battles s"
  by (auto simp: game_addToTreasury_def entry_defs Let_def
        split: option.splits if_splits sum.splits prod.splits)

lemma game_withdrawTreasury_game_frame:
  "game_withdrawTreasury c am tk rc s = Inr s' \<Longrightarrow> characters s' = characters s \<and> battles s' = battles s"
  by (auto simp: game_withdrawTreasury_def token_transfer_def entry_defs Let_def
        split: option.splits if_splits sum.splits prod.splits)

lemma prediction_createSinglePool_game_frame:
  "prediction_createSinglePool c pid bid tk cl s = Inr s' \<Longrightarrow> characters s' = characters s \<and> battles s' = battles s"
  by (auto simp: prediction_createSinglePool_def entry_defs Let_def
        split: option.splits if_splits sum.splits prod.splits)

lemma prediction_placeSingleBet_game_frame:
  "prediction_placeSingleBet c pid oc am s = Inr s' \<Longrightarrow> characters s' = characters s \<and> battles s' = battles s"
  by (auto simp: prediction_placeSingleBet_def token_transferFrom_def entry_defs Let_def
        split: option.splits if_splits sum.splits prod.splits)

lemma prediction_closeSinglePool_game_frame:
  "prediction_closeSinglePool c pid s = Inr s' \<Longrightarrow> characters s' = characters s \<and> battles s' = battles s"
  by (auto simp: prediction_closeSinglePool_def entry_defs Let_def
        split: option.splits if_splits sum.splits prod.splits)

lemma prediction_settleSinglePool_game_frame:
  "prediction_settleSinglePool c pid w s = Inr s' \<Longrightarrow> characters s' = characters s \<and> battles s' = battles s"
  by (auto simp: prediction_settleSinglePool_def entry_defs Let_def
        split: option.splits if_splits sum.splits prod.splits)

lemma prediction_claimSingleBet_game_frame:
  "prediction_claimSingleBet c pid bt s = Inr s' \<Longrightarrow> characters s' = characters s \<and> battles s' = battles s"
  by (auto simp: prediction_claimSingleBet_def claimSingleBet_losing_def claimSingleBet_winning_def claimSingleBet_bonus_def claimSingleBet_treasury_def token_transfer_def entry_defs Let_def
        split: option.splits if_splits sum.splits prod.splits)

lemma prediction_setAuthorizedSettler_game_frame:
  "prediction_setAuthorizedSettler c a s = Inr s' \<Longrightarrow> characters s' = characters s \<and> battles s' = battles s"
  by (auto simp: prediction_setAuthorizedSettler_def entry_defs Let_def
        split: option.splits if_splits sum.splits prod.splits)

lemma prediction_setPaused_game_frame:
  "prediction_setPaused c p s = Inr s' \<Longrightarrow> characters s' = characters s \<and> battles s' = battles s"
  by (auto simp: prediction_setPaused_def entry_defs Let_def
        split: option.splits if_splits sum.splits prod.splits)

lemma prediction_createMultipool_game_frame:
  "prediction_createMultipool c m tk s = Inr s' \<Longrightarrow> characters s' = characters s \<and> battles s' = battles s"
  by (auto simp: prediction_createMultipool_def entry_defs Let_def
        split: option.splits if_splits sum.splits prod.splits)

lemma prediction_placeMultibet_game_frame:
  "prediction_placeMultibet c b m am sel s = Inr s' \<Longrightarrow> characters s' = characters s \<and> battles s' = battles s"
  by (auto simp: prediction_placeMultibet_def placeMultibet_store_def token_transferFrom_def entry_defs Let_def
        split: option.splits if_splits sum.splits prod.splits)

lemma prediction_checkBetslipWinner_game_frame:
  "prediction_checkBetslipWinner c b s = Inr s' \<Longrightarrow> characters s' = characters s \<and> battles s' = battles s"
  by (auto simp: prediction_checkBetslipWinner_def entry_defs Let_def
        split: option.splits if_splits sum.splits prod.splits)

lemma prediction_finalizeMultipool_game_frame:
  "prediction_finalizeMultipool c m s = Inr s' \<Longrightarrow> characters s' = characters s \<and> battles s' = battles s"
  by (auto simp: prediction_finalizeMultipool_def entry_defs Let_def
        split: option.splits if_splits sum.splits prod.splits)

lemma prediction_claimMultibet_game_frame:
  "prediction_claimMultibet c b s = Inr s' \<Longrightarrow> characters s' = characters s \<and> battles s' = battles s"
  by (auto simp: prediction_claimMultibet_def claimMultibet_winning_def token_transfer_def entry_defs Let_def
        split: option.splits if_splits sum.splits prod.splits)























lemma createBattle_shape:
  assumes "game_createBattle c bid a b st s = Inr s'"
  shows "\<exists>c1 c2 bt. characters s a = Some c1 \<and> characters s b = Some c2 \<and> battles s bid = None
           \<and> characters s' = characters s \<and> battles s' = (battles s)(bid \<mapsto> bt)
           \<and> \<not> bt_isFinished bt \<and> bt_winner bt = 0
           \<and> bt_player1Hp bt = ch_maxHp c1 \<and> bt_player2Hp bt = ch_maxHp c2"
  using assms
  by (auto simp: game_createBattle_def entry_defs Let_def split: option.splits if_splits)




lemma decideWildcard_shape:
  assumes "game_decideWildcard c bid acc pc s = Inr s'"
  shows "\<exists>bt p. battles s bid = Some bt \<and> characters s' = characters s
           \<and> battles s' = (battles s)(bid \<mapsto> decide_wildcard p acc bt)"
  using assms
  by (auto simp: game_decideWildcard_def entry_defs Let_def split: option.splits if_splits)








lemma frame_within:
  "characters s' = characters s \<and> battles s' = battles s \<Longrightarrow> chars_within s \<Longrightarrow> chars_within s'"
  by (simp add: chars_within_def)

lemma createBattle_within:
  "game_createBattle c b x y ts s = Inr s' \<Longrightarrow> chars_within s \<Longrightarrow> chars_within s'"
  using createBattle_shape [of c b x y ts s s'] by (auto simp: chars_within_def)

lemma decideWildcard_within:
  "game_decideWildcard c b ac pc s = Inr s' \<Longrightarrow> chars_within s \<Longrightarrow> chars_within s'"
  using decideWildcard_shape [of c b ac pc s s'] by (auto simp: chars_within_def)

lemma exec_within:
  assumes "exec c cl s = Inr s'" and "chars_within s"
  shows "chars_within s'"
proof (cases cl)
  case (GameConstructor w)
  then have h: "game_constructor c w s = Inr s'" using assms(1) by simp
  show ?thesis by (rule frame_within [OF game_constructor_game_frame [OF h] assms(2)])
next
  case (PredictionConstructor w)
  then have h: "prediction_constructor c w s = Inr s'" using assms(1) by simp
  show ?thesis by (rule frame_within [OF prediction_constructor_game_frame [OF h] assms(2)])
next
  case (CreateCharacter i k nm)
  then have h: "game_createCharacter c i k nm s = Inr s'" using assms(1) by simp
  show ?thesis by (rule createCharacter_within [OF h assms(2)])
next
  case (CreateBattle b x y ts)
  then have h: "game_createBattle c b x y ts s = Inr s'" using assms(1) by simp
  show ?thesis by (rule createBattle_within [OF h assms(2)])
next
  case (ExecuteTurn b a st us sl)
  then have h: "game_executeTurn c b a st us sl s = Inr s'" using assms(1) by simp
  show ?thesis by (rule executeTurn_within [OF h assms(2)])
next
  case (DecideWildcard b ac pc)
  then have h: "game_decideWildcard c b ac pc s = Inr s'" using assms(1) by simp
  show ?thesis by (rule decideWildcard_within [OF h assms(2)])
next
  case (FinalizeBattle b)
  then have h: "game_finalizeBattle c b s = Inr s'" using assms(1) by simp
  show ?thesis by (rule finalizeBattle_within [OF h assms(2)])
next
  case (GameSetPaused p)
  then have h: "game_setPaused c p s = Inr s'" using assms(1) by simp
  show ?thesis by (rule frame_within [OF game_setPaused_game_frame [OF h] assms(2)])
next
  case (GrantSettler a)
  then have h: "game_grantSettler c a s = Inr s'" using assms(1) by simp
  show ?thesis by (rule frame_within [OF game_grantSettler_game_frame [OF h] assms(2)])
next
  case (UpgradeCharacter i ty)
  then have h: "game_upgradeCharacter c i ty s = Inr s'" using assms(1) by simp
  show ?thesis by (rule upgradeCharacter_within [OF h assms(2)])
next
  case (GrantXP i x)
  then have h: "game_grantXP c i x s = Inr s'" using assms(1) by simp
  show ?thesis by (rule grantXP_within [OF h assms(2)])
next
  case (HealCharacter i)
  then have h: "game_healCharacter c i s = Inr s'" using assms(1) by simp
  show ?thesis by (rule healCharacter_within [OF h assms(2)])
next
  case (CreateEquipment e ow ty ra)
  then have h: "game_createEquipment c e ow ty ra s = Inr s'" using assms(1) by simp
  show ?thesis by (rule frame_within [OF game_createEquipment_game_frame [OF h] assms(2)])
next
  case (EquipItem i e)
  then have h: "game_equipItem c i e s = Inr s'" using assms(1) by simp
  show ?thesis by (rule equipItem_within [OF h assms(2)])
next
  case (TransferEquipment e ad)
  then have h: "game_transferEquipment c e ad s = Inr s'" using assms(1) by simp
  show ?thesis by (rule frame_within [OF game_transferEquipment_game_frame [OF h] assms(2)])
next
  case (LearnSkill i k)
  then have h: "game_learnSkill c i k s = Inr s'" using assms(1) by simp
  show ?thesis by (rule learnSkill_within [OF h assms(2)])
next
  case (EquipSkill i k sl)
  then have h: "game_equipSkill c i k sl s = Inr s'" using assms(1) by simp
  show ?thesis by (rule equipSkill_within [OF h assms(2)])
next
  case (AddToTreasury am)
  then have h: "game_addToTreasury c am s = Inr s'" using assms(1) by simp
  show ?thesis by (rule frame_within [OF game_addToTreasury_game_frame [OF h] assms(2)])
next
  case (WithdrawTreasury am tk rc)
  then have h: "game_withdrawTreasury c am tk rc s = Inr s'" using assms(1) by simp
  show ?thesis by (rule frame_within [OF game_withdrawTreasury_game_frame [OF h] assms(2)])
next
  case (CreateSinglePool pid bid tk cl')
  then have h: "prediction_createSinglePool c pid bid tk cl' s = Inr s'" using assms(1) by simp
  show ?thesis by (rule frame_within [OF prediction_createSinglePool_game_frame [OF h] assms(2)])
next
  case (PlaceSingleBet pid oc am)
  then have h: "prediction_placeSingleBet c pid oc am s = Inr s'" using assms(1) by simp
  show ?thesis by (rule frame_within [OF prediction_placeSingleBet_game_frame [OF h] assms(2)])
next
  case (CloseSinglePool pid)
  then have h: "prediction_closeSinglePool c pid s = Inr s'" using assms(1) by simp
  show ?thesis by (rule frame_within [OF prediction_closeSinglePool_game_frame [OF h] assms(2)])
next
  case (SettleSinglePool pid w)
  then have h: "prediction_settleSinglePool c pid w s = Inr s'" using assms(1) by simp
  show ?thesis by (rule frame_within [OF prediction_settleSinglePool_game_frame [OF h] assms(2)])
next
  case (ClaimSingleBet pid bt)
  then have h: "prediction_claimSingleBet c pid bt s = Inr s'" using assms(1) by simp
  show ?thesis by (rule frame_within [OF prediction_claimSingleBet_game_frame [OF h] assms(2)])
next
  case (SetAuthorizedSettler a)
  then have h: "prediction_setAuthorizedSettler c a s = Inr s'" using assms(1) by simp
  show ?thesis by (rule frame_within [OF prediction_setAuthorizedSettler_game_frame [OF h] assms(2)])
next
  case (PredictionSetPaused p)
  then have h: "prediction_setPaused c p s = Inr s'" using assms(1) by simp
  show ?thesis by (rule frame_within [OF prediction_setPaused_game_frame [OF h] assms(2)])
next
  case (CreateMultipool m tk)
  then have h: "prediction_createMultipool c m tk s = Inr s'" using assms(1) by simp
  show ?thesis by (rule frame_within [OF prediction_createMultipool_game_frame [OF h] assms(2)])
next
  case (PlaceMultibet b m am sel)
  then have h: "prediction_placeMultibet c b m am sel s = Inr s'" using assms(1) by simp
  show ?thesis by (rule frame_within [OF prediction_placeMultibet_game_frame [OF h] assms(2)])
next
  case (CheckBetslipWinner b)
  then have h: "prediction_checkBetslipWinner c b s = Inr s'" using assms(1) by simp
  show ?thesis by (rule frame_within [OF prediction_checkBetslipWinner_game_frame [OF h] assms(2)])
next
  case (FinalizeMultipool m)
  then have h: "prediction_finalizeMultipool c m s = Inr s'" using assms(1) by simp
  show ?thesis by (rule frame_within [OF prediction_finalizeMultipool_game_frame [OF h] assms(2)])
next
  case (ClaimMultibet b)
  then have h: "prediction_claimMultibet c b s = Inr s'" using assms(1) by simp
  show ?thesis by (rule frame_within [OF prediction_claimMultibet_game_frame [OF h] assms(2)])
qed

lemma reachable_within: "reachable_in n s \<Longrightarrow> chars_within s"
proof (induction rule: reachable_in.induct)
  case start
  show ?case by (simp add: chars_within_def init_state_def)
next
  case (step n s c cl s')
  then show ?case using exec_within by blast
next
  case (ledger n s b a)
  then show ?case by (simp add: chars_within_def)
qed


subsection \<open>The duel scenario\<close>

lemmas duel_defs = duel_ann_def duel_mag_def duel_battle_def duel1_def duel2_def duel_store_def
  init_state_def at_def new_Character_def new_Battle_def

lemma duel_create_ann:
  "game_createCharacter (at ''alice'' 1) ''ann'' 1 ''Ann'' init_state = Inr duel1"
  by (simp add: duel_defs game_createCharacter_def class_stats_def entry_defs
        CHARACTER_COUNT_KEY_def)

lemma duel_create_mag:
  "game_createCharacter (at ''bob'' 2) ''mag'' 2 ''Mag'' duel1 = Inr duel2"
  by (simp add: duel_defs game_createCharacter_def class_stats_def entry_defs
        CHARACTER_COUNT_KEY_def fun_upd_twist)

lemma duel_create_battle:
  "game_createBattle (at ''alice'' 3) ''d'' ''ann'' ''mag'' 0 duel2
     = Inr (duel_store (duel_battle 0 1 90 80 0 0))"
  by (simp add: duel_defs game_createBattle_def entry_defs BATTLE_COUNT_KEY_def fun_upd_twist)


lemma duel_fields:
  "bt_isFinished (duel_battle t cu h1 h2 c1 c2) = False"
  "bt_player1Char (duel_battle t cu h1 h2 c1 c2) = ''ann''"
  "bt_player2Char (duel_battle t cu h1 h2 c1 c2) = ''mag''"
  "bt_player1Owner (duel_battle t cu h1 h2 c1 c2) = ''alice''"
  "bt_player2Owner (duel_battle t cu h1 h2 c1 c2) = ''bob''"
  "bt_currentTurn (duel_battle t cu h1 h2 c1 c2) = cu"
  "bt_player1StatusEffects (duel_battle t cu h1 h2 c1 c2) = 0"
  "bt_player2StatusEffects (duel_battle t cu h1 h2 c1 c2) = 0"
  "regen_energy duel_ann = duel_ann"
  "regen_energy duel_mag = duel_mag"
  "caller (at w ts) = w"
  "se_skillUsed no_skill = 0"
  "ch_weaponId duel_ann = []" "ch_armorId duel_ann = []" "ch_accessoryId duel_ann = []"
  "ch_weaponId duel_mag = []" "ch_armorId duel_mag = []" "ch_accessoryId duel_mag = []"
  by (simp_all add: duel_battle_def new_Battle_def STATUS_NONE_def regen_energy_def duel_ann_def
        duel_mag_def new_Character_def MAX_ENERGY_def at_def no_skill_def SKILL_NONE_def)

lemma duel_roll1: "wildcard_roll (at ''alice'' 4) True ''ann'' (duel_battle 0 1 90 80 0 0) = False"
  by (simp add: wildcard_roll_def simple_random_def at_def duel_battle_def new_Battle_def Let_def)

lemma duel_damage1:
  "compute_damage (at ''alice'' 4) True (duel_battle 0 1 90 80 0 0) duel_ann duel_mag
     \<lparr>eb_attackerDamageMinBonus = 0, eb_attackerDamageMaxBonus = 0, eb_attackerCritBonus = 0, eb_defenderDodgeBonus = 0\<rparr>
     no_skill 0 = (12, False)"
  by (simp add: compute_damage_def simple_random_def at_def duel_battle_def new_Battle_def
        duel_ann_def duel_mag_def new_Character_def no_skill_def Let_def STATUS_RAGE_def
        STATUS_SHIELD_def STATUS_NONE_def word_le_nat_alt)

lemma duel_resolve1:
  "resolve_turn (at ''alice'' 4) True duel_ann duel_mag
     \<lparr>eb_attackerDamageMinBonus = 0, eb_attackerDamageMaxBonus = 0, eb_attackerCritBonus = 0, eb_defenderDodgeBonus = 0\<rparr>
     no_skill 0 (duel_battle 0 1 90 80 0 0) = (duel_battle 1 2 90 68 1 0)"
  by (simp add: resolve_turn_def duel_damage1)
     (simp add: duel_battle_def duel_final_def new_Battle_def apply_damage_def apply_dots_def
        tick_status_p1_def tick_status_p2_def advance_turn_def tick_cooldowns_def
        check_finish_def Let_def STATUS_NONE_def STATUS_POISON_def STATUS_BURN_def)

lemma duel_turn1:
  "game_executeTurn (at ''alice'' 4) ''d'' ''ann'' 0 False 0 (duel_store (duel_battle 0 1 90 80 0 0))
     = Inr (duel_store (duel_battle 1 2 90 68 1 0))"
  by (simp add: game_executeTurn_def executeTurn_body_def entry_defs duel_store_def
        init_state_def duel_fields duel_roll1 duel_resolve1 use_skill_def
        load_bonuses_def equipped_def Let_def STATUS_STUN_def SKILL_NONE_def fun_upd_twist)

lemma duel_roll2: "wildcard_roll (at ''bob'' 6) False ''mag'' (duel_battle 1 2 90 68 1 0) = False"
  by (simp add: wildcard_roll_def simple_random_def at_def duel_battle_def new_Battle_def Let_def)

lemma duel_damage2:
  "compute_damage (at ''bob'' 6) False (duel_battle 1 2 90 68 1 0) duel_mag duel_ann
     \<lparr>eb_attackerDamageMinBonus = 0, eb_attackerDamageMaxBonus = 0, eb_attackerCritBonus = 0, eb_defenderDodgeBonus = 0\<rparr>
     no_skill 0 = (26, False)"
  by (simp add: compute_damage_def simple_random_def at_def duel_battle_def new_Battle_def
        duel_ann_def duel_mag_def new_Character_def no_skill_def Let_def STATUS_RAGE_def
        STATUS_SHIELD_def STATUS_NONE_def word_le_nat_alt)

lemma duel_resolve2:
  "resolve_turn (at ''bob'' 6) False duel_ann duel_mag
     \<lparr>eb_attackerDamageMinBonus = 0, eb_attackerDamageMaxBonus = 0, eb_attackerCritBonus = 0, eb_defenderDodgeBonus = 0\<rparr>
     no_skill 0 (duel_battle 1 2 90 68 1 0) = (duel_battle 2 1 64 68 0 1)"
  by (simp add: resolve_turn_def duel_damage2)
     (simp add: duel_battle_def duel_final_def new_Battle_def apply_damage_def apply_dots_def
        tick_status_p1_def tick_status_p2_def advance_turn_def tick_cooldowns_def
        check_finish_def Let_def STATUS_NONE_def STATUS_POISON_def STATUS_BURN_def)

lemma duel_turn2:
  "game_executeTurn (at ''bob'' 6) ''d'' ''mag'' 0 False 0 (duel_store (duel_battle 1 2 90 68 1 0))
     = Inr (duel_store (duel_battle 2 1 64 68 0 1))"
  by (simp add: game_executeTurn_def executeTurn_body_def entry_defs duel_store_def
        init_state_def duel_fields duel_roll2 duel_resolve2 use_skill_def
        load_bonuses_def equipped_def Let_def STATUS_STUN_def SKILL_NONE_def fun_upd_twist)

lemma duel_roll3: "wildcard_roll (at ''alice'' 7) True ''ann'' (duel_battle 2 1 64 68 0 1) = False"
  by (simp add: wildcard_roll_def simple_random_def at_def duel_battle_def new_Battle_def Let_def)

lemma duel_damage3:
  "compute_damage (at ''alice'' 7) True (duel_battle 2 1 64 68 0 1) duel_ann duel_mag
     \<lparr>eb_attackerDamageMinBonus = 0, eb_attackerDamageMaxBonus = 0, eb_attackerCritBonus = 0, eb_defenderDodgeBonus = 0\<rparr>
     no_skill 0 = (36, False)"
  by (simp add: compute_damage_def simple_random_def at_def duel_battle_def new_Battle_def
        duel_ann_def duel_mag_def new_Character_def no_skill_def Let_def STATUS_RAGE_def
        STATUS_SHIELD_def STATUS_NONE_def word_le_nat_alt)

lemma duel_resolve3:
  "resolve_turn (at ''alice'' 7) True duel_ann duel_mag
     \<lparr>eb_attackerDamageMinBonus = 0, eb_attackerDamageMaxBonus = 0, eb_attackerCritBonus = 0, eb_defenderDodgeBonus = 0\<rparr>
     no_skill 0 (duel_battle 2 1 64 68 0 1) = (duel_battle 3 2 64 32 1 0)"
  by (simp add: resolve_turn_def duel_damage3)
     (simp add: duel_battle_def duel_final_def new_Battle_def apply_damage_def apply_dots_def
        tick_status_p1_def tick_status_p2_def advance_turn_def tick_cooldowns_def
        check_finish_def Let_def STATUS_NONE_def STATUS_POISON_def STATUS_BURN_def)

lemma duel_turn3:
  "game_executeTurn (at ''alice'' 7) ''d'' ''ann'' 0 False 0 (duel_store (duel_battle 2 1 64 68 0 1))
     = Inr (duel_store (duel_battle 3 2 64 32 1 0))"
  by (simp add: game_executeTurn_def executeTurn_body_def entry_defs duel_store_def
        init_state_def duel_fields duel_roll3 duel_resolve3 use_skill_def
        load_bonuses_def equipped_def Let_def STATUS_STUN_def SKILL_NONE_def fun_upd_twist)

lemma duel_roll4: "wildcard_roll (at ''bob'' 8) False ''mag'' (duel_battle 3 2 64 32 1 0) = False"
  by (simp add: wildcard_roll_def simple_random_def at_def duel_battle_def new_Battle_def Let_def)

lemma duel_damage4:
  "compute_damage (at ''bob'' 8) False (duel_battle 3 2 64 32 1 0) duel_mag duel_ann
     \<lparr>eb_attackerDamageMinBonus = 0, eb_attackerDamageMaxBonus = 0, eb_attackerCritBonus = 0, eb_defenderDodgeBonus = 0\<rparr>
     no_skill 0 = (0, True)"
  by (simp add: compute_damage_def simple_random_def at_def duel_battle_def new_Battle_def
        duel_ann_def duel_mag_def new_Character_def no_skill_def Let_def STATUS_RAGE_def
        STATUS_SHIELD_def STATUS_NONE_def word_le_nat_alt)

lemma duel_resolve4:
  "resolve_turn (at ''bob'' 8) False duel_ann duel_mag
     \<lparr>eb_attackerDamageMinBonus = 0, eb_attackerDamageMaxBonus = 0, eb_attackerCritBonus = 0, eb_defenderDodgeBonus = 0\<rparr>
     no_skill 0 (duel_battle 3 2 64 32 1 0) = (duel_battle 4 1 64 32 1 0)"
  by (simp add: resolve_turn_def duel_damage4)
     (simp add: duel_battle_def duel_final_def new_Battle_def apply_damage_def apply_dots_def
        tick_status_p1_def tick_status_p2_def advance_turn_def tick_cooldowns_def
        check_finish_def Let_def STATUS_NONE_def STATUS_POISON_def STATUS_BURN_def)

lemma duel_turn4:
  "game_executeTurn (at ''bob'' 8) ''d'' ''mag'' 0 False 0 (duel_store (duel_battle 3 2 64 32 1 0))
     = Inr (duel_store (duel_battle 4 1 64 32 1 0))"
  by (simp add: game_executeTurn_def executeTurn_body_def entry_defs duel_store_def
        init_state_def duel_fields duel_roll4 duel_resolve4 use_skill_def
        load_bonuses_def equipped_def Let_def STATUS_STUN_def SKILL_NONE_def fun_upd_twist)

lemma duel_roll5: "wildcard_roll (at ''alice'' 9) True ''ann'' (duel_battle 4 1 64 32 1 0) = False"
  by (simp add: wildcard_roll_def simple_random_def at_def duel_battle_def new_Battle_def Let_def)

lemma duel_damage5:
  "compute_damage (at ''alice'' 9) True (duel_battle 4 1 64 32 1 0) duel_ann duel_mag
     \<lparr>eb_attackerDamageMinBonus = 0, eb_attackerDamageMaxBonus = 0, eb_attackerCritBonus = 0, eb_defenderDodgeBonus = 0\<rparr>
     no_skill 0 = (36, False)"
  by (simp add: compute_damage_def simple_random_def at_def duel_battle_def new_Battle_def
        duel_ann_def duel_mag_def new_Character_def no_skill_def Let_def STATUS_RAGE_def
        STATUS_SHIELD_def STATUS_NONE_def word_le_nat_alt)

lemma duel_resolve5:
  "resolve_turn (at ''alice'' 9) True duel_ann duel_mag
     \<lparr>eb_attackerDamageMinBonus = 0, eb_attackerDamageMaxBonus = 0, eb_attackerCritBonus = 0, eb_defenderDodgeBonus = 0\<rparr>
     no_skill 0 (duel_battle 4 1 64 32 1 0) = duel_final"
  by (simp add: resolve_turn_def duel_damage5)
     (simp add: duel_battle_def duel_final_def new_Battle_def apply_damage_def apply_dots_def
        tick_status_p1_def tick_status_p2_def advance_turn_def tick_cooldowns_def
        check_finish_def Let_def STATUS_NONE_def STATUS_POISON_def STATUS_BURN_def)

lemma duel_turn5:
  "game_executeTurn (at ''alice'' 9) ''d'' ''ann'' 0 False 0 (duel_store (duel_battle 4 1 64 32 1 0))
     = Inr (duel_store duel_final)"
  by (simp add: game_executeTurn_def executeTurn_body_def entry_defs duel_store_def
        init_state_def duel_fields duel_roll5 duel_resolve5 use_skill_def
        load_bonuses_def equipped_def Let_def STATUS_STUN_def SKILL_NONE_def fun_upd_twist)


lemma reach_step:
  "reachable_in n s \<Longrightarrow> colon_free who \<Longrightarrow> exec (at who t) cl s = Inr s'
     \<Longrightarrow> reachable_in (Suc n) s'"
  using reachable_in.step [of n s "at who t" cl s'] by (simp add: at_def)

lemma duel_callers: "colon_free ''alice''" "colon_free ''bob''"
  by (simp_all add: colon_free_def)

lemma duel_exec:
  "exec (at ''alice'' 1) (CreateCharacter ''ann'' 1 ''Ann'') init_state = Inr duel1"
  "exec (at ''bob'' 2) (CreateCharacter ''mag'' 2 ''Mag'') duel1 = Inr duel2"
  "exec (at ''alice'' 3) (CreateBattle ''d'' ''ann'' ''mag'' 0) duel2
     = Inr (duel_store (duel_battle 0 1 90 80 0 0))"
  "exec (at ''alice'' 4) (ExecuteTurn ''d'' ''ann'' 0 False 0)
     (duel_store (duel_battle 0 1 90 80 0 0)) = Inr (duel_store (duel_battle 1 2 90 68 1 0))"
  "exec (at ''bob'' 6) (ExecuteTurn ''d'' ''mag'' 0 False 0)
     (duel_store (duel_battle 1 2 90 68 1 0)) = Inr (duel_store (duel_battle 2 1 64 68 0 1))"
  "exec (at ''alice'' 7) (ExecuteTurn ''d'' ''ann'' 0 False 0)
     (duel_store (duel_battle 2 1 64 68 0 1)) = Inr (duel_store (duel_battle 3 2 64 32 1 0))"
  "exec (at ''bob'' 8) (ExecuteTurn ''d'' ''mag'' 0 False 0)
     (duel_store (duel_battle 3 2 64 32 1 0)) = Inr (duel_store (duel_battle 4 1 64 32 1 0))"
  by (simp_all add: duel_create_ann duel_create_mag duel_create_battle duel_turn1 duel_turn2
        duel_turn3 duel_turn4)

lemma duel_last:
  "exec (at ''alice'' 9) (ExecuteTurn ''d'' ''ann'' 0 False 0)
     (duel_store (duel_battle 4 1 64 32 1 0)) = Inr (duel_store duel_final)"
  by (simp add: duel_turn5)

lemma duel_reach7: "reachable_in 7 (duel_store (duel_battle 4 1 64 32 1 0))"
proof -
  note r1 = reach_step [OF reachable_in.start duel_callers(1) duel_exec(1)]
  note r2 = reach_step [OF r1 duel_callers(2) duel_exec(2)]
  note r3 = reach_step [OF r2 duel_callers(1) duel_exec(3)]
  note r4 = reach_step [OF r3 duel_callers(1) duel_exec(4)]
  note r5 = reach_step [OF r4 duel_callers(2) duel_exec(5)]
  note r6 = reach_step [OF r5 duel_callers(1) duel_exec(6)]
  note r7 = reach_step [OF r6 duel_callers(2) duel_exec(7)]
  show ?thesis using r7 by (simp add: eval_nat_numeral)
qed

lemma duel_reach8: "reachable_in 8 (duel_store duel_final)"
  using reach_step [OF duel_reach7 duel_callers(1) duel_last] by simp


text \<open>
  C6. In every store the contract can reach, by any sequence of calls of any length
  (character creation, executed turns with the heal skill and the per-turn energy
  regeneration, upgrades, XP grants, heals, battle finalization and every other entry
  point), each stored character has \<open>currentHp\<close> at most \<open>maxHp\<close> and \<open>currentEnergy\<close>
  at most 100.
\<close>

theorem character_bounds_hold:
  assumes "reachable_in n s" and "characters s ident = Some ch"
  shows "ch_currentHp ch \<le> ch_maxHp ch \<and> ch_currentEnergy ch \<le> 100"
  using reachable_within [OF assms(1)] assms(2)
  by (auto simp: chars_within_def char_within_def MAX_ENERGY_def)

text \<open>
  The store at the end of the duel is reached by 8 calls, and the assassin in it is
  within the bounds.
\<close>

theorem character_bounds_hold_witness:
  "reachable_in 8 (duel_store duel_final)
   \<and> characters (duel_store duel_final) ''ann'' = Some duel_ann
   \<and> ch_currentHp duel_ann \<le> ch_maxHp duel_ann \<and> ch_currentEnergy duel_ann \<le> 100"
proof -
  have c: "characters (duel_store duel_final) ''ann'' = Some duel_ann"
    by (simp add: duel_store_def)
  show ?thesis
    using character_bounds_hold [OF duel_reach8 c] duel_reach8 c by simp
qed



end
